theory Spec2Isabelle
  imports Complex_Main "HOL-Library.Multiset"
begin

section \<open>Errors and arrays\<close>

text \<open>
  Every exception the model of \<^verbatim>\<open>dmbrl/modeling/models/NN.py\<close> can raise is a value.
  Floating-point numbers are idealised as \<open>real\<close>; a NumPy or TensorFlow array of rank
  0 to 3 is a number or a nested list. Integers that count things (dimensions, ensemble size,
  epochs) are \<open>nat\<close>; integers that Python may make negative are \<open>int\<close>.
\<close>

datatype error =
    RuntimeError | ValueError | TypeError | AttributeError | ZeroDivisionError
  | IOError | KeyError | IndexError | FailedPreconditionError | OverflowError

type_synonym matrix = "real list list"
type_synonym tensor3 = "real list list list"

datatype ndarray = Arr0 real | Arr1 "real list" | Arr2 matrix | Arr3 tensor3

definition has_shape2 :: "nat \<Rightarrow> nat \<Rightarrow> matrix \<Rightarrow> bool" where
  "has_shape2 r c x = (length x = r \<and> list_all (\<lambda>row. length row = c) x)"

definition has_shape3 :: "nat \<Rightarrow> nat \<Rightarrow> nat \<Rightarrow> tensor3 \<Rightarrow> bool" where
  "has_shape3 e r c t = (length t = e \<and> list_all (has_shape2 r c) t)"

definition bind_err :: "error + 'a \<Rightarrow> ('a \<Rightarrow> error + 'b) \<Rightarrow> error + 'b" where
  "bind_err r f = (case r of Inl e \<Rightarrow> Inl e | Inr v \<Rightarrow> f v)"

text \<open>
  \<^verbatim>\<open>tf.reduce_mean\<close> over a whole vector. On an empty vector TensorFlow gives NaN; here
  the quotient by zero is 0, so every theorem that reads a mean asks for a non-empty axis.
\<close>

definition reduce_mean :: "real list \<Rightarrow> real" where
  "reduce_mean xs = sum_list xs / real (length xs)"

definition vec_add :: "real list \<Rightarrow> real list \<Rightarrow> real list" where
  "vec_add a b = map2 (+) a b"

definition mat_add :: "matrix \<Rightarrow> matrix \<Rightarrow> matrix" where
  "mat_add a b = map2 vec_add a b"

text \<open>
  \<^verbatim>\<open>tf.reduce_mean(t, axis=0)\<close>: the slices along the first axis are added entry by entry
  and the sum is divided by their number. The result has one rank less.
\<close>

fun reduce_mean_axis0 :: "ndarray \<Rightarrow> ndarray" where
  "reduce_mean_axis0 (Arr3 t) =
     Arr2 (case t of [] \<Rightarrow> []
           | a # as \<Rightarrow> map (map (\<lambda>v. v / real (length t))) (foldl mat_add a as))"
| "reduce_mean_axis0 (Arr2 x) =
     Arr1 (case x of [] \<Rightarrow> []
           | a # as \<Rightarrow> map (\<lambda>v. v / real (length x)) (foldl vec_add a as))"
| "reduce_mean_axis0 (Arr1 v) = Arr0 (reduce_mean v)"
| "reduce_mean_axis0 (Arr0 v) = Arr0 v"

text \<open>
  \<^verbatim>\<open>a - b\<close> where \<open>b\<close> has one rank less than \<open>a\<close>: broadcasting subtracts \<open>b\<close> from
  every slice of \<open>a\<close> along the first axis. Only the pairs of ranks that
  \<^verbatim>\<open>factored_mean - mean\<close> can have are given; any other pair is a shape error.
\<close>

definition vec_sub :: "real list \<Rightarrow> real list \<Rightarrow> real list" where
  "vec_sub a b = map2 (-) a b"

definition mat_sub :: "matrix \<Rightarrow> matrix \<Rightarrow> matrix" where
  "mat_sub a b = map2 vec_sub a b"

fun broadcast_sub :: "ndarray \<Rightarrow> ndarray \<Rightarrow> error + ndarray" where
  "broadcast_sub (Arr3 t) (Arr2 x) = Inr (Arr3 (map (\<lambda>a. mat_sub a x) t))"
| "broadcast_sub (Arr2 x) (Arr1 v) = Inr (Arr2 (map (\<lambda>a. vec_sub a v) x))"
| "broadcast_sub (Arr1 v) (Arr0 c) = Inr (Arr1 (map (\<lambda>a. a - c) v))"
| "broadcast_sub (Arr0 a) (Arr0 c) = Inr (Arr0 (a - c))"
| "broadcast_sub _ _ = Inl ValueError"

fun square :: "ndarray \<Rightarrow> ndarray" where
  "square (Arr0 v) = Arr0 (v ^ 2)"
| "square (Arr1 v) = Arr1 (map (\<lambda>a. a ^ 2) v)"
| "square (Arr2 x) = Arr2 (map (map (\<lambda>a. a ^ 2)) x)"
| "square (Arr3 t) = Arr3 (map (map (map (\<lambda>a. a ^ 2))) t)"

text \<open>The variables of the graph, and the session that holds their values.\<close>

datatype var_id = ScalerMu | ScalerSigma | FCWeights nat | FCBiases nat

datatype shape = Shape2 nat nat | Shape3 nat nat nat

record tf_variable =
  var_id :: var_id
  var_shape :: shape
  var_init :: "nat \<Rightarrow> nat \<Rightarrow> nat \<Rightarrow> real"

type_synonym session = "var_id \<Rightarrow> ndarray option"

fun shape_ok :: "shape \<Rightarrow> ndarray \<Rightarrow> bool" where
  "shape_ok (Shape2 r c) (Arr2 x) = has_shape2 r c x"
| "shape_ok (Shape3 e r c) (Arr3 t) = has_shape3 e r c t"
| "shape_ok _ _ = False"

text \<open>The initial value of a variable: an array of its shape, filled by its initializer.\<close>

fun initial_value :: "tf_variable \<Rightarrow> ndarray" where
  "initial_value v =
     (case var_shape v of
        Shape2 r c \<Rightarrow> Arr2 (map (\<lambda>i. map (\<lambda>j. var_init v 0 i j) [0..<c]) [0..<r])
      | Shape3 e r c \<Rightarrow>
          Arr3 (map (\<lambda>a. map (\<lambda>i. map (\<lambda>j. var_init v a i j) [0..<c]) [0..<r]) [0..<e]))"

fun variables_initializer :: "tf_variable list \<Rightarrow> session \<Rightarrow> session" where
  "variables_initializer [] s = s"
| "variables_initializer (v # vs) s = variables_initializer vs (s(var_id v \<mapsto> initial_value v))"

definition get_arr2 :: "session \<Rightarrow> var_id \<Rightarrow> error + matrix" where
  "get_arr2 s v = (case s v of None \<Rightarrow> Inl FailedPreconditionError
                   | Some (Arr2 x) \<Rightarrow> Inr x | Some _ \<Rightarrow> Inl ValueError)"

definition get_arr3 :: "session \<Rightarrow> var_id \<Rightarrow> error + tensor3" where
  "get_arr3 s v = (case s v of None \<Rightarrow> Inl FailedPreconditionError
                   | Some (Arr3 t) \<Rightarrow> Inr t | Some _ \<Rightarrow> Inl ValueError)"

section \<open>The layer and the scaler\<close>

text \<open>
  Modelled from the spec: the class \<^verbatim>\<open>FC\<close> of \<^verbatim>\<open>dmbrl.modeling.layers\<close> is not among the
  sources. A layer has an optional input dimension, an output dimension, an optional
  activation (identity when absent), an optional weight decay and an ensemble size; once
  its variables are constructed it owns a weight tensor of shape
  \<open>[ensemble_size, input_dim, output_dim]\<close> and a bias tensor of shape
  \<open>[ensemble_size, 1, output_dim]\<close>. The weights start from the initializer the
  environment draws, the biases from zero.
\<close>

record FC =
  input_dim :: "nat option"
  output_dim :: nat
  activation :: "(real \<Rightarrow> real) option"
  weight_decay :: "real option"
  ensemble_size :: nat
  weights :: "tf_variable option"
  biases :: "tf_variable option"

definition get_input_dim :: "FC \<Rightarrow> nat option" where
  "get_input_dim l = input_dim l"

definition get_output_dim :: "FC \<Rightarrow> nat" where
  "get_output_dim l = output_dim l"

definition set_input_dim :: "FC \<Rightarrow> nat \<Rightarrow> FC" where
  "set_input_dim l d = l\<lparr>input_dim := Some d\<rparr>"

definition set_ensemble_size :: "FC \<Rightarrow> nat \<Rightarrow> FC" where
  "set_ensemble_size l n = l\<lparr>ensemble_size := n\<rparr>"

text \<open>
  Modelled from the spec: \<^verbatim>\<open>copy()\<close> gives an unconstructed clone that keeps dimensions,
  activation, decay and ensemble size but none of the constructed parameters.
\<close>

definition copy :: "FC \<Rightarrow> FC" where
  "copy l = l\<lparr>weights := None, biases := None\<rparr>"

text \<open>
  Modelled from the spec: \<^verbatim>\<open>construct_vars()\<close> is the only point where the parameters
  come into existence. It is called inside the variable scope \<^verbatim>\<open>Layer<i>\<close>, which is
  what tells the variables of one layer from those of another. Without an input
  dimension there is no shape to allocate.
\<close>

definition construct_vars :: "(nat \<Rightarrow> nat \<Rightarrow> nat \<Rightarrow> nat \<Rightarrow> real) \<Rightarrow> nat \<Rightarrow> FC \<Rightarrow> error + FC" where
  "construct_vars ini i l =
     (case input_dim l of
        None \<Rightarrow> Inl RuntimeError
      | Some d \<Rightarrow>
          Inr (l\<lparr> weights := Some \<lparr> var_id = FCWeights i,
                                     var_shape = Shape3 (ensemble_size l) d (output_dim l),
                                     var_init = ini i \<rparr>,
                   biases := Some \<lparr> var_id = FCBiases i,
                                    var_shape = Shape3 (ensemble_size l) 1 (output_dim l),
                                    var_init = (\<lambda>a r c. 0) \<rparr> \<rparr>))"

definition get_vars :: "FC \<Rightarrow> tf_variable list" where
  "get_vars l = (case (weights l, biases l) of (Some w, Some b) \<Rightarrow> [w, b] | _ \<Rightarrow> [])"

text \<open>
  Modelled from the spec: the decay penalty of a layer is \<open>weight_decay * sum(weight^2)\<close>
  when a weight decay is set, and no contribution otherwise. It is a tensor of the graph:
  its value is read off the current weights.
\<close>

definition get_decays :: "FC \<Rightarrow> (session \<Rightarrow> error + real) list" where
  "get_decays l =
     (case (weight_decay l, weights l) of
        (Some wd, Some w) \<Rightarrow>
          [\<lambda>s. bind_err (get_arr3 s (var_id w))
                  (\<lambda>W. Inr (wd * sum_list (map (\<lambda>v. v ^ 2) (concat (concat W)))))]
      | _ \<Rightarrow> [])"

text \<open>
  Modelled from the spec: \<^verbatim>\<open>compute_output_tensor(x)\<close> is
  \<open>activation(batched_matmul(x, weight) + bias)\<close>. Every member multiplies its batch by its
  own weight matrix: a rank-2 input is one batch shared by all members, a rank-3 input
  holds one batch per member. The result has shape \<open>[ensemble_size, batch, output_dim]\<close>.
\<close>

definition dense_row :: "(real \<Rightarrow> real) \<Rightarrow> nat \<Rightarrow> matrix \<Rightarrow> matrix \<Rightarrow> real list \<Rightarrow> real list" where
  "dense_row act out W b row =
     map (\<lambda>k. act (sum_list (map2 (\<lambda>x wr. x * wr ! k) row W) + hd b ! k)) [0..<out]"

definition dense :: "(real \<Rightarrow> real) \<Rightarrow> nat \<Rightarrow> matrix \<Rightarrow> matrix \<Rightarrow> matrix \<Rightarrow> matrix" where
  "dense act out W b x = map (dense_row act out W b) x"

definition layer_vars :: "FC \<Rightarrow> session \<Rightarrow> error + (tensor3 \<times> tensor3)" where
  "layer_vars l s =
     (case (input_dim l, weights l, biases l) of
        (Some d, Some w, Some b) \<Rightarrow>
          bind_err (get_arr3 s (var_id w)) (\<lambda>W.
          bind_err (get_arr3 s (var_id b)) (\<lambda>B.
            if has_shape3 (ensemble_size l) d (output_dim l) W
               \<and> has_shape3 (ensemble_size l) 1 (output_dim l) B
            then Inr (W, B) else Inl ValueError))
      | _ \<Rightarrow> Inl RuntimeError)"

definition compute_output_tensor :: "FC \<Rightarrow> session \<Rightarrow> ndarray \<Rightarrow> error + ndarray" where
  "compute_output_tensor l s x =
     bind_err (layer_vars l s) (\<lambda>(W, B).
       let act = (case activation l of None \<Rightarrow> (\<lambda>v. v) | Some f \<Rightarrow> f);
           d = the (input_dim l)
       in case x of
            Arr2 x2 \<Rightarrow>
              if list_all (\<lambda>r. length r = d) x2
              then Inr (Arr3 (map2 (\<lambda>We Be. dense act (output_dim l) We Be x2) W B))
              else Inl ValueError
          | Arr3 x3 \<Rightarrow>
              if length x3 = ensemble_size l \<and> list_all (list_all (\<lambda>r. length r = d)) x3
              then Inr (Arr3 (map (\<lambda>(xe, We, Be). dense act (output_dim l) We Be xe)
                                  (zip x3 (zip W B))))
              else Inl ValueError
          | _ \<Rightarrow> Inl ValueError)"

text \<open>
  Modelled from the spec: the class \<^verbatim>\<open>TensorStandardScaler\<close> of \<^verbatim>\<open>dmbrl.modeling.utils\<close> is
  not among the sources. It keeps a mean and a standard deviation per input feature,
  in two variables of shape \<open>[1, x_dim]\<close> that are not optimised. \<^verbatim>\<open>fit\<close> overwrites
  them with the column means and the column standard deviations of the data, the
  deviation floored at a small positive epsilon; \<^verbatim>\<open>transform\<close> is \<open>(x - mean) / std\<close> on
  rank 2 and rank 3 alike. The spec leaves the values before the first fit open: they
  come from the environment's initializer.
\<close>

record TensorStandardScaler =
  x_dim :: nat
  mu :: tf_variable
  sigma :: tf_variable

definition new_scaler :: "(nat \<Rightarrow> nat \<Rightarrow> real) \<Rightarrow> nat \<Rightarrow> TensorStandardScaler" where
  "new_scaler ini d =
     \<lparr> x_dim = d,
       mu = \<lparr> var_id = ScalerMu, var_shape = Shape2 1 d, var_init = (\<lambda>a r c. ini 0 c) \<rparr>,
       sigma = \<lparr> var_id = ScalerSigma, var_shape = Shape2 1 d, var_init = (\<lambda>a r c. ini 1 c) \<rparr> \<rparr>"

definition scaler_get_vars :: "TensorStandardScaler \<Rightarrow> tf_variable list" where
  "scaler_get_vars sc = [mu sc, sigma sc]"

definition scaler_eps :: real where
  "scaler_eps = 1 / 10 ^ 8"

definition column :: "matrix \<Rightarrow> nat \<Rightarrow> real list" where
  "column x k = map (\<lambda>row. row ! k) x"

definition column_std :: "matrix \<Rightarrow> nat \<Rightarrow> real" where
  "column_std x k =
     sqrt (reduce_mean (map (\<lambda>v. (v - reduce_mean (column x k)) ^ 2) (column x k)))"

definition fit :: "TensorStandardScaler \<Rightarrow> session \<Rightarrow> matrix \<Rightarrow> error + session" where
  "fit sc s data =
     (if list_all (\<lambda>r. length r = x_dim sc) data
      then Inr (s(var_id (mu sc) \<mapsto> Arr2 [map (\<lambda>k. reduce_mean (column data k)) [0..<x_dim sc]],
                  var_id (sigma sc) \<mapsto>
                    Arr2 [map (\<lambda>k. max (column_std data k) scaler_eps) [0..<x_dim sc]]))
      else Inl ValueError)"

definition scale_row :: "real list \<Rightarrow> real list \<Rightarrow> real list \<Rightarrow> real list" where
  "scale_row m sd row = map (\<lambda>k. (row ! k - m ! k) / sd ! k) [0..<length row]"

definition scaler_vars :: "TensorStandardScaler \<Rightarrow> session \<Rightarrow> error + (real list \<times> real list)" where
  "scaler_vars sc s =
     bind_err (get_arr2 s (var_id (mu sc))) (\<lambda>M.
     bind_err (get_arr2 s (var_id (sigma sc))) (\<lambda>S.
       if has_shape2 1 (x_dim sc) M \<and> has_shape2 1 (x_dim sc) S
       then Inr (hd M, hd S) else Inl ValueError))"

definition transform :: "TensorStandardScaler \<Rightarrow> session \<Rightarrow> ndarray \<Rightarrow> error + ndarray" where
  "transform sc s x =
     bind_err (scaler_vars sc s) (\<lambda>(m, sd).
       case x of
         Arr2 x2 \<Rightarrow>
           if list_all (\<lambda>r. length r = x_dim sc) x2
           then Inr (Arr2 (map (scale_row m sd) x2)) else Inl ValueError
       | Arr3 x3 \<Rightarrow>
           if list_all (list_all (\<lambda>r. length r = x_dim sc)) x3
           then Inr (Arr3 (map (map (scale_row m sd)) x3)) else Inl ValueError
       | _ \<Rightarrow> Inl ValueError)"

section \<open>The model object\<close>

text \<open>
  A tensor of the graph is the function that evaluates it: from the values of the
  variables (the session) and the values fed to the placeholders to a result, or to an
  error. A placeholder is its static shape, the batch axis left out (it is open) and a
  dimension that is not known written \<open>None\<close>. What \<^verbatim>\<open>None\<close> is in Python is \<open>None\<close> here.
  The optimizer is the caller's class: \<^verbatim>\<open>minimize(loss, var_list)\<close> turns a loss into an
  update of the session.
\<close>

type_synonym optimizer =
  "(session \<Rightarrow> error + real) \<Rightarrow> tf_variable list \<Rightarrow> session \<Rightarrow> session"

record NN =
  name :: string
  model_dir :: "string option"
  sess :: session
  finalized :: bool
  layers :: "FC list"
  decays :: "(session \<Rightarrow> error + real) list"
  optvars :: "tf_variable list"
  nonoptvars :: "tf_variable list"
  scaler :: "TensorStandardScaler option"
  optimizer :: "optimizer option"
  sy_train_in :: "(nat \<times> nat option) option"
  sy_train_targ :: "(nat \<times> nat option) option"
  train_op :: "(session \<Rightarrow> tensor3 \<Rightarrow> tensor3 \<Rightarrow> error + session) option"
  mse_loss :: "(session \<Rightarrow> tensor3 \<Rightarrow> tensor3 \<Rightarrow> error + real list) option"
  sy_pred_in2d :: "nat option option"
  sy_pred_mean2d_fac :: "(session \<Rightarrow> matrix \<Rightarrow> error + ndarray) option"
  sy_pred_mean2d :: "(session \<Rightarrow> matrix \<Rightarrow> error + ndarray) option"
  sy_pred_var2d :: "(session \<Rightarrow> matrix \<Rightarrow> error + ndarray) option"
  sy_pred_in3d :: "(nat \<times> nat option) option"
  sy_pred_mean3d_fac :: "(session \<Rightarrow> tensor3 \<Rightarrow> error + ndarray) option"
  num_nets :: nat
  model_loaded :: bool
  load_model_values :: bool

text \<open>
  The construction parameters, a \<^verbatim>\<open>DotMap\<close>: an absent key is \<open>None\<close>.
  \<^verbatim>\<open>get_required_argument\<close> (of \<^verbatim>\<open>dmbrl.misc.DotmapUtils\<close>, not among the sources) raises
  when the name is absent.
\<close>

record params =
  p_name :: "string option"
  p_num_networks :: "nat option"
  p_model_dir :: "string option"
  p_load_model :: "bool option"
  p_sess :: "session option"

definition params_get :: "'a option \<Rightarrow> 'a \<Rightarrow> 'a" where
  "params_get v d = (case v of None \<Rightarrow> d | Some x \<Rightarrow> x)"

definition NN_init :: "params \<Rightarrow> error + NN" where
  "NN_init p =
    (case p_name p of
       None \<Rightarrow> Inl ValueError
     | Some n \<Rightarrow>
        (let m = \<lparr> name = n, model_dir = p_model_dir p,
                   sess = (case p_sess p of None \<Rightarrow> Map.empty | Some s \<Rightarrow> s),
                   finalized = False, layers = [], decays = [], optvars = [], nonoptvars = [],
                   scaler = None, optimizer = None,
                   sy_train_in = None, sy_train_targ = None, train_op = None, mse_loss = None,
                   sy_pred_in2d = None, sy_pred_mean2d_fac = None,
                   sy_pred_mean2d = None, sy_pred_var2d = None,
                   sy_pred_in3d = None, sy_pred_mean3d_fac = None,
                   num_nets = 0, model_loaded = False, load_model_values = False \<rparr>
         in if params_get (p_load_model p) False then
              (if model_dir m = None then Inl ValueError
               else Inr (m\<lparr> num_nets := params_get (p_num_networks p) 1,
                            model_loaded := False, load_model_values := True \<rparr>))
            else Inr (m\<lparr> num_nets := params_get (p_num_networks p) 1,
                          model_loaded := False, load_model_values := False \<rparr>)))"

definition is_probabilistic :: "NN \<Rightarrow> bool" where
  "is_probabilistic m = (if num_nets m > 1 then True else False)"

subsection \<open>Network structure\<close>

text \<open>
  \<^verbatim>\<open>add\<close> sets the ensemble size and, after the first layer, the input dimension on the
  caller's layer object, then appends a copy of it: the result is the model and the
  caller's layer as mutated.
\<close>

definition add :: "NN \<Rightarrow> FC \<Rightarrow> error + (NN \<times> FC)" where
  "add m layer =
    (if finalized m then Inl RuntimeError
     else if length (layers m) = 0 \<and> get_input_dim layer = None then Inl ValueError
     else if model_loaded m then Inl RuntimeError
     else
       (let layer1 = set_ensemble_size layer (num_nets m);
            layer2 = (if length (layers m) > 0
                      then set_input_dim layer1 (get_output_dim (last (layers m)))
                      else layer1)
        in Inr (m\<lparr>layers := layers m @ [copy layer2]\<rparr>, layer2)))"

definition pop :: "NN \<Rightarrow> error + (FC \<times> NN)" where
  "pop m =
    (if length (layers m) = 0 then Inl RuntimeError
     else if finalized m then Inl RuntimeError
     else if model_loaded m then Inl RuntimeError
     else Inr (last (layers m), m\<lparr>layers := butlast (layers m)\<rparr>))"

subsection \<open>Compilation methods\<close>

fun layers_output :: "FC list \<Rightarrow> session \<Rightarrow> ndarray \<Rightarrow> error + ndarray" where
  "layers_output [] s cur_out = Inr cur_out"
| "layers_output (layer # rest) s cur_out =
     bind_err (compute_output_tensor layer s cur_out) (layers_output rest s)"

definition compile_outputs :: "NN \<Rightarrow> session \<Rightarrow> ndarray \<Rightarrow> error + ndarray" where
  "compile_outputs m s inputs =
     (case scaler m of
        None \<Rightarrow> Inl AttributeError
      | Some sc \<Rightarrow> bind_err (transform sc s inputs) (layers_output (layers m) s))"

text \<open>
  \<^verbatim>\<open>_compile_losses\<close>: the squared difference, halved, is averaged over the last axis
  (the output dimension) and then over the axis that is last after that (the batch):
  one number per member.
\<close>

definition half_squared_error :: "real list \<Rightarrow> real list \<Rightarrow> real list" where
  "half_squared_error p t = map2 (\<lambda>a b. (a - b) ^ 2 / 2) p t"

definition member_loss :: "matrix \<Rightarrow> matrix \<Rightarrow> real" where
  "member_loss p t = reduce_mean (map2 (\<lambda>pr tr. reduce_mean (half_squared_error pr tr)) p t)"

definition compile_losses :: "NN \<Rightarrow> session \<Rightarrow> tensor3 \<Rightarrow> tensor3 \<Rightarrow> error + real list" where
  "compile_losses m s inputs targets =
     bind_err (compile_outputs m s (Arr3 inputs)) (\<lambda>mean.
       case mean of
         Arr3 p \<Rightarrow>
           if map (map length) p = map (map length) targets
           then Inr (map2 member_loss p targets)
           else Inl ValueError
       | _ \<Rightarrow> Inl ValueError)"

fun rank :: "ndarray \<Rightarrow> nat" where
  "rank (Arr0 _) = 0"
| "rank (Arr1 _) = 1"
| "rank (Arr2 _) = 2"
| "rank (Arr3 _) = 3"

definition create_prediction_tensors ::
    "NN \<Rightarrow> session \<Rightarrow> ndarray \<Rightarrow> bool \<Rightarrow> error + (ndarray \<times> ndarray option)" where
  "create_prediction_tensors m s inputs factored =
     bind_err (compile_outputs m s inputs) (\<lambda>factored_mean.
       if rank inputs = 2 \<and> \<not> factored then
         (let mean = reduce_mean_axis0 factored_mean
          in bind_err (broadcast_sub factored_mean mean) (\<lambda>diff.
               Inr (mean, Some (reduce_mean_axis0 (square diff)))))
       else Inr (factored_mean, None))"

subsection \<open>Finalizing\<close>

text \<open>
  \<^verbatim>\<open>tf.add_n\<close> refuses an empty list when the graph is built; on a non-empty list it is
  the tensor whose value is the sum.
\<close>

fun sum_results :: "(error + real) list \<Rightarrow> error + real" where
  "sum_results [] = Inr 0"
| "sum_results (r # rs) = bind_err r (\<lambda>v. bind_err (sum_results rs) (\<lambda>w. Inr (v + w)))"

definition add_n :: "(session \<Rightarrow> error + real) list \<Rightarrow> error + (session \<Rightarrow> error + real)" where
  "add_n ts = (case ts of [] \<Rightarrow> Inl ValueError
               | _ # _ \<Rightarrow> Inr (\<lambda>s. sum_results (map (\<lambda>t. t s) ts)))"

text \<open>
  The training loss of lines 170-171: \<^verbatim>\<open>tf.reduce_sum\<close> of the members' losses plus the
  sum of the decays.
\<close>

definition train_loss ::
    "NN \<Rightarrow> (session \<Rightarrow> error + real) \<Rightarrow> session \<Rightarrow> tensor3 \<Rightarrow> tensor3 \<Rightarrow> error + real" where
  "train_loss m total_decay s inputs targets =
     bind_err (compile_losses m s inputs targets) (\<lambda>losses.
     bind_err (total_decay s) (\<lambda>d. Inr (sum_list losses + d)))"

text \<open>
  Running the operation that \<^verbatim>\<open>minimize\<close> returns evaluates the loss at the fed batch
  (an error there is the error of the run) and lets the optimizer update the session.
\<close>

definition minimize ::
    "optimizer \<Rightarrow> (session \<Rightarrow> tensor3 \<Rightarrow> tensor3 \<Rightarrow> error + real) \<Rightarrow> tf_variable list
      \<Rightarrow> session \<Rightarrow> tensor3 \<Rightarrow> tensor3 \<Rightarrow> error + session" where
  "minimize opt loss var_list s x y =
     bind_err (loss s x y) (\<lambda>_. Inr (opt (\<lambda>s'. loss s' x y) var_list s))"

text \<open>
  What the environment gives: the random initial weights, the values of the scaler's
  variables before the first fit, the names the layer and scaler classes give their
  variables inside their scope, and the files on disk.
\<close>

datatype disk_file =
    TextFile "string list"
  | MatFile "(string \<times> ndarray) list"
  | NpzFile "(string \<times> ndarray) list"

type_synonym filesystem = "string \<Rightarrow> disk_file option"

record environment =
  weight_initializer :: "nat \<Rightarrow> nat \<Rightarrow> nat \<Rightarrow> nat \<Rightarrow> real"
  scaler_initializer :: "nat \<Rightarrow> nat \<Rightarrow> real"
  leaf_name :: "var_id \<Rightarrow> string"
  files :: filesystem

text \<open>
  Lines 151-158, the loop over \<^verbatim>\<open>enumerate(self.layers)\<close>: the layers are constructed in
  place, their decays and variables collected. When a layer fails, the layers before it
  stay constructed and collected.
\<close>

fun construct_layers ::
    "(nat \<Rightarrow> nat \<Rightarrow> nat \<Rightarrow> nat \<Rightarrow> real) \<Rightarrow> nat \<Rightarrow> FC list \<Rightarrow> (session \<Rightarrow> error + real) list
      \<Rightarrow> tf_variable list
      \<Rightarrow> error option \<times> FC list \<times> (session \<Rightarrow> error + real) list \<times> tf_variable list" where
  "construct_layers ini i [] ds vs = (None, [], ds, vs)"
| "construct_layers ini i (layer # rest) ds vs =
     (case construct_vars ini i layer of
        Inl e \<Rightarrow> (Some e, layer # rest, ds, vs)
      | Inr layer' \<Rightarrow>
          (case construct_layers ini (Suc i) rest (ds @ get_decays layer') (vs @ get_vars layer') of
             (e, rest', ds', vs') \<Rightarrow> (e, layer' # rest', ds', vs')))"

text \<open>The decimal digits of a number, as \<^verbatim>\<open>"%i"\<close> and \<^verbatim>\<open>str\<close> write it.\<close>

fun string_of_nat :: "nat \<Rightarrow> string" where
  "string_of_nat n =
     (if n < 10 then [char_of (48 + n)]
      else string_of_nat (n div 10) @ [char_of (48 + n mod 10)])"

declare string_of_nat.simps [simp del]

text \<open>
  The name of a variable's tensor: the scope of the model's name, for a layer's variable
  the scope \<^verbatim>\<open>Layer<i>\<close>, then the name its class gives it, then \<^verbatim>\<open>:0\<close>.
\<close>

definition layer_scope :: "var_id \<Rightarrow> string" where
  "layer_scope v =
     (case v of FCWeights i \<Rightarrow> ''Layer'' @ string_of_nat i @ ''/''
              | FCBiases i \<Rightarrow> ''Layer'' @ string_of_nat i @ ''/''
              | _ \<Rightarrow> [])"

definition tensor_name :: "string \<Rightarrow> (var_id \<Rightarrow> string) \<Rightarrow> var_id \<Rightarrow> string" where
  "tensor_name model_name leaf v = model_name @ ''/'' @ layer_scope v @ leaf v @ '':0''"

definition get_tensor_by_name ::
    "NN \<Rightarrow> (var_id \<Rightarrow> string) \<Rightarrow> string \<Rightarrow> tf_variable option" where
  "get_tensor_by_name m leaf nm =
     find (\<lambda>v. tensor_name (name m) leaf (var_id v) = nm) (optvars m @ nonoptvars m)"

text \<open>
  \<^verbatim>\<open>np.load\<close> reads an \<^verbatim>\<open>.npz\<close> archive; a missing file, or a file that is not one,
  raises. Lines 208-211 assign the archive's arrays one after the other: a name that
  is no variable of the graph raises, and so does an array of another shape; what was
  assigned before stays assigned.
\<close>

definition np_load :: "filesystem \<Rightarrow> string \<Rightarrow> error + (string \<times> ndarray) list" where
  "np_load fs path = (case fs path of Some (NpzFile d) \<Rightarrow> Inr d | _ \<Rightarrow> Inl IOError)"

fun assign_all ::
    "(string \<Rightarrow> tf_variable option) \<Rightarrow> (string \<times> ndarray) list \<Rightarrow> session
      \<Rightarrow> error option \<times> session" where
  "assign_all g [] s = (None, s)"
| "assign_all g ((var_name, v) # rest) s =
     (case g (var_name @ '':0'') of
        None \<Rightarrow> (Some KeyError, s)
      | Some t \<Rightarrow>
          if shape_ok (var_shape t) v then assign_all g rest (s(var_id t \<mapsto> v))
          else (Some ValueError, s))"

text \<open>
  \<^verbatim>\<open>finalize\<close> in four stages. A stage that raises returns the model as the statements
  before the raise left it: the object outlives the exception.
\<close>

definition finalize_construct :: "NN \<Rightarrow> environment \<Rightarrow> error option \<times> NN" where
  "finalize_construct m env =
     (case get_input_dim (hd (layers m)) of
        None \<Rightarrow> (Some ValueError, m)
      | Some d \<Rightarrow>
          (let sc = new_scaler (scaler_initializer env) d;
               m1 = m\<lparr>scaler := Some sc\<rparr>
           in case construct_layers (weight_initializer env) 0 (layers m1) (decays m1) (optvars m1) of
                (Some e, ls, ds, vs) \<Rightarrow> (Some e, m1\<lparr>layers := ls, decays := ds, optvars := vs\<rparr>)
              | (None, ls, ds, vs) \<Rightarrow>
                  (None, m1\<lparr>layers := ls, decays := ds, optvars := vs,
                             nonoptvars := nonoptvars m1 @ scaler_get_vars sc\<rparr>)))"

definition finalize_training :: "NN \<Rightarrow> optimizer \<Rightarrow> error option \<times> NN" where
  "finalize_training m opt =
     (let m1 = m\<lparr> optimizer := Some opt,
                   sy_train_in := Some (num_nets m, get_input_dim (hd (layers m))),
                   sy_train_targ := Some (num_nets m, Some (get_output_dim (last (layers m)))) \<rparr>
      in case add_n (decays m1) of
           Inl e \<Rightarrow> (Some e, m1)
         | Inr total_decay \<Rightarrow>
             (None, m1\<lparr> mse_loss := Some (compile_losses m1),
                         train_op := Some (minimize opt (train_loss m1 total_decay) (optvars m1)) \<rparr>))"

definition finalize_prediction :: "NN \<Rightarrow> NN" where
  "finalize_prediction m =
     (let fac = (\<lambda>s x. bind_err (create_prediction_tensors m s (Arr2 x) True) (\<lambda>r. Inr (fst r)));
          mean2d = (\<lambda>s x. bind_err (fac s x) (\<lambda>f. Inr (reduce_mean_axis0 f)));
          var2d = (\<lambda>s x. bind_err (fac s x) (\<lambda>f. bind_err (mean2d s x) (\<lambda>mn.
                     bind_err (broadcast_sub f mn) (\<lambda>d. Inr (reduce_mean_axis0 (square d))))))
      in m\<lparr> sy_pred_in2d := Some (get_input_dim (hd (layers m))),
            sy_pred_mean2d_fac := Some fac,
            sy_pred_mean2d := Some mean2d,
            sy_pred_var2d := Some var2d,
            sy_pred_in3d := Some (num_nets m, get_input_dim (hd (layers m))),
            sy_pred_mean3d_fac :=
              Some (\<lambda>s x. bind_err (create_prediction_tensors m s (Arr3 x) True)
                            (\<lambda>r. Inr (fst r))) \<rparr>)"

definition finalize_load :: "NN \<Rightarrow> environment \<Rightarrow> error option \<times> NN" where
  "finalize_load m env =
     (if model_loaded m \<or> load_model_values m then
        (case model_dir m of
           None \<Rightarrow> (Some TypeError, m)
         | Some load_path \<Rightarrow>
             (case np_load (files env) load_path of
                Inl e \<Rightarrow> (Some e, m)
              | Inr data \<Rightarrow>
                  (case assign_all (get_tensor_by_name m (leaf_name env)) data (sess m) of
                     (e, s) \<Rightarrow> (e, m\<lparr>sess := s\<rparr>))))
      else (None, m))"

definition finalize :: "NN \<Rightarrow> optimizer \<Rightarrow> environment \<Rightarrow> error option \<times> NN" where
  "finalize m opt env =
     (if length (layers m) = 0 then (Some RuntimeError, m)
      else if finalized m then (Some RuntimeError, m)
      else
        (case finalize_construct (m\<lparr>optimizer := Some opt\<rparr>) env of
           (Some e, m1) \<Rightarrow> (Some e, m1)
         | (None, m1) \<Rightarrow>
             (case finalize_training m1 opt of
                (Some e, m2) \<Rightarrow> (Some e, m2)
              | (None, m2) \<Rightarrow>
                  (let m3 = m2\<lparr>sess := variables_initializer (optvars m2 @ nonoptvars m2) (sess m2)\<rparr>;
                       m4 = finalize_prediction m3
                   in case finalize_load m4 env of
                        (Some e, m5) \<Rightarrow> (Some e, m5)
                      | (None, m5) \<Rightarrow> (None, m5\<lparr>finalized := True\<rparr>)))))"

subsection \<open>Running the graph\<close>

text \<open>
  \<^verbatim>\<open>sess.run(fetch, feed_dict)\<close>: a fetch or a placeholder that is still \<^verbatim>\<open>None\<close> raises (a
  \<^verbatim>\<open>TypeError\<close> here; while the graph of the session is still empty TensorFlow raises a
  \<^verbatim>\<open>RuntimeError\<close> before it looks at the fetch, and no statement below depends on which
  of the two it is); a fed array that does not fit the placeholder's shape is a value
  error. A fed array is rectangular, as every NumPy array is.
\<close>

definition feed_ok2 :: "nat option \<Rightarrow> matrix \<Rightarrow> bool" where
  "feed_ok2 d x =
     (case d of None \<Rightarrow> list_all (\<lambda>r. length r = length (hd x)) x
              | Some c \<Rightarrow> list_all (\<lambda>r. length r = c) x)"

definition feed_ok3 :: "nat \<times> nat option \<Rightarrow> tensor3 \<Rightarrow> bool" where
  "feed_ok3 ph x =
     (length x = fst ph \<and> list_all (\<lambda>b. length b = length (hd x)) x
      \<and> list_all (feed_ok2 (snd ph)) x)"

definition sess_run_pred2d ::
    "NN \<Rightarrow> (session \<Rightarrow> matrix \<Rightarrow> error + ndarray) option \<Rightarrow> matrix \<Rightarrow> error + ndarray" where
  "sess_run_pred2d m fetch x =
     (case (fetch, sy_pred_in2d m) of
        (Some g, Some d) \<Rightarrow> if feed_ok2 d x then g (sess m) x else Inl ValueError
      | _ \<Rightarrow> Inl TypeError)"

definition sess_run_pred3d ::
    "NN \<Rightarrow> (session \<Rightarrow> tensor3 \<Rightarrow> error + ndarray) option \<Rightarrow> tensor3 \<Rightarrow> error + ndarray" where
  "sess_run_pred3d m fetch x =
     (case (fetch, sy_pred_in3d m) of
        (Some g, Some ph) \<Rightarrow> if feed_ok3 ph x then g (sess m) x else Inl ValueError
      | _ \<Rightarrow> Inl TypeError)"

definition sess_run_train ::
    "NN \<Rightarrow> (session \<Rightarrow> tensor3 \<Rightarrow> tensor3 \<Rightarrow> error + 'a) option \<Rightarrow> session \<Rightarrow> tensor3 \<Rightarrow> tensor3
      \<Rightarrow> error + 'a" where
  "sess_run_train m fetch s x y =
     (case (fetch, sy_train_in m, sy_train_targ m) of
        (Some g, Some pin, Some ptarg) \<Rightarrow>
          if feed_ok3 pin x \<and> feed_ok3 ptarg y then g s x y else Inl ValueError
      | _ \<Rightarrow> Inl TypeError)"

subsection \<open>Prediction\<close>

text \<open>
  \<^verbatim>\<open>predict\<close> returns the pair \<^verbatim>\<open>(mean, None)\<close> on the factored and the rank-3 paths and
  the pair of mean and variance on the aggregated path. An input that is not of rank
  2 takes the rank-3 path, where an array of rank below 3 does not fit the placeholder.
\<close>

definition predict :: "NN \<Rightarrow> ndarray \<Rightarrow> bool \<Rightarrow> error + (ndarray \<times> ndarray option)" where
  "predict m inputs factored =
     (case inputs of
        Arr2 x \<Rightarrow>
          if factored then
            bind_err (sess_run_pred2d m (sy_pred_mean2d_fac m) x) (\<lambda>mean. Inr (mean, None))
          else
            (case (sy_pred_mean2d m, sy_pred_var2d m) of
               (Some _, Some _) \<Rightarrow>
                 bind_err (sess_run_pred2d m (sy_pred_mean2d m) x) (\<lambda>mean.
                 bind_err (sess_run_pred2d m (sy_pred_var2d m) x) (\<lambda>var.
                   Inr (mean, Some var)))
             | _ \<Rightarrow> Inl TypeError)
      | Arr3 x \<Rightarrow>
          bind_err (sess_run_pred3d m (sy_pred_mean3d_fac m) x) (\<lambda>mean. Inr (mean, None))
      | _ \<Rightarrow> (case (sy_pred_mean3d_fac m, sy_pred_in3d m) of
                (Some _, Some _) \<Rightarrow> Inl ValueError | _ \<Rightarrow> Inl TypeError))"

subsection \<open>Saving\<close>

text \<open>
  \<^verbatim>\<open>os.path.join\<close> on two components. \<^verbatim>\<open>repr(layer)\<close> is the layer class's own and comes
  as a parameter. The structure file has one line per layer; the parameter file is a
  MAT-file whose keys are the positions \<^verbatim>\<open>str(i)\<close> in \<^verbatim>\<open>nonoptvars + optvars\<close>.
\<close>

definition path_join :: "string \<Rightarrow> string \<Rightarrow> string" where
  "path_join a b =
     (if b \<noteq> [] \<and> hd b = CHR ''/'' then b
      else if a = [] \<or> last a = CHR ''/'' then a @ b
      else a @ ''/'' @ b)"

fun run_variables :: "session \<Rightarrow> tf_variable list \<Rightarrow> error + ndarray list" where
  "run_variables s [] = Inr []"
| "run_variables s (v # vs) =
     (case s (var_id v) of
        None \<Rightarrow> Inl FailedPreconditionError
      | Some a \<Rightarrow> bind_err (run_variables s vs) (\<lambda>as. Inr (a # as)))"

definition save :: "NN \<Rightarrow> string option \<Rightarrow> (FC \<Rightarrow> string) \<Rightarrow> filesystem \<Rightarrow> error + filesystem" where
  "save m savedir repr fs =
     (if \<not> finalized m then Inl RuntimeError
      else
        (case (case savedir of None \<Rightarrow> model_dir m | Some d \<Rightarrow> Some d) of
           None \<Rightarrow> Inl TypeError
         | Some dir \<Rightarrow>
             (let fs1 = fs(path_join dir (name m @ ''.nns'')
                             \<mapsto> TextFile (map (\<lambda>layer. repr layer @ [CHR 0x0A]) (layers m)))
              in bind_err (run_variables (sess m) (nonoptvars m @ optvars m)) (\<lambda>vals.
                   Inr (fs1(path_join dir (name m @ ''.mat'')
                              \<mapsto> MatFile (map (\<lambda>(i, v). (string_of_nat i, v))
                                                (enumerate 0 vals))))))))"

subsection \<open>Double-precision arithmetic\<close>

text \<open>
  Line 228 multiplies the number of rows by the holdout ratio in double precision and
  truncates the product. A finite double is the real number it stands for.
  \<open>round_to_double\<close> is the rounding of IEEE 754 binary64 arithmetic: the double
  nearest to a real, of two that are equally near the one whose mantissa is even, with
  53 bits of mantissa down to the exponent -1022 and a fixed spacing of \<open>2^-1074\<close> below
  it; \<open>None\<close> when the rounded magnitude is beyond the largest double, where the
  arithmetic gives an infinity. \<open>floor_log2 a\<close>, for a positive \<open>a\<close>, is the exponent \<open>e\<close>
  with \<open>2^e \<le> a < 2^(e+1)\<close>.
\<close>

function bit_length :: "int \<Rightarrow> int" where
  "bit_length n = (if n \<le> 0 then 0 else 1 + bit_length (n div 2))"
  by pat_completeness auto

termination
  by (relation "measure nat") auto

declare bit_length.simps [simp del]

definition pow2 :: "int \<Rightarrow> real" where
  "pow2 e = (if 0 \<le> e then 2 ^ nat e else 1 / 2 ^ nat (- e))"

definition floor_log2 :: "real \<Rightarrow> int" where
  "floor_log2 a =
     (if 1 \<le> a then bit_length \<lfloor>a\<rfloor> - 1
      else (let k = bit_length \<lfloor>1 / a\<rfloor> - 1
            in if a * pow2 k = 1 then - k else - k - 1))"

definition round_half_even :: "real \<Rightarrow> int" where
  "round_half_even q =
     (let n = \<lfloor>q\<rfloor>; f = q - of_int n
      in if f < 1 / 2 then n else if 1 / 2 < f then n + 1
         else if even n then n else n + 1)"

definition round_to_double :: "real \<Rightarrow> real option" where
  "round_to_double x =
     (if x = 0 then Some 0
      else if 1023 < floor_log2 \<bar>x\<bar> then None
      else (let e = max (floor_log2 \<bar>x\<bar>) (- 1022);
                n = round_half_even (\<bar>x\<bar> / pow2 (e - 52))
            in if e = 1023 \<and> n = 9007199254740992 then None
               else Some (sgn x * (of_int n * pow2 (e - 52)))))"

text \<open>\<^verbatim>\<open>int(x)\<close> on a finite float truncates towards zero.\<close>

definition py_int :: "real \<Rightarrow> int" where
  "py_int x = (if 0 \<le> x then \<lfloor>x\<rfloor> else \<lceil>x\<rceil>)"

text \<open>The literal \<^verbatim>\<open>1e-12\<close> of line 252 is the double nearest to it.\<close>

definition holdout_threshold :: real where
  "holdout_threshold = the (round_to_double (1 / 10 ^ 12))"

subsection \<open>Training\<close>

text \<open>
  The random draws of a call come from outside. A permutation is the order that sorts
  random keys (every permutation is the order of some keys); a bootstrap index is a
  draw reduced into the range. \<^verbatim>\<open>np.random.randint(high, size=[rows, cols])\<close> on an empty
  range, \<^verbatim>\<open>high = 0\<close>, raises when an entry is to be drawn; when no entry is to be drawn
  (the size has a zero) current NumPy releases return the empty array, and old
  releases raise all the same (\<^verbatim>\<open>low >= high\<close>). Which of the two the installed NumPy
  does is a field of the source of draws.
\<close>

record rng =
  permutation_keys :: "nat \<Rightarrow> real"
  randint_draws :: "nat \<Rightarrow> nat \<Rightarrow> nat"
  uniform_draws :: "nat \<Rightarrow> nat \<Rightarrow> nat \<Rightarrow> real"
  empty_range_raises :: bool

definition np_random_permutation :: "rng \<Rightarrow> nat \<Rightarrow> nat list" where
  "np_random_permutation g n = sort_key (permutation_keys g) [0..<n]"

definition np_random_randint :: "rng \<Rightarrow> nat \<Rightarrow> nat \<Rightarrow> nat \<Rightarrow> error + nat list list" where
  "np_random_randint g high rows cols =
     (if high = 0 \<and> (empty_range_raises g \<or> rows * cols \<noteq> 0) then Inl ValueError
      else Inr (map (\<lambda>i. map (\<lambda>j. randint_draws g i j mod high) [0..<cols]) [0..<rows]))"

text \<open>
  Python's slices \<^verbatim>\<open>xs[k:]\<close> and \<^verbatim>\<open>xs[:k]\<close>: a negative bound counts from the end, and
  every bound is clamped into the list.
\<close>

definition slice_index :: "nat \<Rightarrow> int \<Rightarrow> nat" where
  "slice_index n k = (if k < 0 then nat (max 0 (int n + k)) else min n (nat k))"

definition slice_from :: "'a list \<Rightarrow> int \<Rightarrow> 'a list" where
  "slice_from xs k = drop (slice_index (length xs) k) xs"

definition slice_to :: "'a list \<Rightarrow> int \<Rightarrow> 'a list" where
  "slice_to xs k = take (slice_index (length xs) k) xs"

text \<open>
  Lines 228-229. \<^verbatim>\<open>num_holdout = min(int(inputs.shape[0] * holdout_ratio), max_logging)\<close>:
  the number of rows is converted to a double, the product is rounded to a double, and
  \<^verbatim>\<open>int\<close> truncates it; a row count or a product beyond the largest double raises
  \<^verbatim>\<open>OverflowError\<close>. The holdout ratio is a finite double. The held-out rows are
  \<^verbatim>\<open>permutation[:num_holdout]\<close> and the retained rows \<^verbatim>\<open>permutation[num_holdout:]\<close> of a random
  permutation of the row numbers.
\<close>

definition num_holdout_of :: "nat \<Rightarrow> real \<Rightarrow> int \<Rightarrow> error + int" where
  "num_holdout_of n holdout_ratio max_logging =
     (case round_to_double (real n) of
        None \<Rightarrow> Inl OverflowError
      | Some rows \<Rightarrow>
          (case round_to_double (rows * holdout_ratio) of
             None \<Rightarrow> Inl OverflowError
           | Some product \<Rightarrow> Inr (min (py_int product) max_logging)))"

definition held_rows :: "rng \<Rightarrow> nat \<Rightarrow> int \<Rightarrow> nat list" where
  "held_rows g n num_holdout = slice_to (np_random_permutation g n) num_holdout"

definition retained_rows :: "rng \<Rightarrow> nat \<Rightarrow> int \<Rightarrow> nat list" where
  "retained_rows g n num_holdout = slice_from (np_random_permutation g n) num_holdout"

text \<open>Indexing the rows of an array by an array of indices; an index out of range raises.\<close>

definition take_rows :: "'a list \<Rightarrow> nat list \<Rightarrow> error + 'a list" where
  "take_rows xs is =
     (if list_all (\<lambda>i. i < length xs) is then Inr (map (\<lambda>i. xs ! i) is) else Inl IndexError)"

definition gather :: "'a list \<Rightarrow> nat list list \<Rightarrow> error + 'a list list" where
  "gather xs iss =
     (if list_all (list_all (\<lambda>i. i < length xs)) iss
      then Inr (map (map (\<lambda>i. xs ! i)) iss) else Inl IndexError)"

text \<open>
  \<^verbatim>\<open>shuffle_rows\<close>: every row is reordered by the order that sorts a row of fresh uniform
  draws. Where two draws of a row are equal \<^verbatim>\<open>np.argsort\<close> may put them in either order;
  here the earlier position comes first.
\<close>

definition argsort :: "real list \<Rightarrow> nat list" where
  "argsort u = sort_key (\<lambda>i. u ! i) [0..<length u]"

definition shuffle_rows :: "(nat \<Rightarrow> nat \<Rightarrow> real) \<Rightarrow> nat list list \<Rightarrow> nat list list" where
  "shuffle_rows u arr =
     map (\<lambda>(i, row). map (\<lambda>k. row ! k) (argsort (map (u i) [0..<length row])))
         (enumerate 0 arr)"

text \<open>
  \<^verbatim>\<open>int(np.ceil(idxs.shape[-1] / batch_size))\<close>. The quotient is a double; its ceiling is
  that of the exact quotient as long as there are fewer than \<open>2^53\<close> rows.
\<close>

definition num_batches :: "nat \<Rightarrow> nat \<Rightarrow> error + nat" where
  "num_batches n batch_size =
     (if batch_size = 0 then Inl ZeroDivisionError
      else Inr (nat \<lceil>real n / real batch_size\<rceil>))"

text \<open>The inner loop, lines 244-249: one run of the training operation per batch number.\<close>

fun run_batches ::
    "NN \<Rightarrow> matrix \<Rightarrow> matrix \<Rightarrow> nat \<Rightarrow> nat list list \<Rightarrow> nat list \<Rightarrow> session
      \<Rightarrow> error + session" where
  "run_batches m inputs targets batch_size idxs [] s = Inr s"
| "run_batches m inputs targets batch_size idxs (batch_num # rest) s =
     (let batch_idxs = map (\<lambda>row. take batch_size (drop (batch_num * batch_size) row)) idxs
      in bind_err (gather inputs batch_idxs) (\<lambda>x.
         bind_err (gather targets batch_idxs) (\<lambda>y.
         bind_err (sess_run_train m (train_op m) s x y) (\<lambda>s'.
           run_batches m inputs targets batch_size idxs rest s'))))"

text \<open>
  Lines 251-278: what the progress bar is given after an epoch, unless progress is
  hidden: the members' losses on the first \<^verbatim>\<open>max_logging\<close> training rows of their index
  rows and, when the holdout ratio is not below \<^verbatim>\<open>1e-12\<close>, their losses on the holdout set.
\<close>

type_synonym progress = "(real list \<times> real list option) option"

definition postfix ::
    "NN \<Rightarrow> matrix \<Rightarrow> matrix \<Rightarrow> bool \<Rightarrow> real \<Rightarrow> int \<Rightarrow> tensor3 \<Rightarrow> tensor3 \<Rightarrow> session
      \<Rightarrow> nat list list \<Rightarrow> error + progress" where
  "postfix m inputs targets hide_progress holdout_ratio max_logging holdout_inputs
      holdout_targets s idxs =
     (if hide_progress then Inr None
      else
        (let shown = map (\<lambda>row. slice_to row max_logging) idxs
         in bind_err (gather inputs shown) (\<lambda>x.
            bind_err (gather targets shown) (\<lambda>y.
            bind_err (sess_run_train m (mse_loss m) s x y) (\<lambda>current.
              if holdout_ratio < holdout_threshold then Inr (Some (current, None))
              else bind_err (sess_run_train m (mse_loss m) s holdout_inputs holdout_targets)
                     (\<lambda>held. Inr (Some (current, Some held))))))))"

text \<open>
  The outer loop, lines 243-278, over \<^verbatim>\<open>range(epochs)\<close>. \<open>n\<close> is \<^verbatim>\<open>idxs.shape[-1]\<close>, the
  number of retained rows. The state is the session, the index array and what the
  progress bar has been given so far.
\<close>

fun run_epochs ::
    "NN \<Rightarrow> matrix \<Rightarrow> matrix \<Rightarrow> nat \<Rightarrow> bool \<Rightarrow> real \<Rightarrow> int \<Rightarrow> tensor3 \<Rightarrow> tensor3 \<Rightarrow> rng \<Rightarrow> nat
      \<Rightarrow> nat list \<Rightarrow> session \<times> nat list list \<times> progress list
      \<Rightarrow> error + (session \<times> nat list list \<times> progress list)" where
  "run_epochs m inputs targets batch_size hide r ml hin htarg g n [] st = Inr st"
| "run_epochs m inputs targets batch_size hide r ml hin htarg g n (ep # rest) st =
     (case st of (s, idxs, bar) \<Rightarrow>
        bind_err (num_batches n batch_size) (\<lambda>nb.
        bind_err (run_batches m inputs targets batch_size idxs [0..<nb] s) (\<lambda>s'.
          let idxs' = shuffle_rows (uniform_draws g ep) idxs
          in bind_err (postfix m inputs targets hide r ml hin htarg s' idxs') (\<lambda>shown.
               run_epochs m inputs targets batch_size hide r ml hin htarg g n rest
                 (s', idxs', bar @ [shown])))))"

text \<open>
  \<^verbatim>\<open>train\<close>. The result on success is the model with its session as the call left it, and
  what the progress bar was given, epoch by epoch. What the object is after a call that
  raised is not modelled.
\<close>

definition train ::
    "NN \<Rightarrow> matrix \<Rightarrow> matrix \<Rightarrow> nat \<Rightarrow> nat \<Rightarrow> bool \<Rightarrow> real \<Rightarrow> int \<Rightarrow> rng
      \<Rightarrow> error + (NN \<times> progress list)" where
  "train m inputs targets batch_size epochs hide_progress holdout_ratio max_logging g =
     bind_err (num_holdout_of (length inputs) holdout_ratio max_logging) (\<lambda>num_holdout.
       let retained = retained_rows g (length inputs) num_holdout;
           held = held_rows g (length inputs) num_holdout
       in bind_err (take_rows inputs retained) (\<lambda>inputs'.
          bind_err (take_rows inputs held) (\<lambda>holdout_inputs.
          bind_err (take_rows targets retained) (\<lambda>targets'.
          bind_err (take_rows targets held) (\<lambda>holdout_targets.
            let holdout_inputs3 = replicate (num_nets m) holdout_inputs;
                holdout_targets3 = replicate (num_nets m) holdout_targets
            in case scaler m of
                 None \<Rightarrow> Inl AttributeError
               | Some sc \<Rightarrow>
                   bind_err (fit sc (sess m) inputs') (\<lambda>s1.
                   bind_err (np_random_randint g (length inputs') (num_nets m) (length inputs'))
                     (\<lambda>idxs.
                   bind_err (run_epochs m inputs' targets' batch_size hide_progress
                               holdout_ratio max_logging holdout_inputs3 holdout_targets3 g
                               (length inputs') [0..<epochs] (s1, idxs, []))
                     (\<lambda>(s2, idxs', bar). Inr (m\<lparr>sess := s2\<rparr>, bar)))))))))"

section \<open>Sessions whose variables have their shapes\<close>

text \<open>
  A TensorFlow variable keeps its static shape whatever is assigned to it. On the
  session as a map this is a property: the scaler's two variables hold arrays of shape
  \<open>[1, x_dim]\<close>, and every layer of the chain, whose input dimension is the output
  dimension of the layer before it and whose ensemble size is the model's, holds
  weights and biases of its shapes, in variables of its own that are not the scaler's.
\<close>

fun is_layer_var :: "var_id \<Rightarrow> bool" where
  "is_layer_var (FCWeights _) = True"
| "is_layer_var (FCBiases _) = True"
| "is_layer_var _ = False"

definition layer_ok :: "nat \<Rightarrow> nat \<Rightarrow> FC \<Rightarrow> session \<Rightarrow> bool" where
  "layer_ok e d l s =
     (input_dim l = Some d \<and> ensemble_size l = e
      \<and> (case layer_vars l s of Inl _ \<Rightarrow> False | Inr _ \<Rightarrow> True)
      \<and> (case (weights l, biases l) of
            (Some w, Some b) \<Rightarrow> is_layer_var (var_id w) \<and> is_layer_var (var_id b)
          | _ \<Rightarrow> False))"

fun layers_ok :: "nat \<Rightarrow> nat \<Rightarrow> FC list \<Rightarrow> session \<Rightarrow> bool" where
  "layers_ok e d [] s = True"
| "layers_ok e d (l # ls) s = (layer_ok e d l s \<and> layers_ok e (output_dim l) ls s)"

definition vars_ok :: "NN \<Rightarrow> session \<Rightarrow> bool" where
  "vars_ok m s =
     (case scaler m of
        None \<Rightarrow> False
      | Some sc \<Rightarrow>
          var_id (mu sc) = ScalerMu \<and> var_id (sigma sc) = ScalerSigma
          \<and> (case scaler_vars sc s of Inl _ \<Rightarrow> False | Inr _ \<Rightarrow> True)
          \<and> layers_ok (num_nets m) (x_dim sc) (layers m) s)"

text \<open>The input and the output dimension of a finalized model.\<close>

definition model_input_dim :: "NN \<Rightarrow> nat" where
  "model_input_dim m = (case scaler m of None \<Rightarrow> 0 | Some sc \<Rightarrow> x_dim sc)"

definition model_output_dim :: "NN \<Rightarrow> nat" where
  "model_output_dim m = get_output_dim (last (layers m))"

section \<open>The training loss as the specification words it\<close>

text \<open>
  The specification's sentence, not the code: for each member the mean-squared error,
  that is the mean of the squared differences of prediction and target, averaged over
  the output dimension and the batch dimension; these summed over the members; plus
  the decay penalties.
\<close>

definition mean_squared_error :: "matrix \<Rightarrow> matrix \<Rightarrow> real" where
  "mean_squared_error p t =
     reduce_mean (map2 (\<lambda>pr tr. reduce_mean (map2 (\<lambda>a b. (a - b) ^ 2) pr tr)) p t)"

definition spec_training_loss :: "tensor3 \<Rightarrow> tensor3 \<Rightarrow> real list \<Rightarrow> real" where
  "spec_training_loss p y ds = sum_list (map2 mean_squared_error p y) + sum_list ds"

text \<open>
  The decay penalty of a layer as the specification words it: \<open>weight_decay\<close> times the
  sum of the squares of the layer's weights, read off the session, when a weight decay
  is set, and no contribution otherwise.
\<close>

definition decay_penalty :: "FC \<Rightarrow> session \<Rightarrow> real" where
  "decay_penalty l s =
     (case (weight_decay l, weights l) of
        (Some wd, Some w) \<Rightarrow>
          (case s (var_id w) of
             Some (Arr3 W) \<Rightarrow> wd * sum_list (map (\<lambda>v. v ^ 2) (concat (concat W)))
           | _ \<Rightarrow> 0)
      | _ \<Rightarrow> 0)"

text \<open>The value of \<^verbatim>\<open>tf.add_n(self.decays)\<close> on a session.\<close>

definition total_decay :: "NN \<Rightarrow> session \<Rightarrow> error + real" where
  "total_decay m s = sum_results (map (\<lambda>t. t s) (decays m))"

section \<open>The training loop as the specification words it\<close>

text \<open>
  An index array of \<open>e\<close> rows for \<open>n\<close> retained rows: one row per member, every row of
  length \<open>n\<close>, every entry a position among the retained rows. The chunk of a batch
  number is the slice \<^verbatim>\<open>idxs[:, batch_num * batch_size : (batch_num + 1) * batch_size]\<close>,
  and the rows of a batch are the rows at the positions of a chunk.
\<close>

definition idxs_ok :: "nat \<Rightarrow> nat \<Rightarrow> nat list list \<Rightarrow> bool" where
  "idxs_ok e n idxs =
     (length idxs = e \<and> list_all (\<lambda>row. length row = n \<and> list_all (\<lambda>i. i < n) row) idxs)"

definition chunk :: "nat \<Rightarrow> nat list list \<Rightarrow> nat \<Rightarrow> nat list list" where
  "chunk batch_size idxs batch_num =
     map (\<lambda>row. take batch_size (drop (batch_num * batch_size) row)) idxs"

definition batch_rows :: "'a list \<Rightarrow> nat list list \<Rightarrow> 'a list list" where
  "batch_rows rows batch_idxs = map (map (\<lambda>i. rows ! i)) batch_idxs"

text \<open>
  The specification's sentences, not the code. One optimizer step on a batch: the
  optimizer is handed the training loss at the rows of the batch, all members at once,
  and the variables to optimize, and gives the next session. One epoch: a step for each
  of the \<open>ceil(n / batch_size)\<close> consecutive chunks of the index array, in order. The
  state of training after \<open>k\<close> epochs: the session after the steps of these epochs, and
  the index array after a shuffle of its rows at the end of each of them. Training never
  stops early: the state after the call is the state after all its epochs.
\<close>

definition optimizer_step ::
    "NN \<Rightarrow> optimizer \<Rightarrow> matrix \<Rightarrow> matrix \<Rightarrow> session \<Rightarrow> nat list list \<Rightarrow> session" where
  "optimizer_step m opt rows targs s batch_idxs =
     opt (\<lambda>s'. train_loss m (total_decay m) s' (batch_rows rows batch_idxs)
                  (batch_rows targs batch_idxs))
         (optvars m) s"

definition epoch_steps ::
    "NN \<Rightarrow> optimizer \<Rightarrow> matrix \<Rightarrow> matrix \<Rightarrow> nat \<Rightarrow> nat list list \<Rightarrow> session \<Rightarrow> session" where
  "epoch_steps m opt rows targs batch_size idxs s =
     foldl (optimizer_step m opt rows targs) s
       (map (chunk batch_size idxs) [0..<nat \<lceil>real (length rows) / real batch_size\<rceil>])"

fun training_state ::
    "NN \<Rightarrow> optimizer \<Rightarrow> rng \<Rightarrow> matrix \<Rightarrow> matrix \<Rightarrow> nat \<Rightarrow> session \<Rightarrow> nat list list \<Rightarrow> nat
      \<Rightarrow> session \<times> nat list list" where
  "training_state m opt g rows targs batch_size s0 idxs0 0 = (s0, idxs0)"
| "training_state m opt g rows targs batch_size s0 idxs0 (Suc k) =
     (case training_state m opt g rows targs batch_size s0 idxs0 k of
        (s, idxs) \<Rightarrow>
          (epoch_steps m opt rows targs batch_size idxs s,
           shuffle_rows (uniform_draws g k) idxs))"

text \<open>An optimizer that leaves every variable its shape.\<close>

definition keeps_shapes :: "NN \<Rightarrow> optimizer \<Rightarrow> bool" where
  "keeps_shapes m opt = (\<forall>loss vs s. vars_ok m s \<longrightarrow> vars_ok m (opt loss vs s))"

section \<open>Example inputs\<close>

definition layer_3_2 :: FC where
  "layer_3_2 = \<lparr> input_dim = Some 3, output_dim = 2, activation = None,
                  weight_decay = Some (1/10), ensemble_size = 1,
                  weights = None, biases = None \<rparr>"

definition fresh_params :: "nat \<Rightarrow> params" where
  "fresh_params n = \<lparr> p_name = Some ''model'', p_num_networks = Some n,
                       p_model_dir = None, p_load_model = None, p_sess = None \<rparr>"

definition example_model :: NN where
  "example_model = projr (NN_init (fresh_params 2))"

definition layer_1_1 :: FC where
  "layer_1_1 = \<lparr> input_dim = Some 1, output_dim = 1, activation = None,
                  weight_decay = Some (1/10), ensemble_size = 1,
                  weights = None, biases = None \<rparr>"

text \<open>
  An environment whose initial weights are 1 for the first member and 2 for the second,
  whose scaler starts at mean 0 and deviation 1, and whose disk is empty; an optimizer
  that leaves the session as it is; a source of random draws, of a NumPy that returns
  the empty array when no entry is to be drawn.
\<close>

definition example_env :: environment where
  "example_env = \<lparr> weight_initializer = (\<lambda>i a r c. real (a + 1)),
                   scaler_initializer = (\<lambda>k c. real k),
                   leaf_name = (\<lambda>v. ''var''), files = Map.empty \<rparr>"

definition idle_optimizer :: optimizer where
  "idle_optimizer = (\<lambda>loss vs s. s)"

definition example_rng :: rng where
  "example_rng = \<lparr> permutation_keys = (\<lambda>i. - real i),
                   randint_draws = (\<lambda>i j. i + 2 * j),
                   uniform_draws = (\<lambda>e i j. real ((3 * j + e + i) mod 7) / 7),
                   empty_range_raises = False \<rparr>"

text \<open>
  An optimizer that shows the loss it is handed: it moves every bias of the first layer
  to the value of the loss at the current session.
\<close>

definition probe_optimizer :: optimizer where
  "probe_optimizer loss vs s =
     (case (loss s, s (FCBiases 0)) of
        (Inr v, Some (Arr3 B)) \<Rightarrow> s(FCBiases 0 \<mapsto> Arr3 (map (map (map (\<lambda>b. v))) B))
      | _ \<Rightarrow> s)"

text \<open>A model of two members with one layer from one input to one output, and the same finalized.\<close>

definition built_model :: NN where
  "built_model = fst (projr (add example_model layer_1_1))"

definition finalized_model :: NN where
  "finalized_model = snd (finalize built_model idle_optimizer example_env)"

definition probed_model :: NN where
  "probed_model = snd (finalize built_model probe_optimizer example_env)"

text \<open>The same model constructed in load mode, with the path of an archive.\<close>

definition load_params :: "nat \<Rightarrow> string \<Rightarrow> params" where
  "load_params n path = \<lparr> p_name = Some ''model'', p_num_networks = Some n,
                          p_model_dir = Some path, p_load_model = Some True, p_sess = None \<rparr>"

definition load_model :: "string \<Rightarrow> NN" where
  "load_model path = fst (projr (add (projr (NN_init (load_params 2 path))) layer_1_1))"

definition example_batch :: matrix where
  "example_batch = [[2], [4]]"

text \<open>One training batch of one row per member, and its targets.\<close>

definition example_inputs3 :: tensor3 where
  "example_inputs3 = [[[2]], [[2]]]"

definition example_targets3 :: tensor3 where
  "example_targets3 = [[[0]], [[0]]]"

text \<open>Four training rows with their targets, and three.\<close>

definition example_rows :: matrix where
  "example_rows = [[1], [2], [3], [4]]"

definition example_targets :: matrix where
  "example_targets = [[2], [4], [6], [8]]"

definition three_rows :: matrix where
  "three_rows = [[1], [2], [3]]"

definition three_targets :: matrix where
  "three_targets = [[2], [4], [6]]"

text \<open>The double \<^verbatim>\<open>1.0 / 3.0\<close>.\<close>

definition one_third :: real where
  "one_third = the (round_to_double (1 / 3))"

text \<open>
  The model in load mode after a \<^verbatim>\<open>finalize\<close> that found no archive at its path, and the
  files that \<^verbatim>\<open>save\<close> of the finalized model writes into the directory \<^verbatim>\<open>out\<close>.
\<close>

definition failed_load_model :: NN where
  "failed_load_model = snd (finalize (load_model ''missing.npz'') idle_optimizer example_env)"

definition saved_files :: filesystem where
  "saved_files = projr (save finalized_model (Some ''out'') (\<lambda>layer. ''FC'') Map.empty)"

section \<open>Auxiliary facts\<close>

lemma bind_err_simps [simp]:
  "bind_err (Inl e) f = Inl e" "bind_err (Inr v) f = f v"
  by (simp_all add: bind_err_def)

lemma bind_err_Inr_iff:
  "bind_err r f = Inr y \<longleftrightarrow> (\<exists>v. r = Inr v \<and> f v = Inr y)"
  by (cases r) simp_all

lemma compile_outputs_cong:
  "scaler a = scaler b \<Longrightarrow> layers a = layers b \<Longrightarrow> compile_outputs a = compile_outputs b"
  by (intro ext) (simp add: compile_outputs_def split: option.splits)

lemma compile_losses_cong:
  "scaler a = scaler b \<Longrightarrow> layers a = layers b \<Longrightarrow> compile_losses a = compile_losses b"
  by (intro ext) (simp add: compile_losses_def compile_outputs_cong [of a b])

lemma train_loss_cong:
  "scaler a = scaler b \<Longrightarrow> layers a = layers b \<Longrightarrow> train_loss a = train_loss b"
  by (intro ext) (simp add: train_loss_def compile_losses_cong [of a b])

lemma create_prediction_tensors_cong:
  "scaler a = scaler b \<Longrightarrow> layers a = layers b
    \<Longrightarrow> create_prediction_tensors a = create_prediction_tensors b"
  by (intro ext) (simp add: create_prediction_tensors_def compile_outputs_cong [of a b])

lemma finalize_load_sess:
  assumes "finalize_load m env = (r, m')"
  shows "\<exists>s. m' = m\<lparr>sess := s\<rparr>"
proof (cases "\<exists>s. m' = m\<lparr>sess := s\<rparr>")
  case True
  then show ?thesis .
next
  case False
  then have "m' \<noteq> m\<lparr>sess := sess m\<rparr>" by blast
  then have "m' \<noteq> m" by simp
  with assms False show ?thesis
    by (auto simp: finalize_load_def split: if_splits option.splits sum.splits prod.splits)
qed

lemma construct_layers_length:
  "construct_layers ini i ls ds vs = (r, ls', ds', vs') \<Longrightarrow> length ls' = length ls"
  by (induction ls arbitrary: i ds vs r ls' ds' vs')
     (auto split: sum.splits prod.splits)

lemma construct_layers_collects:
  "construct_layers ini i ls ds vs = (None, ls', ds', vs')
    \<Longrightarrow> ds' = ds @ concat (map get_decays ls') \<and> vs' = vs @ concat (map get_vars ls')"
proof (induction ls arbitrary: i ds vs ls' ds' vs')
  case Nil
  then show ?case by simp
next
  case (Cons l ls)
  from Cons.prems obtain l' rest' where
    l': "construct_vars ini i l = Inr l'" and ls': "ls' = l' # rest'"
    and r: "construct_layers ini (Suc i) ls (ds @ get_decays l') (vs @ get_vars l')
              = (None, rest', ds', vs')"
    by (auto split: sum.splits prod.splits)
  from Cons.IH [OF r] show ?case by (simp add: ls')
qed

lemma finalize_construct_None:
  assumes "finalize_construct m env = (None, m1)"
  shows "scaler m1 \<noteq> None" "length (layers m1) = length (layers m)"
    "num_nets m1 = num_nets m" "sess m1 = sess m"
    "decays m1 = decays m @ concat (map get_decays (layers m1))"
    "optvars m1 = optvars m @ concat (map get_vars (layers m1))"
  using assms
  by (auto simp: finalize_construct_def Let_def construct_layers_length
      split: option.splits prod.splits dest: construct_layers_collects)

text \<open>What a successful finalize leaves in the model.\<close>

lemma finalize_None:
  assumes "finalize m opt env = (None, m')"
  shows "finalized m'" "layers m' \<noteq> []" "scaler m' \<noteq> None" "num_nets m' = num_nets m"
    "sy_pred_in2d m' = Some (get_input_dim (hd (layers m')))"
    "sy_pred_in3d m' = Some (num_nets m', get_input_dim (hd (layers m')))"
    "sy_pred_mean2d_fac m' =
       Some (\<lambda>s x. bind_err (create_prediction_tensors m' s (Arr2 x) True) (\<lambda>r. Inr (fst r)))"
    "sy_pred_mean2d m' =
       Some (\<lambda>s x. bind_err (bind_err (create_prediction_tensors m' s (Arr2 x) True)
                               (\<lambda>r. Inr (fst r)))
                     (\<lambda>f. Inr (reduce_mean_axis0 f)))"
    "sy_pred_var2d m' =
       Some (\<lambda>s x. bind_err (bind_err (create_prediction_tensors m' s (Arr2 x) True)
                               (\<lambda>r. Inr (fst r)))
               (\<lambda>f. bind_err (bind_err (bind_err (create_prediction_tensors m' s (Arr2 x) True)
                                          (\<lambda>r. Inr (fst r)))
                                (\<lambda>f. Inr (reduce_mean_axis0 f)))
                 (\<lambda>mn. bind_err (broadcast_sub f mn)
                          (\<lambda>d. Inr (reduce_mean_axis0 (square d))))))"
    "sy_pred_mean3d_fac m' =
       Some (\<lambda>s x. bind_err (create_prediction_tensors m' s (Arr3 x) True) (\<lambda>r. Inr (fst r)))"
    "sy_train_in m' = Some (num_nets m', get_input_dim (hd (layers m')))"
    "sy_train_targ m' = Some (num_nets m', Some (get_output_dim (last (layers m'))))"
    "mse_loss m' = Some (compile_losses m')"
    "\<exists>td. add_n (decays m') = Inr td
        \<and> train_op m' = Some (minimize opt (train_loss m' td) (optvars m'))"
    "decays m' = decays m @ concat (map get_decays (layers m'))"
proof -
  from assms have ne: "layers m \<noteq> []" and nf: "\<not> finalized m"
    by (auto simp: finalize_def split: if_splits)
  obtain r1 m1 where c: "finalize_construct (m\<lparr>optimizer := Some opt\<rparr>) env = (r1, m1)"
    by (cases "finalize_construct (m\<lparr>optimizer := Some opt\<rparr>) env")
  with assms ne nf have r1: "r1 = None"
    by (cases r1) (simp_all add: finalize_def)
  obtain r2 m2 where t: "finalize_training m1 opt = (r2, m2)"
    by (cases "finalize_training m1 opt")
  with assms ne nf c r1 have r2: "r2 = None"
    by (cases r2) (simp_all add: finalize_def)
  define m3 where "m3 = m2\<lparr>sess := variables_initializer (optvars m2 @ nonoptvars m2) (sess m2)\<rparr>"
  define m4 where "m4 = finalize_prediction m3"
  obtain r5 m5 where l: "finalize_load m4 env = (r5, m5)"
    by (cases "finalize_load m4 env")
  with assms ne nf c r1 t r2 have r5: "r5 = None" and m': "m' = m5\<lparr>finalized := True\<rparr>"
    by (cases r5; simp add: finalize_def Let_def m3_def m4_def)+
  from l obtain s where m5: "m5 = m4\<lparr>sess := s\<rparr>"
    using finalize_load_sess by blast
  define m1' where "m1' = m1\<lparr> optimizer := Some opt,
                   sy_train_in := Some (num_nets m1, get_input_dim (hd (layers m1))),
                   sy_train_targ := Some (num_nets m1, Some (get_output_dim (last (layers m1)))) \<rparr>"
  have cl: "compile_losses m1' = compile_losses m1" and tl: "train_loss m1' = train_loss m1"
    by (rule compile_losses_cong train_loss_cong; simp add: m1'_def)+
  have dm1': "decays m1' = decays m1" "optvars m1' = optvars m1" by (simp_all add: m1'_def)
  from t r2 obtain td where td: "add_n (decays m1) = Inr td"
    and m2: "m2 = m1'\<lparr> mse_loss := Some (compile_losses m1),
                   train_op := Some (minimize opt (train_loss m1 td) (optvars m1)) \<rparr>"
    unfolding finalize_training_def Let_def m1'_def [symmetric] cl tl dm1'
    by (cases "add_n (decays m1)") auto
  note c1 = finalize_construct_None [OF c [unfolded r1]]
  have g: "scaler m' = scaler m1" "layers m' = layers m1"
    by (simp_all add: m' m5 m4_def m3_def m2 m1'_def finalize_prediction_def Let_def)
  have g3: "scaler m3 = scaler m'" "layers m3 = layers m'"
    by (simp_all add: m' m5 m4_def m3_def m2 m1'_def finalize_prediction_def Let_def)
  show "finalized m'" by (simp add: m')
  have "length (layers m1) = length (layers m)" using c1(2) by simp
  then show "layers m' \<noteq> []" using ne g by auto
  show "scaler m' \<noteq> None" using c1 g by simp
  show "num_nets m' = num_nets m"
    using c1 by (simp add: m' m5 m4_def m3_def m2 m1'_def finalize_prediction_def Let_def)
  show "sy_pred_in2d m' = Some (get_input_dim (hd (layers m')))"
    by (simp add: m' m5 m4_def m3_def m2 m1'_def finalize_prediction_def Let_def)
  show "sy_pred_in3d m' = Some (num_nets m', get_input_dim (hd (layers m')))"
    by (simp add: m' m5 m4_def m3_def m2 m1'_def finalize_prediction_def Let_def)
  have cp: "create_prediction_tensors m3 = create_prediction_tensors m'"
    by (rule create_prediction_tensors_cong) (fact g3)+
  show "sy_pred_mean2d_fac m' =
       Some (\<lambda>s x. bind_err (create_prediction_tensors m' s (Arr2 x) True) (\<lambda>r. Inr (fst r)))"
    unfolding cp [symmetric] by (simp add: m' m5 m4_def finalize_prediction_def Let_def)
  show "sy_pred_mean2d m' =
       Some (\<lambda>s x. bind_err (bind_err (create_prediction_tensors m' s (Arr2 x) True)
                               (\<lambda>r. Inr (fst r)))
                     (\<lambda>f. Inr (reduce_mean_axis0 f)))"
    unfolding cp [symmetric] by (simp add: m' m5 m4_def finalize_prediction_def Let_def)
  show "sy_pred_var2d m' =
       Some (\<lambda>s x. bind_err (bind_err (create_prediction_tensors m' s (Arr2 x) True)
                               (\<lambda>r. Inr (fst r)))
               (\<lambda>f. bind_err (bind_err (bind_err (create_prediction_tensors m' s (Arr2 x) True)
                                          (\<lambda>r. Inr (fst r)))
                                (\<lambda>f. Inr (reduce_mean_axis0 f)))
                 (\<lambda>mn. bind_err (broadcast_sub f mn)
                          (\<lambda>d. Inr (reduce_mean_axis0 (square d))))))"
    unfolding cp [symmetric] by (simp add: m' m5 m4_def finalize_prediction_def Let_def)
  show "sy_pred_mean3d_fac m' =
       Some (\<lambda>s x. bind_err (create_prediction_tensors m' s (Arr3 x) True) (\<lambda>r. Inr (fst r)))"
    unfolding cp [symmetric] by (simp add: m' m5 m4_def finalize_prediction_def Let_def)
  show "sy_train_in m' = Some (num_nets m', get_input_dim (hd (layers m')))"
    by (simp add: m' m5 m4_def m3_def m2 m1'_def finalize_prediction_def Let_def)
  show "sy_train_targ m' = Some (num_nets m', Some (get_output_dim (last (layers m'))))"
    by (simp add: m' m5 m4_def m3_def m2 m1'_def finalize_prediction_def Let_def)
  have g1: "scaler m1 = scaler m'" "layers m1 = layers m'" using g by simp_all
  show "mse_loss m' = Some (compile_losses m')"
    unfolding compile_losses_cong [OF g1, symmetric]
    by (simp add: m' m5 m4_def m3_def m2 m1'_def finalize_prediction_def Let_def)
  have "decays m' = decays m1" "optvars m' = optvars m1"
    by (simp_all add: m' m5 m4_def m3_def m2 m1'_def finalize_prediction_def Let_def)
  moreover have "train_op m' = Some (minimize opt (train_loss m1 td) (optvars m1))"
    by (simp add: m' m5 m4_def m3_def m2 m1'_def finalize_prediction_def Let_def)
  ultimately show "\<exists>td. add_n (decays m') = Inr td
        \<and> train_op m' = Some (minimize opt (train_loss m' td) (optvars m'))"
    using td train_loss_cong [OF g1] by auto
  show "decays m' = decays m @ concat (map get_decays (layers m'))"
    using c1(5) g(2) \<open>decays m' = decays m1\<close> by simp
qed

lemma has_shape2_nth:
  "has_shape2 r c x \<longleftrightarrow> length x = r \<and> (\<forall>j<r. length (x ! j) = c)"
  by (auto simp: has_shape2_def list_all_length)

lemma has_shape3_nth:
  "has_shape3 e r c t \<longleftrightarrow> length t = e \<and> (\<forall>i<e. has_shape2 r c (t ! i))"
  by (auto simp: has_shape3_def list_all_length)

lemma mat_add_shape:
  assumes "has_shape2 r c a" "has_shape2 r c b"
  shows "has_shape2 r c (mat_add a b)"
  using assms by (auto simp: has_shape2_nth mat_add_def vec_add_def)

lemma mat_add_nth:
  assumes "has_shape2 r c a" "has_shape2 r c b" "j < r" "k < c"
  shows "mat_add a b ! j ! k = a ! j ! k + b ! j ! k"
  using assms by (auto simp: has_shape2_nth mat_add_def vec_add_def)

lemma foldl_mat_add:
  assumes "has_shape2 r c a" "list_all (has_shape2 r c) as"
  shows "has_shape2 r c (foldl mat_add a as)
     \<and> (\<forall>j<r. \<forall>k<c. foldl mat_add a as ! j ! k
                        = a ! j ! k + sum_list (map (\<lambda>b. b ! j ! k) as))"
  using assms
proof (induction as arbitrary: a)
  case Nil
  then show ?case by simp
next
  case (Cons b as)
  then have b: "has_shape2 r c b" and as: "list_all (has_shape2 r c) as" by simp_all
  from Cons.IH [OF mat_add_shape [OF Cons.prems(1) b] as]
  show ?case by (simp add: mat_add_nth [OF Cons.prems(1) b] add.assoc)
qed

lemma sum_list_map_nth:
  "sum_list (map f xs) = (\<Sum>i<length xs. f (xs ! i))"
proof -
  have "sum_list (map f xs) = (\<Sum>i = 0..<length (map f xs). map f xs ! i)"
    by (rule sum_list_sum_nth)
  then show ?thesis by (simp add: atLeast0LessThan)
qed

text \<open>The mean over the member axis, entry by entry.\<close>

lemma reduce_mean_axis0_Arr3:
  assumes "has_shape3 e r c t" "0 < e"
  shows "\<exists>mean. reduce_mean_axis0 (Arr3 t) = Arr2 mean \<and> has_shape2 r c mean
     \<and> (\<forall>j<r. \<forall>k<c. mean ! j ! k = (\<Sum>i<e. t ! i ! j ! k) / real e)"
proof -
  from assms obtain a as where t: "t = a # as" by (cases t) (auto simp: has_shape3_def)
  from assms have a: "has_shape2 r c a" and as: "list_all (has_shape2 r c) as"
    and e: "length t = e"
    by (simp_all add: has_shape3_def t)
  note f = foldl_mat_add [OF a as]
  let ?mean = "map (map (\<lambda>v. v / real (length t))) (foldl mat_add a as)"
  have 1: "reduce_mean_axis0 (Arr3 t) = Arr2 ?mean" by (simp add: t)
  have 2: "has_shape2 r c ?mean" using f by (simp add: has_shape2_nth)
  have 3: "?mean ! j ! k = (\<Sum>i<e. t ! i ! j ! k) / real e" if "j < r" "k < c" for j k
  proof -
    have "(\<Sum>i<e. t ! i ! j ! k) = sum_list (map (\<lambda>b. b ! j ! k) t)"
      by (simp add: sum_list_map_nth e)
    also have "\<dots> = foldl mat_add a as ! j ! k" using f that by (simp add: t)
    finally show ?thesis using f that by (simp add: has_shape2_nth e)
  qed
  from 1 2 3 show ?thesis by blast
qed

lemma broadcast_sub_Arr3:
  assumes "has_shape3 e r c t" "has_shape2 r c x"
  shows "\<exists>d. broadcast_sub (Arr3 t) (Arr2 x) = Inr (Arr3 d) \<and> has_shape3 e r c d
     \<and> (\<forall>i<e. \<forall>j<r. \<forall>k<c. d ! i ! j ! k = t ! i ! j ! k - x ! j ! k)"
  using assms
  by (auto simp: has_shape3_nth has_shape2_nth mat_sub_def vec_sub_def)

lemma square_Arr3:
  assumes "has_shape3 e r c t"
  shows "\<exists>q. square (Arr3 t) = Arr3 q \<and> has_shape3 e r c q
     \<and> (\<forall>i<e. \<forall>j<r. \<forall>k<c. q ! i ! j ! k = (t ! i ! j ! k) ^ 2)"
  using assms by (auto simp: has_shape3_nth has_shape2_nth)

text \<open>The two aggregates of lines 185-186 on a tensor of member predictions.\<close>

lemma aggregate_Arr3:
  assumes "has_shape3 e r c t" "0 < e"
  shows "\<exists>mean var. reduce_mean_axis0 (Arr3 t) = Arr2 mean
     \<and> bind_err (broadcast_sub (Arr3 t) (Arr2 mean)) (\<lambda>d. Inr (reduce_mean_axis0 (square d)))
         = Inr (Arr2 var)
     \<and> has_shape2 r c mean \<and> has_shape2 r c var
     \<and> (\<forall>j<r. \<forall>k<c. mean ! j ! k = (\<Sum>i<e. t ! i ! j ! k) / real e
                     \<and> var ! j ! k = (\<Sum>i<e. (t ! i ! j ! k - mean ! j ! k) ^ 2) / real e)"
proof -
  from reduce_mean_axis0_Arr3 [OF assms] obtain mean where
    m: "reduce_mean_axis0 (Arr3 t) = Arr2 mean" "has_shape2 r c mean"
      "\<forall>j<r. \<forall>k<c. mean ! j ! k = (\<Sum>i<e. t ! i ! j ! k) / real e" by blast
  from broadcast_sub_Arr3 [OF assms(1) m(2)] obtain d where
    d: "broadcast_sub (Arr3 t) (Arr2 mean) = Inr (Arr3 d)" "has_shape3 e r c d"
      "\<forall>i<e. \<forall>j<r. \<forall>k<c. d ! i ! j ! k = t ! i ! j ! k - mean ! j ! k" by blast
  from square_Arr3 [OF d(2)] obtain q where
    q: "square (Arr3 d) = Arr3 q" "has_shape3 e r c q"
      "\<forall>i<e. \<forall>j<r. \<forall>k<c. q ! i ! j ! k = (d ! i ! j ! k) ^ 2" by blast
  from reduce_mean_axis0_Arr3 [OF q(2) assms(2)] obtain var where
    v: "reduce_mean_axis0 (Arr3 q) = Arr2 var" "has_shape2 r c var"
      "\<forall>j<r. \<forall>k<c. var ! j ! k = (\<Sum>i<e. q ! i ! j ! k) / real e" by blast
  have vv: "var ! j ! k = (\<Sum>i<e. (t ! i ! j ! k - mean ! j ! k) ^ 2) / real e"
    if "j < r" "k < c" for j k
    using v(3) q(3) d(3) that by simp
  have b: "bind_err (broadcast_sub (Arr3 t) (Arr2 mean)) (\<lambda>d. Inr (reduce_mean_axis0 (square d)))
         = Inr (Arr2 var)"
    by (simp only: d(1) bind_err_def sum.case q(1) v(1))
  show ?thesis
  proof (intro exI conjI allI impI)
    show "reduce_mean_axis0 (Arr3 t) = Arr2 mean" by (fact m(1))
    show "bind_err (broadcast_sub (Arr3 t) (Arr2 mean)) (\<lambda>d. Inr (reduce_mean_axis0 (square d)))
         = Inr (Arr2 var)" by (fact b)
    show "has_shape2 r c mean" by (fact m(2))
    show "has_shape2 r c var" by (fact v(2))
    show "mean ! j ! k = (\<Sum>i<e. t ! i ! j ! k) / real e" if "j < r" "k < c" for j k
      using m(3) that by blast
    show "var ! j ! k = (\<Sum>i<e. (t ! i ! j ! k - mean ! j ! k) ^ 2) / real e"
      if "j < r" "k < c" for j k
      using vv that by blast
  qed
qed

lemma dense_shape: "has_shape2 (length x) out (dense act out W b x)"
  by (simp add: has_shape2_def dense_def dense_row_def list_all_iff)

lemma layer_vars_shapes:
  assumes "layer_vars l s = Inr (W, B)"
  shows "length W = ensemble_size l" "length B = ensemble_size l"
  using assms
  by (auto simp: layer_vars_def bind_err_Inr_iff has_shape3_def
      split: option.splits if_splits)

lemma layer_ok_vars:
  assumes "layer_ok e d l s"
  obtains W B where "layer_vars l s = Inr (W, B)" "length W = e" "length B = e"
    "input_dim l = Some d"
proof -
  from assms obtain W B where v: "layer_vars l s = Inr (W, B)"
    by (auto simp: layer_ok_def split: sum.splits)
  with assms layer_vars_shapes [OF v] that show ?thesis
    by (simp add: layer_ok_def)
qed

lemma compute_output_tensor_Arr2:
  assumes "layer_ok e d l s" "list_all (\<lambda>r. length r = d) x"
  shows "\<exists>y. compute_output_tensor l s (Arr2 x) = Inr (Arr3 y)
            \<and> has_shape3 e (length x) (output_dim l) y"
proof -
  from assms(1) obtain W B where v: "layer_vars l s = Inr (W, B)" "length W = e" "length B = e"
    "input_dim l = Some d" by (rule layer_ok_vars)
  show ?thesis
    using assms(2) v
    by (simp add: compute_output_tensor_def Let_def has_shape3_def list_all_iff dense_shape
        set_zip)
qed

lemma compute_output_tensor_Arr3:
  assumes "layer_ok e d l s" "has_shape3 e b d x"
  shows "\<exists>y. compute_output_tensor l s (Arr3 x) = Inr (Arr3 y)
            \<and> has_shape3 e b (output_dim l) y"
proof -
  from assms(1) obtain W B where v: "layer_vars l s = Inr (W, B)" "length W = e" "length B = e"
    "input_dim l = Some d" and es: "ensemble_size l = e"
    by (rule layer_ok_vars) (use assms(1) in \<open>auto simp: layer_ok_def\<close>)
  have x: "length x = e" "list_all (list_all (\<lambda>r. length r = d)) x"
    "\<forall>xe\<in>set x. length xe = b"
    using assms(2) by (auto simp: has_shape3_def has_shape2_def list_all_iff)
  let ?y = "map (\<lambda>(xe, We, Be). dense (case activation l of None \<Rightarrow> (\<lambda>v. v) | Some f \<Rightarrow> f)
                                     (output_dim l) We Be xe) (zip x (zip W B))"
  have 1: "compute_output_tensor l s (Arr3 x) = Inr (Arr3 ?y)"
    using v es x by (simp add: compute_output_tensor_def Let_def)
  have 2: "has_shape3 e b (output_dim l) ?y"
    unfolding has_shape3_def
  proof (intro conjI)
    show "length ?y = e" using v x by simp
    show "list_all (has_shape2 b (output_dim l)) ?y"
      unfolding list_all_iff
    proof
      fix q assume "q \<in> set ?y"
      then obtain xe We Be where "(xe, We, Be) \<in> set (zip x (zip W B))"
        and q: "q = dense (case activation l of None \<Rightarrow> (\<lambda>v. v) | Some f \<Rightarrow> f)
                        (output_dim l) We Be xe" by auto
      then have "xe \<in> set x" by (meson set_zip_leftD)
      with x have "length xe = b" by blast
      with dense_shape [of xe "output_dim l" _ We Be] q show "has_shape2 b (output_dim l) q"
        by simp
    qed
  qed
  from 1 2 show ?thesis by blast
qed

lemma layers_output_Arr3:
  assumes "layers_ok e d ls s" "has_shape3 e b d x"
  shows "\<exists>y. layers_output ls s (Arr3 x) = Inr (Arr3 y)
            \<and> has_shape3 e b (if ls = [] then d else output_dim (last ls)) y"
  using assms
proof (induction ls arbitrary: d x)
  case Nil
  then show ?case by simp
next
  case (Cons l ls)
  then have l: "layer_ok e d l s" and ls: "layers_ok e (output_dim l) ls s" by simp_all
  from compute_output_tensor_Arr3 [OF l Cons.prems(2)] obtain y where
    y: "compute_output_tensor l s (Arr3 x) = Inr (Arr3 y)" "has_shape3 e b (output_dim l) y"
    by blast
  from Cons.IH [OF ls y(2)] y(1) show ?case by auto
qed

lemma layers_output_Arr2:
  assumes "layers_ok e d ls s" "list_all (\<lambda>r. length r = d) x" "ls \<noteq> []"
  shows "\<exists>y. layers_output ls s (Arr2 x) = Inr (Arr3 y)
            \<and> has_shape3 e (length x) (output_dim (last ls)) y"
proof -
  from assms(3) obtain l rest where ls: "ls = l # rest" by (cases ls) auto
  with assms have l: "layer_ok e d l s" and r: "layers_ok e (output_dim l) rest s" by simp_all
  from compute_output_tensor_Arr2 [OF l assms(2)] obtain y where
    y: "compute_output_tensor l s (Arr2 x) = Inr (Arr3 y)"
       "has_shape3 e (length x) (output_dim l) y" by blast
  from layers_output_Arr3 [OF r y(2)] y(1) show ?thesis by (auto simp: ls)
qed

lemma scaler_ok_vars:
  assumes "(case scaler_vars sc s of Inl _ \<Rightarrow> False | Inr _ \<Rightarrow> True)"
  obtains mn sd where "scaler_vars sc s = Inr (mn, sd)"
  using assms by (auto split: sum.splits)

lemma transform_Arr2:
  assumes "scaler_vars sc s = Inr (mn, sd)" "list_all (\<lambda>r. length r = x_dim sc) x"
  shows "\<exists>y. transform sc s (Arr2 x) = Inr (Arr2 y) \<and> length y = length x
            \<and> list_all (\<lambda>r. length r = x_dim sc) y"
  using assms by (simp add: transform_def scale_row_def list_all_iff)

lemma transform_Arr3:
  assumes "scaler_vars sc s = Inr (mn, sd)" "has_shape3 e b (x_dim sc) x"
  shows "\<exists>y. transform sc s (Arr3 x) = Inr (Arr3 y) \<and> has_shape3 e b (x_dim sc) y"
  using assms
  by (simp add: transform_def scale_row_def has_shape3_def has_shape2_def list_all_iff)

text \<open>On a session whose variables have their shapes the network computes.\<close>

lemma compile_outputs_Arr2:
  assumes "vars_ok m s" "layers m \<noteq> []" "list_all (\<lambda>r. length r = model_input_dim m) x"
  shows "\<exists>y. compile_outputs m s (Arr2 x) = Inr (Arr3 y)
            \<and> has_shape3 (num_nets m) (length x) (model_output_dim m) y"
proof -
  from assms(1) obtain sc where sc: "scaler m = Some sc"
    and sv: "(case scaler_vars sc s of Inl _ \<Rightarrow> False | Inr _ \<Rightarrow> True)"
    and lo: "layers_ok (num_nets m) (x_dim sc) (layers m) s"
    by (auto simp: vars_ok_def split: option.splits)
  from sv obtain mn sd where v: "scaler_vars sc s = Inr (mn, sd)" by (rule scaler_ok_vars)
  from assms(3) sc have x: "list_all (\<lambda>r. length r = x_dim sc) x"
    by (simp add: model_input_dim_def)
  from transform_Arr2 [OF v x] obtain y where
    y: "transform sc s (Arr2 x) = Inr (Arr2 y)" "length y = length x"
       "list_all (\<lambda>r. length r = x_dim sc) y" by blast
  from layers_output_Arr2 [OF lo y(3) assms(2)] y(1,2) sc show ?thesis
    by (auto simp: compile_outputs_def model_output_dim_def get_output_dim_def)
qed

lemma compile_outputs_Arr3:
  assumes "vars_ok m s" "layers m \<noteq> []" "has_shape3 (num_nets m) b (model_input_dim m) x"
  shows "\<exists>y. compile_outputs m s (Arr3 x) = Inr (Arr3 y)
            \<and> has_shape3 (num_nets m) b (model_output_dim m) y"
proof -
  from assms(1) obtain sc where sc: "scaler m = Some sc"
    and sv: "(case scaler_vars sc s of Inl _ \<Rightarrow> False | Inr _ \<Rightarrow> True)"
    and lo: "layers_ok (num_nets m) (x_dim sc) (layers m) s"
    by (auto simp: vars_ok_def split: option.splits)
  from sv obtain mn sd where v: "scaler_vars sc s = Inr (mn, sd)" by (rule scaler_ok_vars)
  from assms(3) sc have x: "has_shape3 (num_nets m) b (x_dim sc) x"
    by (simp add: model_input_dim_def)
  from transform_Arr3 [OF v x] obtain y where
    y: "transform sc s (Arr3 x) = Inr (Arr3 y)" "has_shape3 (num_nets m) b (x_dim sc) y" by blast
  from layers_output_Arr3 [OF lo y(2)] y(1) sc assms(2) show ?thesis
    by (auto simp: compile_outputs_def model_output_dim_def get_output_dim_def)
qed

lemma vars_ok_first_layer:
  assumes "vars_ok m s" "layers m \<noteq> []"
  shows "get_input_dim (hd (layers m)) = Some (model_input_dim m)"
proof -
  from assms(2) obtain l ls where "layers m = l # ls" by (cases "layers m") auto
  with assms(1) show ?thesis
    by (auto simp: vars_ok_def model_input_dim_def layer_ok_def get_input_dim_def
        split: option.splits)
qed

lemma reduce_mean_nth: "reduce_mean xs = (\<Sum>i<length xs. xs ! i) / real (length xs)"
  using sum_list_map_nth [of "\<lambda>v. v" xs] by (simp add: reduce_mean_def)

lemma sum_list_map2_nth:
  assumes "length as = n" "length bs = n"
  shows "sum_list (map2 f as bs) = (\<Sum>i<n. f (as ! i) (bs ! i))"
proof -
  have "sum_list (map2 f as bs) = (\<Sum>i<length (zip as bs). (\<lambda>(a, b). f a b) (zip as bs ! i))"
    by (rule sum_list_map_nth)
  also have "\<dots> = (\<Sum>i<n. f (as ! i) (bs ! i))"
    using assms by (intro sum.cong) auto
  finally show ?thesis .
qed

lemma reduce_mean_map2_nth:
  assumes "length as = n" "length bs = n"
  shows "reduce_mean (map2 f as bs) = (\<Sum>i<n. f (as ! i) (bs ! i)) / real n"
  using sum_list_map2_nth [OF assms, of f] assms by (simp add: reduce_mean_def)

text \<open>The loss of one member: half the squared error, averaged over outputs and batch.\<close>

lemma member_loss_formula:
  assumes "has_shape2 b d p" "has_shape2 b d t"
  shows "member_loss p t = (\<Sum>j<b. \<Sum>k<d. (p ! j ! k - t ! j ! k) ^ 2 / 2) / (real b * real d)"
proof -
  from assms have l: "length p = b" "length t = b"
    and r: "\<And>j. j < b \<Longrightarrow> length (p ! j) = d" "\<And>j. j < b \<Longrightarrow> length (t ! j) = d"
    by (auto simp: has_shape2_nth)
  have "member_loss p t
          = (\<Sum>j<b. reduce_mean (half_squared_error (p ! j) (t ! j))) / real b"
    unfolding member_loss_def by (rule reduce_mean_map2_nth [OF l])
  also have "(\<Sum>j<b. reduce_mean (half_squared_error (p ! j) (t ! j)))
          = (\<Sum>j<b. (\<Sum>k<d. (p ! j ! k - t ! j ! k) ^ 2 / 2) / real d)"
    by (intro sum.cong refl) (simp add: half_squared_error_def reduce_mean_map2_nth r)
  also have "\<dots> / real b = (\<Sum>j<b. \<Sum>k<d. (p ! j ! k - t ! j ! k) ^ 2 / 2) / (real b * real d)"
    by (simp add: sum_divide_distrib mult_ac)
  finally show ?thesis .
qed

lemma same_shape_lengths:
  assumes "has_shape3 e b d p" "has_shape3 e b d y"
  shows "map (map length) p = map (map length) y"
proof (rule nth_equalityI)
  show "length (map (map length) p) = length (map (map length) y)"
    using assms by (simp add: has_shape3_def)
next
  fix i assume "i < length (map (map length) p)"
  then have i: "i < e" using assms by (simp add: has_shape3_def)
  with assms have "has_shape2 b d (p ! i)" "has_shape2 b d (y ! i)" "length p = e" "length y = e"
    by (simp_all add: has_shape3_nth)
  then show "map (map length) p ! i = map (map length) y ! i"
    using i by (auto simp: has_shape2_def list_all_iff intro!: nth_equalityI)
qed

lemma sum_results_Inr: "sum_results (map Inr ds) = Inr (sum_list ds)"
  by (induction ds) simp_all

lemma train_loss_formula:
  assumes out: "compile_outputs m s (Arr3 x) = Inr (Arr3 p)"
    and shp: "has_shape3 e b d p" "has_shape3 e b d y"
    and td: "td s = Inr dec"
  shows "train_loss m td s x y
           = Inr ((\<Sum>i<e. (\<Sum>j<b. \<Sum>k<d. (p ! i ! j ! k - y ! i ! j ! k) ^ 2 / 2)
                             / (real b * real d)) + dec)"
proof -
  from shp have l: "length p = e" "length y = e"
    and r: "\<And>i. i < e \<Longrightarrow> has_shape2 b d (p ! i)" "\<And>i. i < e \<Longrightarrow> has_shape2 b d (y ! i)"
    by (auto simp: has_shape3_nth)
  have "compile_losses m s x y = Inr (map2 member_loss p y)"
    by (simp add: compile_losses_def out same_shape_lengths [OF shp])
  moreover have "sum_list (map2 member_loss p y)
      = (\<Sum>i<e. (\<Sum>j<b. \<Sum>k<d. (p ! i ! j ! k - y ! i ! j ! k) ^ 2 / 2) / (real b * real d))"
    unfolding sum_list_map2_nth [OF l]
    by (intro sum.cong refl) (simp add: member_loss_formula r)
  ultimately show ?thesis by (simp add: train_loss_def td)
qed

lemma idxs_ok_nth:
  "idxs_ok e n idxs \<longleftrightarrow>
     length idxs = e \<and> (\<forall>i<e. length (idxs ! i) = n \<and> (\<forall>k\<in>set (idxs ! i). k < n))"
  unfolding idxs_ok_def list_all_iff
  by (metis in_set_conv_nth nth_mem)

lemma randint_idxs_ok:
  assumes "np_random_randint g n e n = Inr idxs"
  shows "idxs_ok e n idxs"
  using assms
  by (auto simp: np_random_randint_def idxs_ok_def list_all_iff split: if_splits)

lemma randint_succeeds:
  "0 < n \<or> \<not> empty_range_raises g \<Longrightarrow> \<exists>idxs. np_random_randint g n e n = Inr idxs"
  by (auto simp: np_random_randint_def)

lemma mset_argsort: "mset (argsort u) = mset [0..<length u]"
  by (simp add: argsort_def)

lemma mset_reindex:
  assumes "mset p = mset [0..<length row]"
  shows "mset (map (\<lambda>k. row ! k) p) = mset row"
proof -
  have "mset (map (\<lambda>k. row ! k) p) = image_mset (\<lambda>k. row ! k) (mset p)" by simp
  also have "\<dots> = mset (map (\<lambda>k. row ! k) [0..<length row])" by (simp add: assms)
  also have "\<dots> = mset row" by (simp add: map_nth)
  finally show ?thesis .
qed

lemma shuffle_rows_length [simp]: "length (shuffle_rows u arr) = length arr"
  by (simp add: shuffle_rows_def)

lemma shuffle_rows_nth:
  assumes "i < length arr"
  shows "shuffle_rows u arr ! i
           = map (\<lambda>k. arr ! i ! k) (argsort (map (u i) [0..<length (arr ! i)]))"
  using assms by (simp add: shuffle_rows_def nth_enumerate_eq)

text \<open>A shuffle reorders every row and changes no row's content.\<close>

lemma shuffle_rows_mset:
  assumes "i < length arr"
  shows "mset (shuffle_rows u arr ! i) = mset (arr ! i)"
  unfolding shuffle_rows_nth [OF assms]
  by (rule mset_reindex) (simp add: mset_argsort)

lemma shuffle_rows_idxs_ok:
  assumes "idxs_ok e n idxs"
  shows "idxs_ok e n (shuffle_rows u idxs)"
  unfolding idxs_ok_nth
proof (intro conjI allI impI)
  show "length (shuffle_rows u idxs) = e" using assms by (simp add: idxs_ok_nth)
next
  fix i assume i: "i < e"
  then have il: "i < length idxs" using assms by (simp add: idxs_ok_nth)
  have m: "mset (shuffle_rows u idxs ! i) = mset (idxs ! i)" by (rule shuffle_rows_mset [OF il])
  from mset_eq_length [OF m] assms i show "length (shuffle_rows u idxs ! i) = n"
    by (simp add: idxs_ok_nth)
  from mset_eq_setD [OF m] assms i show "\<forall>k\<in>set (shuffle_rows u idxs ! i). k < n"
    by (simp add: idxs_ok_nth)
qed

lemma chunk_props:
  assumes "idxs_ok e n idxs"
  shows "length (chunk bs idxs b) = e"
    and "list_all (list_all (\<lambda>i. i < n)) (chunk bs idxs b)"
    and "list_all (\<lambda>row. length row = min bs (n - b * bs)) (chunk bs idxs b)"
  using assms
  by (auto simp: chunk_def idxs_ok_def list_all_iff dest: in_set_takeD in_set_dropD)

lemma slice_to_props:
  assumes "idxs_ok e n idxs"
  shows "length (map (\<lambda>row. slice_to row k) idxs) = e"
    and "list_all (list_all (\<lambda>i. i < n)) (map (\<lambda>row. slice_to row k) idxs)"
    and "list_all (\<lambda>row. length row = slice_index n k) (map (\<lambda>row. slice_to row k) idxs)"
  using assms
  by (auto simp: slice_to_def idxs_ok_def list_all_iff slice_index_def dest: in_set_takeD)

lemma has_shape3_feed_ok3:
  assumes "has_shape3 e b d x"
  shows "feed_ok3 (e, Some d) x"
proof -
  from assms have l: "length x = e" and r: "\<forall>q\<in>set x. length q = b \<and> (\<forall>r\<in>set q. length r = d)"
    by (auto simp: has_shape3_def has_shape2_def list_all_iff)
  have "\<forall>q\<in>set x. length q = length (hd x)"
  proof
    fix q assume q: "q \<in> set x"
    then have "x \<noteq> []" by auto
    then have "hd x \<in> set x" by simp
    with r q show "length q = length (hd x)" by simp
  qed
  with l r show ?thesis by (simp add: feed_ok3_def feed_ok2_def list_all_iff)
qed

text \<open>The members' losses evaluate on every feed that fits the placeholders.\<close>

lemma compile_losses_succeeds:
  assumes ok: "vars_ok m s" and ne: "layers m \<noteq> []"
    and x: "has_shape3 (num_nets m) b (model_input_dim m) x"
    and y: "has_shape3 (num_nets m) b (model_output_dim m) y"
  shows "\<exists>losses. compile_losses m s x y = Inr losses"
proof -
  from compile_outputs_Arr3 [OF ok ne x] obtain p where
    p: "compile_outputs m s (Arr3 x) = Inr (Arr3 p)"
       "has_shape3 (num_nets m) b (model_output_dim m) p" by blast
  show ?thesis
    by (simp add: compile_losses_def p(1) same_shape_lengths [OF p(2) y])
qed

lemma train_placeholders:
  assumes fin: "finalize m0 opt env = (None, m)" and ok: "vars_ok m s"
  shows "sy_train_in m = Some (num_nets m, Some (model_input_dim m))"
    "sy_train_targ m = Some (num_nets m, Some (model_output_dim m))"
  using finalize_None(11,12) [OF fin] vars_ok_first_layer [OF ok finalize_None(2) [OF fin]]
  by (simp_all add: model_output_dim_def)

lemma permutation_mset: "mset (np_random_permutation g n) = mset [0..<n]"
  by (simp add: np_random_permutation_def)

lemma permutation_set: "set (np_random_permutation g n) = {..<n}"
  using mset_eq_setD [OF permutation_mset [of g n]] by (simp add: lessThan_atLeast0)

lemma permutation_distinct: "distinct (np_random_permutation g n)"
  using mset_eq_imp_distinct_iff [OF permutation_mset [of g n]] by simp

lemma held_retained_append:
  "held_rows g n k @ retained_rows g n k = np_random_permutation g n"
  by (simp add: held_rows_def retained_rows_def slice_to_def slice_from_def)

lemma held_retained_disjoint:
  "set (held_rows g n k) \<inter> set (retained_rows g n k) = {}"
  using permutation_distinct [of g n] unfolding held_retained_append [of g n k, symmetric]
  by simp

lemma held_retained_bounds:
  "list_all (\<lambda>i. i < n) (held_rows g n k)" "list_all (\<lambda>i. i < n) (retained_rows g n k)"
proof -
  have "set (held_rows g n k) \<union> set (retained_rows g n k) = {..<n}"
    using permutation_set [of g n] unfolding held_retained_append [of g n k, symmetric]
    by simp
  then show "list_all (\<lambda>i. i < n) (held_rows g n k)"
    "list_all (\<lambda>i. i < n) (retained_rows g n k)"
    by (auto simp: list_all_iff)
qed

lemma take_rows_succeeds:
  assumes "list_all (\<lambda>i. i < n) is" "n \<le> length xs"
  shows "take_rows xs is = Inr (map (\<lambda>i. xs ! i) is)"
  using assms by (auto simp: take_rows_def list_all_iff)

lemma rows_width:
  assumes "list_all (\<lambda>r. length r = d) xs" "list_all (\<lambda>i. i < length xs) is"
  shows "list_all (\<lambda>r. length r = d) (map (\<lambda>i. xs ! i) is)"
  using assms by (auto simp: list_all_iff)

lemma layer_vars_cong:
  assumes "\<And>v. is_layer_var v \<Longrightarrow> s' v = s v"
    and "case (weights l, biases l) of
           (Some w, Some b) \<Rightarrow> is_layer_var (var_id w) \<and> is_layer_var (var_id b)
         | _ \<Rightarrow> False"
  shows "layer_vars l s' = layer_vars l s"
  using assms by (auto simp: layer_vars_def get_arr3_def split: option.splits)

lemma layers_ok_cong:
  assumes "\<And>v. is_layer_var v \<Longrightarrow> s' v = s v" "layers_ok e d ls s"
  shows "layers_ok e d ls s'"
  using assms(2)
proof (induction ls arbitrary: d)
  case Nil
  then show ?case by simp
next
  case (Cons l ls)
  then have l: "layer_ok e d l s" and r: "layers_ok e (output_dim l) ls s" by simp_all
  from l have "layer_vars l s' = layer_vars l s"
    by (intro layer_vars_cong assms(1)) (simp_all add: layer_ok_def)
  with l have "layer_ok e d l s'" by (simp add: layer_ok_def)
  with Cons.IH [OF r] show ?case by simp
qed

text \<open>Fitting the scaler succeeds on rows of its width and keeps every shape.\<close>

lemma fit_keeps_shapes:
  assumes ok: "vars_ok m s" and sc: "scaler m = Some sc"
    and w: "list_all (\<lambda>r. length r = model_input_dim m) data"
  shows "\<exists>s1. fit sc s data = Inr s1 \<and> vars_ok m s1"
proof -
  from ok sc have ids: "var_id (mu sc) = ScalerMu" "var_id (sigma sc) = ScalerSigma"
    and lo: "layers_ok (num_nets m) (x_dim sc) (layers m) s"
    by (simp_all add: vars_ok_def)
  let ?s1 = "s(ScalerMu \<mapsto> Arr2 [map (\<lambda>k. reduce_mean (column data k)) [0..<x_dim sc]],
               ScalerSigma \<mapsto> Arr2 [map (\<lambda>k. max (column_std data k) scaler_eps) [0..<x_dim sc]])"
  have f: "fit sc s data = Inr ?s1"
    using w sc by (simp add: fit_def ids model_input_dim_def)
  have sv: "\<exists>v. scaler_vars sc ?s1 = Inr v"
    by (simp add: scaler_vars_def ids get_arr2_def has_shape2_def)
  have "layers_ok (num_nets m) (x_dim sc) (layers m) ?s1"
    by (rule layers_ok_cong [OF _ lo]) auto
  with sv ids sc have "vars_ok m ?s1" by (auto simp: vars_ok_def)
  with f show ?thesis by blast
qed

lemma chunks_take:
  "concat (map (\<lambda>b. take bs (drop (b * bs) row)) [0..<k]) = take (k * bs) row"
proof (induction k)
  case 0
  then show ?case by simp
next
  case (Suc k)
  have "take (k * bs) row @ take bs (drop (k * bs) row) = take (k * bs + bs) row"
    by (simp add: take_add)
  with Suc show ?case by (simp add: add.commute)
qed

lemma ceiling_covers:
  assumes "0 < bs"
  shows "n \<le> nat \<lceil>real n / real bs\<rceil> * bs"
proof -
  have "real n / real bs \<le> real (nat \<lceil>real n / real bs\<rceil>)"
    by (rule real_nat_ceiling_ge)
  then have "real n \<le> real (nat \<lceil>real n / real bs\<rceil>) * real bs"
    using assms by (simp only: pos_divide_le_eq of_nat_0_less_iff)
  then have "real n \<le> real (nat \<lceil>real n / real bs\<rceil> * bs)"
    by (simp only: of_nat_mult)
  then show ?thesis by (simp only: of_nat_le_iff)
qed

text \<open>The chunks of an epoch, read member by member, are the member's index row.\<close>

lemma chunks_cover_row:
  assumes "0 < bs" "idxs_ok e n idxs" "i < e"
  shows "concat (map (\<lambda>b. b ! i) (map (chunk bs idxs) [0..<nat \<lceil>real n / real bs\<rceil>]))
           = idxs ! i"
proof -
  from assms have l: "length idxs = e" "length (idxs ! i) = n" by (simp_all add: idxs_ok_nth)
  have "map (\<lambda>b. b ! i) (map (chunk bs idxs) [0..<nat \<lceil>real n / real bs\<rceil>])
          = map (\<lambda>b. take bs (drop (b * bs) (idxs ! i))) [0..<nat \<lceil>real n / real bs\<rceil>]"
    using assms(3) l by (simp add: chunk_def)
  then have "concat (map (\<lambda>b. b ! i) (map (chunk bs idxs) [0..<nat \<lceil>real n / real bs\<rceil>]))
          = take (nat \<lceil>real n / real bs\<rceil> * bs) (idxs ! i)"
    by (simp only: chunks_take)
  then show ?thesis
    using ceiling_covers [OF assms(1), of n] l by simp
qed

text \<open>The sum of the decay tensors, and the penalties of the layers.\<close>

lemma total_decay_eq:
  assumes "add_n (decays m) = Inr td"
  shows "td = total_decay m"
  using assms by (auto simp: add_n_def total_decay_def fun_eq_iff split: list.splits)

lemma layer_decay_penalty:
  assumes "layer_ok e d l s"
  shows "map (\<lambda>t. t s) (get_decays l)
           = map Inr (case weight_decay l of None \<Rightarrow> [] | Some wd \<Rightarrow> [decay_penalty l s])"
    and "sum_list (case weight_decay l of None \<Rightarrow> [] | Some wd \<Rightarrow> [decay_penalty l s])
           = decay_penalty l s"
proof -
  from assms obtain W B where v: "layer_vars l s = Inr (W, B)"
    by (auto simp: layer_ok_def split: sum.splits)
  then obtain w where w: "weights l = Some w" "get_arr3 s (var_id w) = Inr W"
    by (auto simp: layer_vars_def bind_err_Inr_iff split: option.splits if_splits)
  from w(2) have sw: "s (var_id w) = Some (Arr3 W)"
    by (auto simp: get_arr3_def split: option.splits ndarray.splits)
  show "map (\<lambda>t. t s) (get_decays l)
           = map Inr (case weight_decay l of None \<Rightarrow> [] | Some wd \<Rightarrow> [decay_penalty l s])"
    by (cases "weight_decay l") (simp_all add: get_decays_def decay_penalty_def w sw)
  show "sum_list (case weight_decay l of None \<Rightarrow> [] | Some wd \<Rightarrow> [decay_penalty l s])
           = decay_penalty l s"
    by (cases "weight_decay l") (simp_all add: decay_penalty_def)
qed

lemma layers_decay_penalty:
  assumes "layers_ok e d ls s"
  shows "\<exists>ds. map (\<lambda>t. t s) (concat (map get_decays ls)) = map Inr ds
           \<and> sum_list ds = sum_list (map (\<lambda>l. decay_penalty l s) ls)"
  using assms
proof (induction ls arbitrary: d)
  case Nil
  then show ?case by simp
next
  case (Cons l ls)
  then have l: "layer_ok e d l s" and r: "layers_ok e (output_dim l) ls s" by simp_all
  let ?d1 = "case weight_decay l of None \<Rightarrow> [] | Some wd \<Rightarrow> [decay_penalty l s]"
  note d1 = layer_decay_penalty [OF l]
  from Cons.IH [OF r] obtain d2 where
    d2: "map (\<lambda>t. t s) (concat (map get_decays ls)) = map Inr d2"
        "sum_list d2 = sum_list (map (\<lambda>l. decay_penalty l s) ls)" by blast
  have "map (\<lambda>t. t s) (concat (map get_decays (l # ls))) = map Inr (?d1 @ d2)"
    by (simp add: d1(1) d2(1))
  moreover have "sum_list (?d1 @ d2) = sum_list (map (\<lambda>l. decay_penalty l s) (l # ls))"
    by (simp add: d1(2) d2(2))
  ultimately show ?case by blast
qed

text \<open>
  On a model that had collected no decays before it was finalized, the sum of the decay
  tensors is the sum of the penalties of its layers, wherever the variables have their
  shapes.
\<close>

lemma total_decay_value:
  assumes "finalize m0 opt env = (None, m)" "decays m0 = []" "vars_ok m s"
  shows "total_decay m s = Inr (sum_list (map (\<lambda>l. decay_penalty l s) (layers m)))"
proof -
  from finalize_None(15) [OF assms(1)] assms(2)
  have d: "decays m = concat (map get_decays (layers m))" by simp
  from assms(3) have "layers_ok (num_nets m) (model_input_dim m) (layers m) s"
    by (auto simp: vars_ok_def model_input_dim_def split: option.splits)
  from layers_decay_penalty [OF this] obtain ds where
    ds: "map (\<lambda>t. t s) (concat (map get_decays (layers m))) = map Inr ds"
        "sum_list ds = sum_list (map (\<lambda>l. decay_penalty l s) (layers m))" by blast
  show ?thesis by (simp add: total_decay_def d ds(1) sum_results_Inr ds(2))
qed

text \<open>
  One run of the training operation: it succeeds, and the session is what the optimizer
  makes of the training loss at the fed batch.
\<close>

lemma train_step_exact:
  assumes fin: "finalize m0 opt env = (None, m)" and d0: "decays m0 = []"
    and ok: "vars_ok m s"
    and x: "has_shape3 (num_nets m) b (model_input_dim m) x"
    and y: "has_shape3 (num_nets m) b (model_output_dim m) y"
  shows "sess_run_train (m\<lparr>sess := s0\<rparr>) (train_op m) s x y
           = Inr (opt (\<lambda>s'. train_loss m (total_decay m) s' x y) (optvars m) s)"
proof -
  note h = finalize_None [OF fin]
  from h(14) obtain td where td: "add_n (decays m) = Inr td"
    and op: "train_op m = Some (minimize opt (train_loss m td) (optvars m))" by blast
  note op' = op [unfolded total_decay_eq [OF td]]
  from compile_losses_succeeds [OF ok h(2) x y] obtain losses where
    l: "compile_losses m s x y = Inr losses" by blast
  have tl: "\<exists>v. train_loss m (total_decay m) s x y = Inr v"
    by (simp add: train_loss_def l total_decay_value [OF fin d0 ok])
  then obtain v where v: "train_loss m (total_decay m) s x y = Inr v" by blast
  show ?thesis
    by (simp add: sess_run_train_def op' train_placeholders [OF fin ok]
        has_shape3_feed_ok3 [OF x] has_shape3_feed_ok3 [OF y] minimize_def v)
qed

lemma mse_run_exact:
  assumes fin: "finalize m0 opt env = (None, m)"
    and ok: "vars_ok m s"
    and x: "has_shape3 (num_nets m) b (model_input_dim m) x"
    and y: "has_shape3 (num_nets m) b (model_output_dim m) y"
  shows "\<exists>losses. compile_losses m s x y = Inr losses
           \<and> sess_run_train (m\<lparr>sess := s0\<rparr>) (mse_loss m) s x y = Inr losses"
proof -
  note h = finalize_None [OF fin]
  from compile_losses_succeeds [OF ok h(2) x y] obtain losses where
    l: "compile_losses m s x y = Inr losses" by blast
  have "sess_run_train (m\<lparr>sess := s0\<rparr>) (mse_loss m) s x y = Inr losses"
    by (simp add: sess_run_train_def h(13) train_placeholders [OF fin ok]
        has_shape3_feed_ok3 [OF x] has_shape3_feed_ok3 [OF y] l)
  with l show ?thesis by blast
qed

lemma gather_batch_rows:
  assumes "list_all (list_all (\<lambda>i. i < length xs)) iss"
  shows "gather xs iss = Inr (batch_rows xs iss)"
  using assms by (simp add: gather_def batch_rows_def)

lemma batch_rows_shape:
  assumes "length iss = e" "list_all (\<lambda>row. length row = b) iss"
    "list_all (list_all (\<lambda>i. i < length xs)) iss" "list_all (\<lambda>r. length r = d) xs"
  shows "has_shape3 e b d (batch_rows xs iss)"
  using assms by (auto simp: batch_rows_def has_shape3_def has_shape2_def list_all_iff)

text \<open>The steps of an optimizer that keeps the shapes keep the shapes.\<close>

lemma optimizer_step_ok:
  assumes "keeps_shapes m opt" "vars_ok m s"
  shows "vars_ok m (optimizer_step m opt rows targs s b)"
  using assms by (simp add: keeps_shapes_def optimizer_step_def)

lemma optimizer_steps_ok:
  assumes "keeps_shapes m opt" "vars_ok m s"
  shows "vars_ok m (foldl (optimizer_step m opt rows targs) s bl)"
  using assms(2) by (induction bl arbitrary: s) (simp_all add: optimizer_step_ok [OF assms(1)])

text \<open>The inner loop is the fold of the optimizer step over the chunks.\<close>

lemma run_batches_exact:
  assumes fin: "finalize m0 opt env = (None, m)" and d0: "decays m0 = []"
    and ks: "keeps_shapes m opt"
    and ix: "idxs_ok (num_nets m) (length inputs) idxs"
    and len: "length targets = length inputs"
    and wi: "list_all (\<lambda>r. length r = model_input_dim m) inputs"
    and wt: "list_all (\<lambda>r. length r = model_output_dim m) targets"
    and ok: "vars_ok m s"
  shows "run_batches (m\<lparr>sess := s0\<rparr>) inputs targets batch_size idxs bl s
           = Inr (foldl (optimizer_step m opt inputs targets) s (map (chunk batch_size idxs) bl))"
  using ok
proof (induction bl arbitrary: s)
  case Nil
  then show ?case by simp
next
  case (Cons b bl)
  let ?c = "chunk batch_size idxs b"
  let ?w = "min batch_size (length inputs - b * batch_size)"
  note c = chunk_props [OF ix, of batch_size b]
  from c(2) len have c2: "list_all (list_all (\<lambda>i. i < length targets)) ?c" by simp
  note x = gather_batch_rows [OF c(2)] batch_rows_shape [OF c(1) c(3) c(2) wi]
  note y = gather_batch_rows [OF c2] batch_rows_shape [OF c(1) c(3) c2 wt]
  note st = train_step_exact [OF fin d0 Cons.prems x(2) y(2), of s0]
  have ok': "vars_ok m (optimizer_step m opt inputs targets s ?c)"
    by (rule optimizer_step_ok [OF ks Cons.prems])
  note r = Cons.IH [OF ok']
  show ?case
    using x(1) y(1) st r
    by (simp add: chunk_def [symmetric] Let_def optimizer_step_def [symmetric])
qed

lemma replicate_has_shape3:
  assumes "list_all (\<lambda>r. length r = d) h"
  shows "has_shape3 e (length h) d (replicate e h)"
  using assms by (simp add: has_shape3_def has_shape2_def list_all_iff)

text \<open>What the progress bar is given: the members' losses, as \<^verbatim>\<open>mse_loss\<close> evaluates them.\<close>

lemma postfix_exact:
  assumes fin: "finalize m0 opt env = (None, m)"
    and ix: "idxs_ok (num_nets m) (length inputs) idxs"
    and len: "length targets = length inputs"
    and wi: "list_all (\<lambda>r. length r = model_input_dim m) inputs"
    and wt: "list_all (\<lambda>r. length r = model_output_dim m) targets"
    and hi: "list_all (\<lambda>r. length r = model_input_dim m) hin"
    and ht: "list_all (\<lambda>r. length r = model_output_dim m) htarg"
    and hl: "length htarg = length hin"
    and ok: "vars_ok m s"
  shows "\<exists>cur held.
           compile_losses m s (replicate (num_nets m) hin) (replicate (num_nets m) htarg)
             = Inr held
         \<and> postfix (m\<lparr>sess := s0\<rparr>) inputs targets hide r ml
             (replicate (num_nets m) hin) (replicate (num_nets m) htarg) s idxs
             = Inr (if hide then None
                    else Some (cur, if r < holdout_threshold then None else Some held))"
proof -
  let ?c = "map (\<lambda>row. slice_to row ml) idxs"
  note c = slice_to_props [OF ix, of ml]
  from c(2) len have c2: "list_all (list_all (\<lambda>i. i < length targets)) ?c" by simp
  note x = gather_batch_rows [OF c(2)] batch_rows_shape [OF c(1) c(3) c(2) wi]
  note y = gather_batch_rows [OF c2] batch_rows_shape [OF c(1) c(3) c2 wt]
  from mse_run_exact [OF fin ok x(2) y(2), of s0] obtain cur where
    cur: "sess_run_train (m\<lparr>sess := s0\<rparr>) (mse_loss m) s (batch_rows inputs ?c)
            (batch_rows targets ?c) = Inr cur" by blast
  have hy: "has_shape3 (num_nets m) (length hin) (model_output_dim m)
              (replicate (num_nets m) htarg)"
    using replicate_has_shape3 [OF ht, of "num_nets m"] hl by simp
  from mse_run_exact [OF fin ok replicate_has_shape3 [OF hi] hy, of s0] obtain held where
    held: "compile_losses m s (replicate (num_nets m) hin) (replicate (num_nets m) htarg)
             = Inr held"
      "sess_run_train (m\<lparr>sess := s0\<rparr>) (mse_loss m) s
             (replicate (num_nets m) hin) (replicate (num_nets m) htarg) = Inr held" by blast
  have "postfix (m\<lparr>sess := s0\<rparr>) inputs targets hide r ml
             (replicate (num_nets m) hin) (replicate (num_nets m) htarg) s idxs
             = Inr (if hide then None
                    else Some (cur, if r < holdout_threshold then None else Some held))"
    using x(1) y(1) cur held(2) by (simp add: postfix_def Let_def)
  with held(1) show ?thesis by blast
qed

text \<open>The state of training keeps the shapes of the variables and of the index array.\<close>

lemma training_state_Suc:
  "training_state m opt g rows targs bs s0 idxs0 (Suc k)
     = (epoch_steps m opt rows targs bs (snd (training_state m opt g rows targs bs s0 idxs0 k))
          (fst (training_state m opt g rows targs bs s0 idxs0 k)),
        shuffle_rows (uniform_draws g k) (snd (training_state m opt g rows targs bs s0 idxs0 k)))"
  by (simp add: case_prod_beta)

lemma training_state_idxs:
  assumes "idxs_ok e n idxs0"
  shows "idxs_ok e n (snd (training_state m opt g rows targs bs s0 idxs0 k))"
    and "\<forall>i<e. mset (snd (training_state m opt g rows targs bs s0 idxs0 k) ! i) = mset (idxs0 ! i)"
proof -
  have "idxs_ok e n (snd (training_state m opt g rows targs bs s0 idxs0 k))
      \<and> (\<forall>i<e. mset (snd (training_state m opt g rows targs bs s0 idxs0 k) ! i)
                  = mset (idxs0 ! i))"
  proof (induction k)
    case 0
    then show ?case using assms by simp
  next
    case (Suc k)
    let ?I = "snd (training_state m opt g rows targs bs s0 idxs0 k)"
    from Suc have ix: "idxs_ok e n ?I" and ms: "\<forall>i<e. mset (?I ! i) = mset (idxs0 ! i)"
      by simp_all
    have li: "length ?I = e" using ix by (simp add: idxs_ok_def)
    have "idxs_ok e n (shuffle_rows (uniform_draws g k) ?I)"
      by (rule shuffle_rows_idxs_ok [OF ix])
    moreover have "\<forall>i<e. mset (shuffle_rows (uniform_draws g k) ?I ! i) = mset (idxs0 ! i)"
      using ms li by (simp add: shuffle_rows_mset)
    ultimately show ?case by (simp only: training_state_Suc snd_conv)
  qed
  then show "idxs_ok e n (snd (training_state m opt g rows targs bs s0 idxs0 k))"
    and "\<forall>i<e. mset (snd (training_state m opt g rows targs bs s0 idxs0 k) ! i)
                 = mset (idxs0 ! i)"
    by simp_all
qed

lemma training_state_ok:
  assumes "keeps_shapes m opt" "vars_ok m s0"
  shows "vars_ok m (fst (training_state m opt g rows targs bs s0 idxs0 k))"
proof (induction k)
  case 0
  then show ?case using assms(2) by simp
next
  case (Suc k)
  then show ?case
    by (simp only: training_state_Suc fst_conv epoch_steps_def optimizer_steps_ok [OF assms(1)])
qed

text \<open>
  The outer loop takes the state of training after \<open>k\<close> epochs to the state after
  \<open>k + j\<close>, and gives the progress bar one entry per epoch.
\<close>

lemma run_epochs_exact:
  assumes fin: "finalize m0 opt env = (None, m)" and d0: "decays m0 = []"
    and ks: "keeps_shapes m opt"
    and len: "length targets = length inputs"
    and wi: "list_all (\<lambda>r. length r = model_input_dim m) inputs"
    and wt: "list_all (\<lambda>r. length r = model_output_dim m) targets"
    and hi: "list_all (\<lambda>r. length r = model_input_dim m) hin"
    and ht: "list_all (\<lambda>r. length r = model_output_dim m) htarg"
    and hl: "length htarg = length hin"
    and bs: "0 < batch_size"
    and ok: "vars_ok m s0"
    and ix: "idxs_ok (num_nets m) (length inputs) idxs0"
  shows "\<exists>new.
           run_epochs (m\<lparr>sess := sx\<rparr>) inputs targets batch_size hide r ml
             (replicate (num_nets m) hin) (replicate (num_nets m) htarg) g (length inputs)
             [k..<k + j]
             (fst (training_state m opt g inputs targets batch_size s0 idxs0 k),
              snd (training_state m opt g inputs targets batch_size s0 idxs0 k), bar)
             = Inr (fst (training_state m opt g inputs targets batch_size s0 idxs0 (k + j)),
                    snd (training_state m opt g inputs targets batch_size s0 idxs0 (k + j)),
                    bar @ new)
         \<and> length new = j
         \<and> (\<forall>i<j. \<exists>cur held.
               compile_losses m
                 (fst (training_state m opt g inputs targets batch_size s0 idxs0 (Suc (k + i))))
                 (replicate (num_nets m) hin) (replicate (num_nets m) htarg) = Inr held
             \<and> new ! i = (if hide then None
                          else Some (cur, if r < holdout_threshold then None else Some held)))"
proof (induction j arbitrary: k bar)
  case 0
  then show ?case by simp
next
  case (Suc j)
  let ?st = "training_state m opt g inputs targets batch_size s0 idxs0"
  let ?nb = "nat \<lceil>real (length inputs) / real batch_size\<rceil>"
  let ?M = "m\<lparr>sess := sx\<rparr>"
  let ?H = "replicate (num_nets m) hin" and ?T = "replicate (num_nets m) htarg"
  have nb: "num_batches (length inputs) batch_size = Inr ?nb"
    using bs by (simp add: num_batches_def)
  note okk = training_state_ok [OF ks ok, of g inputs targets batch_size idxs0 k]
  note ixk = training_state_idxs(1) [OF ix, of m opt g inputs targets batch_size s0 k]
  note okS = training_state_ok [OF ks ok, of g inputs targets batch_size idxs0 "Suc k"]
  note ixS = training_state_idxs(1) [OF ix, of m opt g inputs targets batch_size s0 "Suc k"]
  have rb: "run_batches ?M inputs targets batch_size (snd (?st k)) [0..<?nb] (fst (?st k))
              = Inr (fst (?st (Suc k)))"
    unfolding run_batches_exact [OF fin d0 ks ixk len wi wt okk]
    by (simp only: training_state_Suc fst_conv epoch_steps_def)
  have sh: "shuffle_rows (uniform_draws g k) (snd (?st k)) = snd (?st (Suc k))"
    by (simp only: training_state_Suc snd_conv)
  from postfix_exact [OF fin ixS len wi wt hi ht hl okS, of sx hide r ml]
  obtain cur held where
    hv: "compile_losses m (fst (?st (Suc k))) ?H ?T = Inr held"
    and pf: "postfix ?M inputs targets hide r ml ?H ?T (fst (?st (Suc k))) (snd (?st (Suc k)))
           = Inr (if hide then None
                  else Some (cur, if r < holdout_threshold then None else Some held))"
    by blast
  let ?shown = "if hide then None
                else Some (cur, if r < holdout_threshold then None else Some held)"
  from Suc.IH [of "Suc k" "bar @ [?shown]"] obtain new where
    r: "run_epochs ?M inputs targets batch_size hide r ml ?H ?T g (length inputs)
          [Suc k..<Suc k + j] (fst (?st (Suc k)), snd (?st (Suc k)), bar @ [?shown])
          = Inr (fst (?st (Suc k + j)), snd (?st (Suc k + j)), (bar @ [?shown]) @ new)"
    and ln: "length new = j"
    and pr: "\<forall>i<j. \<exists>cur held.
               compile_losses m (fst (?st (Suc (Suc k + i)))) ?H ?T = Inr held
             \<and> new ! i = (if hide then None
                          else Some (cur, if r < holdout_threshold then None else Some held))"
    by blast
  have u: "[k..<k + Suc j] = k # [Suc k..<Suc k + j]" by (simp add: upt_conv_Cons)
  have run: "run_epochs ?M inputs targets batch_size hide r ml ?H ?T g (length inputs)
          [k..<k + Suc j] (fst (?st k), snd (?st k), bar)
          = Inr (fst (?st (k + Suc j)), snd (?st (k + Suc j)), bar @ (?shown # new))"
    unfolding u using nb rb sh pf r by (simp add: Let_def)
  have pr': "\<forall>i<Suc j. \<exists>cur held.
               compile_losses m (fst (?st (Suc (k + i)))) ?H ?T = Inr held
             \<and> (?shown # new) ! i
                 = (if hide then None
                    else Some (cur, if r < holdout_threshold then None else Some held))"
  proof (intro allI impI)
    fix i assume i: "i < Suc j"
    show "\<exists>cur held.
               compile_losses m (fst (?st (Suc (k + i)))) ?H ?T = Inr held
             \<and> (?shown # new) ! i
                 = (if hide then None
                    else Some (cur, if r < holdout_threshold then None else Some held))"
    proof (cases i)
      case 0
      with hv show ?thesis by (intro exI [of _ cur] exI [of _ held]) simp
    next
      case (Suc i')
      with i pr have "\<exists>cur held.
               compile_losses m (fst (?st (Suc (Suc k + i')))) ?H ?T = Inr held
             \<and> new ! i' = (if hide then None
                          else Some (cur, if r < holdout_threshold then None else Some held))"
        by simp
      then show ?thesis by (simp add: Suc)
    qed
  qed
  from run ln pr' show ?case
    by (intro exI [of _ "?shown # new"] conjI) simp_all
qed

lemma train_unfold:
  assumes "num_holdout_of (length inputs) r ml = Inr k"
  shows "train M inputs targets batch_size epochs hide r ml g =
     bind_err (take_rows inputs (retained_rows g (length inputs) k)) (\<lambda>inputs'.
     bind_err (take_rows inputs (held_rows g (length inputs) k)) (\<lambda>holdout_inputs.
     bind_err (take_rows targets (retained_rows g (length inputs) k)) (\<lambda>targets'.
     bind_err (take_rows targets (held_rows g (length inputs) k)) (\<lambda>holdout_targets.
       case scaler M of
         None \<Rightarrow> Inl AttributeError
       | Some sc \<Rightarrow>
           bind_err (fit sc (sess M) inputs') (\<lambda>s1.
           bind_err (np_random_randint g (length inputs') (num_nets M) (length inputs'))
             (\<lambda>idxs.
           bind_err (run_epochs M inputs' targets' batch_size hide r ml
                       (replicate (num_nets M) holdout_inputs)
                       (replicate (num_nets M) holdout_targets) g (length inputs')
                       [0..<epochs] (s1, idxs, []))
             (\<lambda>(s2, idxs', bar). Inr (M\<lparr>sess := s2\<rparr>, bar))))))))"
  unfolding train_def Let_def assms bind_err_simps
  by (rule refl)

text \<open>
  A call on a finalized model whose variables have their shapes, with an optimizer that
  keeps the shapes, rows of the right widths, a target for every input row and a
  positive batch size returns, provided that a row is retained or that the bootstrap
  draw accepts the empty range. The scaler is fitted on the retained rows; the session
  the call leaves is that of the state of training, on the retained rows, after all
  epochs; and the progress bar is given the losses on the holdout set.
\<close>

lemma train_exact:
  fixes inputs targets :: matrix
  assumes fin: "finalize m0 opt env = (None, m)" and d0: "decays m0 = []"
    and ks: "keeps_shapes m opt"
    and ok: "vars_ok m s"
    and wi: "list_all (\<lambda>r. length r = model_input_dim m) inputs"
    and wt: "list_all (\<lambda>r. length r = model_output_dim m) targets"
    and len: "length inputs \<le> length targets"
    and bs: "0 < batch_size"
    and nh: "num_holdout_of (length inputs) r ml = Inr k"
    and draw: "retained_rows g (length inputs) k \<noteq> [] \<or> \<not> empty_range_raises g"
    and rows: "rows = map (\<lambda>i. inputs ! i) (retained_rows g (length inputs) k)"
    and targs: "targs = map (\<lambda>i. targets ! i) (retained_rows g (length inputs) k)"
    and hrows: "hrows = map (\<lambda>i. inputs ! i) (held_rows g (length inputs) k)"
    and htargs: "htargs = map (\<lambda>i. targets ! i) (held_rows g (length inputs) k)"
  shows "\<exists>sc s0 idxs0 bar.
           scaler m = Some sc \<and> fit sc s rows = Inr s0 \<and> vars_ok m s0
         \<and> np_random_randint g (length rows) (num_nets m) (length rows) = Inr idxs0
         \<and> idxs_ok (num_nets m) (length rows) idxs0
         \<and> train (m\<lparr>sess := s\<rparr>) inputs targets batch_size epochs hide r ml g
             = Inr (m\<lparr>sess := fst (training_state m opt g rows targs batch_size s0 idxs0
                                   epochs)\<rparr>, bar)
         \<and> length bar = epochs
         \<and> (\<forall>j<epochs. \<exists>cur held.
               compile_losses m
                 (fst (training_state m opt g rows targs batch_size s0 idxs0 (Suc j)))
                 (replicate (num_nets m) hrows) (replicate (num_nets m) htargs) = Inr held
             \<and> bar ! j = (if hide then None
                          else Some (cur, if r < holdout_threshold then None else Some held)))"
proof -
  let ?N = "length inputs"
  let ?ret = "retained_rows g ?N k" and ?held = "held_rows g ?N k"
  let ?M = "m\<lparr>sess := s\<rparr>"
  note b = held_retained_bounds [of ?N g k]
  have t1: "take_rows inputs ?ret = Inr rows" "take_rows inputs ?held = Inr hrows"
    "take_rows targets ?ret = Inr targs" "take_rows targets ?held = Inr htargs"
    using b len by (simp_all add: take_rows_succeeds [of ?N] rows targs hrows htargs)
  have bt: "list_all (\<lambda>i. i < length targets) ?ret" "list_all (\<lambda>i. i < length targets) ?held"
    using b len by (auto simp: list_all_iff)
  have w: "list_all (\<lambda>r. length r = model_input_dim m) rows"
    "list_all (\<lambda>r. length r = model_input_dim m) hrows"
    "list_all (\<lambda>r. length r = model_output_dim m) targs"
    "list_all (\<lambda>r. length r = model_output_dim m) htargs"
    using rows_width [OF wi b(2)] rows_width [OF wi b(1)] rows_width [OF wt bt(1)]
      rows_width [OF wt bt(2)] by (simp_all add: rows targs hrows htargs)
  from finalize_None(3) [OF fin] obtain sc where sc: "scaler m = Some sc" by blast
  from fit_keeps_shapes [OF ok sc w(1)] obtain s1 where
    f: "fit sc s rows = Inr s1" and ok1: "vars_ok m s1" by blast
  have n: "0 < length rows \<or> \<not> empty_range_raises g" using draw by (simp add: rows)
  from randint_succeeds [OF n, of "num_nets m"] obtain idxs where
    ri: "np_random_randint g (length rows) (num_nets m) (length rows) = Inr idxs" by blast
  note ix = randint_idxs_ok [OF ri]
  have l2: "length targs = length rows" "length htargs = length hrows"
    by (simp_all add: rows targs hrows htargs)
  let ?st = "training_state m opt g rows targs batch_size s1 idxs"
  from run_epochs_exact [OF fin d0 ks l2(1) w(1) w(3) w(2) w(4) l2(2) bs ok1 ix,
      of s hide r ml g 0 epochs "[]"]
  obtain bar where
    re: "run_epochs ?M rows targs batch_size hide r ml (replicate (num_nets m) hrows)
           (replicate (num_nets m) htargs) g (length rows) [0..<epochs] (s1, idxs, [])
           = Inr (fst (?st epochs), snd (?st epochs), bar)"
    and lb: "length bar = epochs"
    and pr: "\<forall>j<epochs. \<exists>cur held.
               compile_losses m (fst (?st (Suc j)))
                 (replicate (num_nets m) hrows) (replicate (num_nets m) htargs) = Inr held
             \<and> bar ! j = (if hide then None
                          else Some (cur, if r < holdout_threshold then None else Some held))"
    by auto
  have "train ?M inputs targets batch_size epochs hide r ml g
          = Inr (m\<lparr>sess := fst (?st epochs)\<rparr>, bar)"
    unfolding train_unfold [OF nh] using t1 sc f ri re by simp
  with sc f ok1 ri ix lb pr show ?thesis by blast
qed

text \<open>
  A shuffle reorders a row by a permutation of its positions that sorts the uniform
  draws of the row.
\<close>

lemma argsort_sorted: "sorted (map (\<lambda>q. u ! q) (argsort u))"
  by (simp add: argsort_def)

lemma shuffle_rows_reorders:
  assumes "i < length arr" "length (arr ! i) = n"
  shows "\<exists>p. mset p = mset [0..<n] \<and> sorted (map (u i) p)
           \<and> shuffle_rows u arr ! i = map (\<lambda>q. arr ! i ! q) p"
proof -
  let ?d = "map (u i) [0..<n]"
  let ?p = "argsort ?d"
  have m: "mset ?p = mset [0..<n]" using mset_argsort [of ?d] by simp
  then have "set ?p = set [0..<n]" by (rule mset_eq_setD)
  then have b: "\<forall>q\<in>set ?p. q < n" by simp
  have "map (\<lambda>q. ?d ! q) ?p = map (u i) ?p"
    by (rule map_cong [OF refl]) (use b in simp)
  with argsort_sorted [of ?d] have s: "sorted (map (u i) ?p)" by simp
  have "shuffle_rows u arr ! i = map (\<lambda>q. arr ! i ! q) ?p"
    using shuffle_rows_nth [OF assms(1), of u] by (simp add: assms(2))
  with m s show ?thesis by blast
qed

text \<open>Every chunk of an epoch holds an index.\<close>

lemma chunk_starts_in_row:
  assumes "0 < bs" "b < nat \<lceil>real n / real bs\<rceil>"
  shows "b * bs < n"
proof -
  from assms(2) have "int b < \<lceil>real n / real bs\<rceil>" by simp
  then have "real b < real n / real bs" by (simp add: less_ceiling_iff)
  then have "real b * real bs < real n"
    using assms(1) by (simp add: pos_less_divide_eq)
  then have "real (b * bs) < real n" by (simp only: of_nat_mult)
  then show ?thesis by (simp only: of_nat_less_iff)
qed

text \<open>
  What the index array of the state of training is after \<open>j\<close> epochs, member by member:
  a row of \<open>n\<close> indices; its chunks, in order, make up the row, each of \<open>batch_size\<close>
  indices but possibly the last, none empty; the row after the next shuffle is this row
  reordered; and every such row has the indices of the bootstrap draw, with their
  multiplicities.
\<close>

lemma training_state_rows:
  assumes ix: "idxs_ok e n idxs0" and bs: "0 < bs" and i: "i < e"
  shows "length (snd (training_state m opt g rows targs bs s0 idxs0 j) ! i) = n"
    and "concat (map (\<lambda>b. chunk bs (snd (training_state m opt g rows targs bs s0 idxs0 j)) b ! i)
                  [0..<nat \<lceil>real n / real bs\<rceil>])
           = snd (training_state m opt g rows targs bs s0 idxs0 j) ! i"
    and "\<forall>b<nat \<lceil>real n / real bs\<rceil>.
           length (chunk bs (snd (training_state m opt g rows targs bs s0 idxs0 j)) b) = e
         \<and> length (chunk bs (snd (training_state m opt g rows targs bs s0 idxs0 j)) b ! i)
             = min bs (n - b * bs)
         \<and> 0 < min bs (n - b * bs)"
    and "\<exists>p. mset p = mset [0..<n] \<and> sorted (map (uniform_draws g j i) p)
           \<and> snd (training_state m opt g rows targs bs s0 idxs0 (Suc j)) ! i
               = map (\<lambda>q. snd (training_state m opt g rows targs bs s0 idxs0 j) ! i ! q) p"
    and "mset (snd (training_state m opt g rows targs bs s0 idxs0 j) ! i) = mset (idxs0 ! i)"
    and "\<forall>q\<in>set (snd (training_state m opt g rows targs bs s0 idxs0 j) ! i). q < n"
proof -
  let ?I = "snd (training_state m opt g rows targs bs s0 idxs0 j)"
  note ixj = training_state_idxs(1) [OF ix, of m opt g rows targs bs s0 j]
  from ixj i have l: "length ?I = e" "length (?I ! i) = n" and rg: "\<forall>q\<in>set (?I ! i). q < n"
    by (simp_all add: idxs_ok_nth)
  show "length (?I ! i) = n" by (fact l(2))
  show "\<forall>q\<in>set (?I ! i). q < n" by (fact rg)
  have "map (\<lambda>b. chunk bs ?I b ! i) [0..<nat \<lceil>real n / real bs\<rceil>]
          = map (\<lambda>b. b ! i) (map (chunk bs ?I) [0..<nat \<lceil>real n / real bs\<rceil>])"
    by simp
  then show "concat (map (\<lambda>b. chunk bs ?I b ! i) [0..<nat \<lceil>real n / real bs\<rceil>]) = ?I ! i"
    using chunks_cover_row [OF bs ixj i] by (simp only:)
  show "\<forall>b<nat \<lceil>real n / real bs\<rceil>.
           length (chunk bs ?I b) = e
         \<and> length (chunk bs ?I b ! i) = min bs (n - b * bs)
         \<and> 0 < min bs (n - b * bs)"
  proof (intro allI impI conjI)
    fix b assume b: "b < nat \<lceil>real n / real bs\<rceil>"
    note c = chunk_props [OF ixj, of bs b]
    show "length (chunk bs ?I b) = e" by (fact c(1))
    from c(1) c(3) i show "length (chunk bs ?I b ! i) = min bs (n - b * bs)"
      by (simp add: list_all_length)
    from chunk_starts_in_row [OF bs b] bs show "0 < min bs (n - b * bs)" by simp
  qed
  from shuffle_rows_reorders [of i ?I n "uniform_draws g j"] i l
  show "\<exists>p. mset p = mset [0..<n] \<and> sorted (map (uniform_draws g j i) p)
           \<and> snd (training_state m opt g rows targs bs s0 idxs0 (Suc j)) ! i
               = map (\<lambda>q. ?I ! i ! q) p"
    by (simp only: training_state_Suc snd_conv)
  from training_state_idxs(2) [OF ix, of m opt g rows targs bs s0 j] i
  show "mset (?I ! i) = mset (idxs0 ! i)" by simp
qed

text \<open>With no row there is no chunk, and the session stays what it was.\<close>

lemma training_state_no_rows:
  "fst (training_state m opt g [] targs bs s0 idxs0 k) = s0"
  by (induction k) (simp_all add: case_prod_beta epoch_steps_def)

lemma fit_leaves_layers:
  assumes "vars_ok m s" "scaler m = Some sc" "fit sc s data = Inr s1" "is_layer_var v"
  shows "s1 v = s v"
  using assms
  by (cases v) (auto simp: vars_ok_def fit_def split: if_splits)

text \<open>A call that returned has drawn its bootstrap indices.\<close>

lemma train_Inr_draw:
  assumes "train M inputs targets batch_size epochs hide r ml g = Inr res"
  shows "\<exists>k idxs. num_holdout_of (length inputs) r ml = Inr k
           \<and> np_random_randint g (length (retained_rows g (length inputs) k)) (num_nets M)
                 (length (retained_rows g (length inputs) k)) = Inr idxs"
proof -
  from assms obtain k where nh: "num_holdout_of (length inputs) r ml = Inr k"
    by (cases "num_holdout_of (length inputs) r ml") (simp_all add: train_def)
  from assms obtain inputs' idxs where
    t: "take_rows inputs (retained_rows g (length inputs) k) = Inr inputs'"
    and d: "np_random_randint g (length inputs') (num_nets M) (length inputs') = Inr idxs"
    unfolding train_unfold [OF nh]
    by (auto simp: bind_err_Inr_iff split: option.splits)
  from t have "length inputs' = length (retained_rows g (length inputs) k)"
    by (auto simp: take_rows_def split: if_splits)
  with nh d show ?thesis by auto
qed

lemma train_raises_on_empty_range:
  assumes "num_holdout_of (length inputs) r ml = Inr k"
    and "retained_rows g (length inputs) k = []" and "empty_range_raises g"
  shows "\<exists>e. train M inputs targets batch_size epochs hide r ml g = Inl e"
proof (cases "train M inputs targets batch_size epochs hide r ml g")
  case (Inl e)
  then show ?thesis by blast
next
  case (Inr res)
  from train_Inr_draw [OF Inr] assms show ?thesis
    by (auto simp: np_random_randint_def)
qed

lemma train_raises_at_the_draw:
  assumes nh: "num_holdout_of (length inputs) r ml = Inr k"
    and ret: "retained_rows g (length inputs) k = []" and rs: "empty_range_raises g"
    and sc: "scaler M = Some sc" and len: "length inputs \<le> length targets"
  shows "train M inputs targets batch_size epochs hide r ml g = Inl ValueError"
proof -
  note b = held_retained_bounds [of "length inputs" g k]
  have t: "take_rows inputs (held_rows g (length inputs) k)
             = Inr (map (\<lambda>i. inputs ! i) (held_rows g (length inputs) k))"
    "take_rows targets (held_rows g (length inputs) k)
             = Inr (map (\<lambda>i. targets ! i) (held_rows g (length inputs) k))"
    using b(1) len by (simp_all add: take_rows_succeeds [of "length inputs"])
  have f: "\<exists>s1. fit sc (sess M) [] = Inr s1" by (simp add: fit_def)
  then obtain s1 where s1: "fit sc (sess M) [] = Inr s1" by blast
  show ?thesis
    unfolding train_unfold [OF nh] using ret sc t s1 rs
    by (simp add: take_rows_def np_random_randint_def)
qed

text \<open>The number of held-out rows, and when it is the floor of the exact product.\<close>

lemma permutation_length: "length (np_random_permutation g n) = n"
  using mset_eq_length [OF permutation_mset [of g n]] by simp

lemma held_length: "length (held_rows g n k) = slice_index n k"
  by (simp add: held_rows_def slice_to_def permutation_length slice_index_def)

lemma retained_length: "length (retained_rows g n k) = n - slice_index n k"
  by (simp add: retained_rows_def slice_from_def permutation_length)

lemma slice_index_full: "n \<le> slice_index n k \<longleftrightarrow> n = 0 \<or> int n \<le> k"
proof (cases "k < 0")
  case True
  then have "nat (max 0 (int n + k)) < n \<or> n = 0" by linarith
  with True show ?thesis by (auto simp: slice_index_def)
next
  case False
  then show ?thesis by (auto simp: slice_index_def)
qed

lemma num_holdout_exact:
  assumes "num_holdout_of n r ml = Inr k"
    and "round_to_double (real n) = Some (real n)"
    and "round_to_double (real n * r) = Some (real n * r)" and "0 \<le> r"
  shows "k = min \<lfloor>real n * r\<rfloor> ml"
  using assms by (simp add: num_holdout_of_def py_int_def)

text \<open>The probing optimizer keeps every shape.\<close>

lemma has_shape3_map [simp]:
  "has_shape3 e r c (map (map (map f)) B) = has_shape3 e r c B"
  by (auto simp: has_shape3_def has_shape2_def list_all_iff)

lemma get_arr3_probe:
  assumes "s (FCBiases 0) = Some (Arr3 B)" "get_arr3 s v = Inr W" "has_shape3 e r c W"
  shows "\<exists>W'. get_arr3 (s(FCBiases 0 \<mapsto> Arr3 (map (map (map f)) B))) v = Inr W'
           \<and> has_shape3 e r c W'"
proof (cases "v = FCBiases 0")
  case True
  with assms have "W = B" by (simp add: get_arr3_def)
  with True assms(3) show ?thesis by (simp add: get_arr3_def)
next
  case False
  with assms(2,3) show ?thesis by (simp add: get_arr3_def)
qed

lemma layer_vars_probe:
  assumes B: "s (FCBiases 0) = Some (Arr3 B)" and lv: "layer_vars l s = Inr (W, C)"
  shows "\<exists>W' C'. layer_vars l (s(FCBiases 0 \<mapsto> Arr3 (map (map (map f)) B))) = Inr (W', C')"
proof -
  from lv obtain d w b where l: "input_dim l = Some d" "weights l = Some w" "biases l = Some b"
    and g: "get_arr3 s (var_id w) = Inr W" "get_arr3 s (var_id b) = Inr C"
    and h: "has_shape3 (ensemble_size l) d (output_dim l) W"
           "has_shape3 (ensemble_size l) 1 (output_dim l) C"
    by (auto simp: layer_vars_def bind_err_Inr_iff split: option.splits if_splits)
  from get_arr3_probe [OF B g(1) h(1), of f] obtain W' where
    W': "get_arr3 (s(FCBiases 0 \<mapsto> Arr3 (map (map (map f)) B))) (var_id w) = Inr W'"
        "has_shape3 (ensemble_size l) d (output_dim l) W'" by blast
  from get_arr3_probe [OF B g(2) h(2), of f] obtain C' where
    C': "get_arr3 (s(FCBiases 0 \<mapsto> Arr3 (map (map (map f)) B))) (var_id b) = Inr C'"
        "has_shape3 (ensemble_size l) 1 (output_dim l) C'" by blast
  have "layer_vars l (s(FCBiases 0 \<mapsto> Arr3 (map (map (map f)) B))) = Inr (W', C')"
    unfolding layer_vars_def l using W' C' by simp
  then show ?thesis by blast
qed

lemma layers_ok_probe:
  assumes "s (FCBiases 0) = Some (Arr3 B)" "layers_ok e d ls s"
  shows "layers_ok e d ls (s(FCBiases 0 \<mapsto> Arr3 (map (map (map f)) B)))"
  using assms(2)
proof (induction ls arbitrary: d)
  case Nil
  then show ?case by simp
next
  case (Cons l ls)
  then have l: "layer_ok e d l s" and r: "layers_ok e (output_dim l) ls s" by simp_all
  from l obtain W C where "layer_vars l s = Inr (W, C)"
    by (auto simp: layer_ok_def split: sum.splits)
  from layer_vars_probe [OF assms(1) this, of f] l
  have "layer_ok e d l (s(FCBiases 0 \<mapsto> Arr3 (map (map (map f)) B)))"
    by (auto simp: layer_ok_def)
  with Cons.IH [OF r] show ?case by (simp only: layers_ok.simps)
qed

lemma probe_keeps_shapes: "keeps_shapes m probe_optimizer"
  unfolding keeps_shapes_def
proof (intro allI impI)
  fix loss :: "session \<Rightarrow> error + real" and vs :: "tf_variable list" and s
  assume ok: "vars_ok m s"
  show "vars_ok m (probe_optimizer loss vs s)"
  proof (cases "\<exists>v B. loss s = Inr v \<and> s (FCBiases 0) = Some (Arr3 B)")
    case False
    then have "probe_optimizer loss vs s = s"
      by (auto simp: probe_optimizer_def split: sum.splits option.splits ndarray.splits)
    with ok show ?thesis by simp
  next
    case True
    then obtain v B where v: "loss s = Inr v" and B: "s (FCBiases 0) = Some (Arr3 B)" by blast
    have p: "probe_optimizer loss vs s = s(FCBiases 0 \<mapsto> Arr3 (map (map (map (\<lambda>b. v))) B))"
      by (simp add: probe_optimizer_def v B)
    from ok obtain sc where sc: "scaler m = Some sc"
      and ids: "var_id (mu sc) = ScalerMu" "var_id (sigma sc) = ScalerSigma"
      and sv: "case scaler_vars sc s of Inl _ \<Rightarrow> False | Inr _ \<Rightarrow> True"
      and lo: "layers_ok (num_nets m) (x_dim sc) (layers m) s"
      by (auto simp: vars_ok_def split: option.splits)
    have "scaler_vars sc (s(FCBiases 0 \<mapsto> Arr3 (map (map (map (\<lambda>b. v))) B)))
            = scaler_vars sc s"
      by (simp add: scaler_vars_def get_arr2_def ids)
    with sc ids sv layers_ok_probe [OF B lo, of "\<lambda>b. v"] show ?thesis
      by (simp add: vars_ok_def p)
  qed
qed

text \<open>The example models and rows.\<close>

lemma example_train_facts:
  "decays built_model = []" "keeps_shapes finalized_model idle_optimizer"
  "vars_ok finalized_model (sess finalized_model)"
  "list_all (\<lambda>r. length r = model_input_dim finalized_model) example_rows"
  "list_all (\<lambda>r. length r = model_output_dim finalized_model) example_targets"
  "length example_rows \<le> length example_targets"
proof -
  show "decays built_model = []" by code_simp
  show "keeps_shapes finalized_model idle_optimizer"
    by (simp add: keeps_shapes_def idle_optimizer_def)
  show "vars_ok finalized_model (sess finalized_model)" by code_simp
  show "list_all (\<lambda>r. length r = model_input_dim finalized_model) example_rows" by code_simp
  show "list_all (\<lambda>r. length r = model_output_dim finalized_model) example_targets" by code_simp
  show "length example_rows \<le> length example_targets" by code_simp
qed

lemma probed_finalize: "finalize built_model probe_optimizer example_env = (None, probed_model)"
proof -
  have "fst (finalize built_model probe_optimizer example_env) = None" by code_simp
  then show ?thesis by (simp add: probed_model_def prod_eq_iff)
qed

lemma probed_train_facts:
  "vars_ok probed_model (sess probed_model)"
  "list_all (\<lambda>r. length r = model_input_dim probed_model) example_rows"
  "list_all (\<lambda>r. length r = model_output_dim probed_model) example_targets"
  "list_all (\<lambda>r. length r = model_input_dim probed_model) three_rows"
  "list_all (\<lambda>r. length r = model_output_dim probed_model) three_targets"
  "length three_rows \<le> length three_targets"
  "num_nets probed_model = 2" "model_input_dim probed_model = 1"
  "model_output_dim probed_model = 1"
  by code_simp+

text \<open>
  What a call that runs its epochs does, on the retained rows \<open>rows\<close> with their targets
  \<open>targs\<close>: epoch by epoch the optimizer steps and the index rows.
\<close>

lemma train_epochs_facts:
  fixes inputs targets :: matrix
  assumes fin: "finalize m0 opt env = (None, m)" and d0: "decays m0 = []"
    and ks: "keeps_shapes m opt"
    and ok: "vars_ok m s"
    and wi: "list_all (\<lambda>r. length r = model_input_dim m) inputs"
    and wt: "list_all (\<lambda>r. length r = model_output_dim m) targets"
    and len: "length inputs \<le> length targets"
    and bs: "0 < batch_size"
    and nh: "num_holdout_of (length inputs) r ml = Inr k"
    and ret: "retained_rows g (length inputs) k \<noteq> []"
    and rows: "rows = map (\<lambda>i. inputs ! i) (retained_rows g (length inputs) k)"
    and targs: "targs = map (\<lambda>i. targets ! i) (retained_rows g (length inputs) k)"
    and n: "n = length rows"
    and nb: "nb = nat \<lceil>real n / real batch_size\<rceil>"
  shows "\<exists>sc s0 idxs0 bar.
           scaler m = Some sc \<and> fit sc s rows = Inr s0
         \<and> np_random_randint g n (num_nets m) n = Inr idxs0
         \<and> train (m\<lparr>sess := s\<rparr>) inputs targets batch_size epochs hide r ml g
             = Inr (m\<lparr>sess := fst (training_state m opt g rows targs batch_size s0 idxs0
                                   epochs)\<rparr>, bar)
         \<and> length bar = epochs
         \<and> (\<forall>j<epochs.
               fst (training_state m opt g rows targs batch_size s0 idxs0 (Suc j))
                 = foldl (optimizer_step m opt rows targs)
                     (fst (training_state m opt g rows targs batch_size s0 idxs0 j))
                     (map (chunk batch_size
                             (snd (training_state m opt g rows targs batch_size s0 idxs0 j)))
                        [0..<nb])
             \<and> (\<forall>i<num_nets m.
                   length (snd (training_state m opt g rows targs batch_size s0 idxs0 j) ! i) = n
                 \<and> mset (snd (training_state m opt g rows targs batch_size s0 idxs0 j) ! i)
                     = mset (idxs0 ! i)
                 \<and> concat (map (\<lambda>b. chunk batch_size
                                        (snd (training_state m opt g rows targs batch_size s0
                                                idxs0 j)) b ! i) [0..<nb])
                     = snd (training_state m opt g rows targs batch_size s0 idxs0 j) ! i
                 \<and> (\<forall>b<nb.
                       length (chunk batch_size
                                 (snd (training_state m opt g rows targs batch_size s0 idxs0 j))
                                 b) = num_nets m
                     \<and> length (chunk batch_size
                                 (snd (training_state m opt g rows targs batch_size s0 idxs0 j))
                                 b ! i) = min batch_size (n - b * batch_size)
                     \<and> 0 < min batch_size (n - b * batch_size))
                 \<and> (\<exists>p. mset p = mset [0..<n] \<and> sorted (map (uniform_draws g j i) p)
                        \<and> snd (training_state m opt g rows targs batch_size s0 idxs0 (Suc j)) ! i
                            = map (\<lambda>q. snd (training_state m opt g rows targs batch_size s0
                                               idxs0 j) ! i ! q) p)))"
proof -
  have draw: "retained_rows g (length inputs) k \<noteq> [] \<or> \<not> empty_range_raises g"
    using ret by simp
  from train_exact [OF fin d0 ks ok wi wt len bs nh draw rows targs refl refl,
      of epochs hide]
  obtain sc s0 idxs0 bar where
    sc: "scaler m = Some sc" and f: "fit sc s rows = Inr s0"
    and ri: "np_random_randint g (length rows) (num_nets m) (length rows) = Inr idxs0"
    and ix: "idxs_ok (num_nets m) (length rows) idxs0"
    and t: "train (m\<lparr>sess := s\<rparr>) inputs targets batch_size epochs hide r ml g
             = Inr (m\<lparr>sess := fst (training_state m opt g rows targs batch_size s0 idxs0
                                   epochs)\<rparr>, bar)"
    and lb: "length bar = epochs" by blast
  let ?st = "training_state m opt g rows targs batch_size s0 idxs0"
  note ix' = ix [folded n]
  have e: "\<forall>j<epochs.
               fst (?st (Suc j))
                 = foldl (optimizer_step m opt rows targs) (fst (?st j))
                     (map (chunk batch_size (snd (?st j))) [0..<nb])
             \<and> (\<forall>i<num_nets m.
                   length (snd (?st j) ! i) = n
                 \<and> mset (snd (?st j) ! i) = mset (idxs0 ! i)
                 \<and> concat (map (\<lambda>b. chunk batch_size (snd (?st j)) b ! i) [0..<nb])
                     = snd (?st j) ! i
                 \<and> (\<forall>b<nb.
                       length (chunk batch_size (snd (?st j)) b) = num_nets m
                     \<and> length (chunk batch_size (snd (?st j)) b ! i)
                         = min batch_size (n - b * batch_size)
                     \<and> 0 < min batch_size (n - b * batch_size))
                 \<and> (\<exists>p. mset p = mset [0..<n] \<and> sorted (map (uniform_draws g j i) p)
                        \<and> snd (?st (Suc j)) ! i = map (\<lambda>q. snd (?st j) ! i ! q) p))"
  proof (intro allI impI conjI)
    fix j
    show "fst (?st (Suc j))
            = foldl (optimizer_step m opt rows targs) (fst (?st j))
                (map (chunk batch_size (snd (?st j))) [0..<nb])"
      by (simp only: training_state_Suc fst_conv epoch_steps_def nb n)
  next
    fix j i assume i: "i < num_nets m"
    note p = training_state_rows [OF ix' bs i]
    show "length (snd (?st j) ! i) = n" by (fact p(1))
    show "mset (snd (?st j) ! i) = mset (idxs0 ! i)" by (fact p(5))
    show "concat (map (\<lambda>b. chunk batch_size (snd (?st j)) b ! i) [0..<nb]) = snd (?st j) ! i"
      unfolding nb by (fact p(2))
    show "\<exists>p. mset p = mset [0..<n] \<and> sorted (map (uniform_draws g j i) p)
            \<and> snd (?st (Suc j)) ! i = map (\<lambda>q. snd (?st j) ! i ! q) p" by (fact p(4))
  next
    fix j i b assume i: "i < num_nets m" and b: "b < nb"
    note p = training_state_rows(3) [OF ix' bs i, rule_format, OF b [unfolded nb]]
    show "length (chunk batch_size (snd (?st j)) b) = num_nets m"
      by (rule p [THEN conjunct1])
    show "length (chunk batch_size (snd (?st j)) b ! i)
                   = min batch_size (n - b * batch_size)"
      by (rule p [THEN conjunct2, THEN conjunct1])
    show "0 < min batch_size (n - b * batch_size)"
      by (rule p [THEN conjunct2, THEN conjunct2])
  qed
  from sc f ri [folded n] t lb e show ?thesis by blast
qed

text \<open>
  What the holdout is to a call that runs its epochs: the scaler is fitted on the
  retained rows, every index of the index rows is the position of a retained row, which
  is not held out, and the progress bar is given the members' losses on the held-out
  rows, the same rows for every member.
\<close>

lemma train_holdout_facts:
  fixes inputs targets :: matrix
  assumes fin: "finalize m0 opt env = (None, m)" and d0: "decays m0 = []"
    and ks: "keeps_shapes m opt"
    and ok: "vars_ok m s"
    and wi: "list_all (\<lambda>r. length r = model_input_dim m) inputs"
    and wt: "list_all (\<lambda>r. length r = model_output_dim m) targets"
    and len: "length inputs \<le> length targets"
    and bs: "0 < batch_size"
    and nh: "num_holdout_of (length inputs) r ml = Inr k"
    and ret: "retained \<noteq> []"
    and retained: "retained = retained_rows g (length inputs) k"
    and held: "held = held_rows g (length inputs) k"
    and rows: "rows = map (\<lambda>i. inputs ! i) retained"
    and targs: "targs = map (\<lambda>i. targets ! i) retained"
    and hrows: "hrows = map (\<lambda>i. inputs ! i) held"
    and htargs: "htargs = map (\<lambda>i. targets ! i) held"
  shows "\<exists>sc s0 idxs0 bar.
           scaler m = Some sc \<and> fit sc s rows = Inr s0
         \<and> np_random_randint g (length rows) (num_nets m) (length rows) = Inr idxs0
         \<and> train (m\<lparr>sess := s\<rparr>) inputs targets batch_size epochs hide r ml g
             = Inr (m\<lparr>sess := fst (training_state m opt g rows targs batch_size s0 idxs0
                                   epochs)\<rparr>, bar)
         \<and> (\<forall>j i. i < num_nets m \<longrightarrow>
               (\<forall>q\<in>set (snd (training_state m opt g rows targs batch_size s0 idxs0 j) ! i).
                  q < length retained \<and> rows ! q = inputs ! (retained ! q)
                \<and> targs ! q = targets ! (retained ! q) \<and> retained ! q \<notin> set held))
         \<and> (\<not> hide \<and> holdout_threshold \<le> r \<and> held \<noteq> [] \<and> 0 < model_output_dim m \<longrightarrow>
              (\<forall>j<epochs. \<exists>cur held_losses.
                  bar ! j = Some (cur, Some held_losses)
                \<and> compile_losses m
                    (fst (training_state m opt g rows targs batch_size s0 idxs0 (Suc j)))
                    (replicate (num_nets m) hrows) (replicate (num_nets m) htargs)
                    = Inr held_losses))"
proof -
  have draw: "retained_rows g (length inputs) k \<noteq> [] \<or> \<not> empty_range_raises g"
    using ret by (simp add: retained)
  from train_exact [OF fin d0 ks ok wi wt len bs nh draw rows [unfolded retained]
      targs [unfolded retained] hrows [unfolded held] htargs [unfolded held], of epochs hide]
  obtain sc s0 idxs0 bar where
    sc: "scaler m = Some sc" and f: "fit sc s rows = Inr s0"
    and ri: "np_random_randint g (length rows) (num_nets m) (length rows) = Inr idxs0"
    and ix: "idxs_ok (num_nets m) (length rows) idxs0"
    and t: "train (m\<lparr>sess := s\<rparr>) inputs targets batch_size epochs hide r ml g
             = Inr (m\<lparr>sess := fst (training_state m opt g rows targs batch_size s0 idxs0
                                   epochs)\<rparr>, bar)"
    and pr: "\<forall>j<epochs. \<exists>cur held.
               compile_losses m
                 (fst (training_state m opt g rows targs batch_size s0 idxs0 (Suc j)))
                 (replicate (num_nets m) hrows) (replicate (num_nets m) htargs) = Inr held
             \<and> bar ! j = (if hide then None
                          else Some (cur, if r < holdout_threshold then None else Some held))"
    by blast
  let ?st = "training_state m opt g rows targs batch_size s0 idxs0"
  have lr: "length rows = length retained" by (simp add: rows)
  have dj: "set held \<inter> set retained = {}"
    unfolding held retained by (rule held_retained_disjoint)
  have q: "\<forall>j i. i < num_nets m \<longrightarrow>
               (\<forall>q\<in>set (snd (?st j) ! i).
                  q < length retained \<and> rows ! q = inputs ! (retained ! q)
                \<and> targs ! q = targets ! (retained ! q) \<and> retained ! q \<notin> set held)"
  proof (intro allI impI ballI)
    fix j i q assume i: "i < num_nets m" and q: "q \<in> set (snd (?st j) ! i)"
    from training_state_idxs(1) [OF ix, of m opt g rows targs batch_size s0 j] i q
    have ql: "q < length retained" by (auto simp: idxs_ok_nth lr)
    then have "retained ! q \<in> set retained" by simp
    with dj have "retained ! q \<notin> set held" by blast
    with ql show "q < length retained \<and> rows ! q = inputs ! (retained ! q)
                \<and> targs ! q = targets ! (retained ! q) \<and> retained ! q \<notin> set held"
      by (simp add: rows targs)
  qed
  have h: "\<not> hide \<and> holdout_threshold \<le> r \<and> held \<noteq> [] \<and> 0 < model_output_dim m \<longrightarrow>
              (\<forall>j<epochs. \<exists>cur held_losses.
                  bar ! j = Some (cur, Some held_losses)
                \<and> compile_losses m (fst (?st (Suc j)))
                    (replicate (num_nets m) hrows) (replicate (num_nets m) htargs)
                    = Inr held_losses)"
  proof (intro impI allI)
    fix j assume a: "\<not> hide \<and> holdout_threshold \<le> r \<and> held \<noteq> [] \<and> 0 < model_output_dim m"
      and j: "j < epochs"
    from pr j obtain cur hl where
      "compile_losses m (fst (?st (Suc j)))
         (replicate (num_nets m) hrows) (replicate (num_nets m) htargs) = Inr hl"
      "bar ! j = (if hide then None
                  else Some (cur, if r < holdout_threshold then None else Some hl))"
      by blast
    with a show "\<exists>cur held_losses.
                  bar ! j = Some (cur, Some held_losses)
                \<and> compile_losses m (fst (?st (Suc j)))
                    (replicate (num_nets m) hrows) (replicate (num_nets m) htargs)
                    = Inr held_losses"
      by (intro exI [of _ cur] exI [of _ hl]) simp
  qed
  from sc f ri t q h show ?thesis by blast
qed

text \<open>
  With no retained row, where the bootstrap draw accepts the empty range, the call
  returns: the scaler is fitted on no row, no optimizer step is taken, and the session
  the call leaves is the one the fit left, in which every variable of a layer is what
  it was.
\<close>

lemma train_returns_without_rows:
  fixes inputs targets :: matrix
  assumes fin: "finalize m0 opt env = (None, m)" and d0: "decays m0 = []"
    and ks: "keeps_shapes m opt"
    and ok: "vars_ok m s"
    and wi: "list_all (\<lambda>r. length r = model_input_dim m) inputs"
    and wt: "list_all (\<lambda>r. length r = model_output_dim m) targets"
    and len: "length inputs \<le> length targets"
    and bs: "0 < batch_size"
    and nh: "num_holdout_of (length inputs) r ml = Inr k"
    and ret: "retained_rows g (length inputs) k = []"
    and rs: "\<not> empty_range_raises g"
  shows "\<exists>sc s0 bar.
           scaler m = Some sc \<and> fit sc s [] = Inr s0
         \<and> train (m\<lparr>sess := s\<rparr>) inputs targets batch_size epochs hide r ml g
             = Inr (m\<lparr>sess := s0\<rparr>, bar)
         \<and> length bar = epochs
         \<and> (\<forall>v. is_layer_var v \<longrightarrow> s0 v = s v)"
proof -
  have draw: "retained_rows g (length inputs) k \<noteq> [] \<or> \<not> empty_range_raises g"
    using rs by simp
  have rows: "([] :: matrix) = map (\<lambda>i. inputs ! i) (retained_rows g (length inputs) k)"
    and targs: "([] :: matrix) = map (\<lambda>i. targets ! i) (retained_rows g (length inputs) k)"
    by (simp_all add: ret)
  from train_exact [OF fin d0 ks ok wi wt len bs nh draw rows targs refl refl, of epochs hide]
  obtain sc s0 idxs0 bar where
    sc: "scaler m = Some sc" and f: "fit sc s [] = Inr s0"
    and t: "train (m\<lparr>sess := s\<rparr>) inputs targets batch_size epochs hide r ml g
             = Inr (m\<lparr>sess := fst (training_state m opt g [] [] batch_size s0 idxs0
                                   epochs)\<rparr>, bar)"
    and lb: "length bar = epochs" by blast
  note t' = t [unfolded training_state_no_rows]
  have "\<forall>v. is_layer_var v \<longrightarrow> s0 v = s v"
    using fit_leaves_layers [OF ok sc f] by blast
  with sc f t' lb show ?thesis by blast
qed

text \<open>
  Before \<^verbatim>\<open>finalize\<close> has been called the model has no scaler and no placeholders, and
  adding layers changes none of them: there \<^verbatim>\<open>predict\<close> and \<^verbatim>\<open>train\<close> raise, on the first
  use of the missing object.
\<close>

lemma init_has_no_graph:
  assumes "NN_init p = Inr m"
  shows "scaler m = None" "sy_pred_in2d m = None" "sy_pred_in3d m = None" "\<not> finalized m"
  using assms by (auto simp: NN_init_def Let_def split: option.splits if_splits)

lemma add_keeps_graph_unbuilt:
  assumes "add m layer = Inr (m', layer')"
  shows "scaler m' = scaler m" "sy_pred_in2d m' = sy_pred_in2d m"
    "sy_pred_in3d m' = sy_pred_in3d m"
  using assms by (auto simp: add_def Let_def split: if_splits)

lemma predict_raises_without_graph:
  assumes "sy_pred_in2d m = None" "sy_pred_in3d m = None"
  shows "\<exists>e. predict m x factored = Inl e"
  using assms
  by (cases x) (simp_all add: predict_def sess_run_pred2d_def sess_run_pred3d_def
      split: option.splits)

lemma train_raises_without_scaler:
  assumes "scaler m = None"
  shows "isl (train m inputs targets batch_size epochs hide r ml g)"
  using assms
  by (simp add: train_def Let_def bind_err_def split: sum.splits)

section \<open>Properties of the structure methods\<close>

text \<open>
  C9. On any model on which \<^verbatim>\<open>add\<close> succeeds (so: not finalized, and the layer is
  valid for the chain), \<^verbatim>\<open>add\<close> followed immediately by \<^verbatim>\<open>pop\<close> succeeds, returns
  the copy that was appended, and leaves the whole model, its layer list and every
  other field, as it was before the \<^verbatim>\<open>add\<close>.
\<close>

theorem add_then_pop_restores:
  assumes "add m layer = Inr (m', layer')"
  shows "pop m' = Inr (copy layer', m)"
proof -
  from assms have nf: "\<not> finalized m" and nl: "\<not> model_loaded m"
    by (auto simp: add_def split: if_splits)
  from assms have m': "m' = m\<lparr>layers := layers m @ [copy layer']\<rparr>"
    by (auto simp: add_def Let_def split: if_splits)
  show ?thesis
    using nf nl by (simp add: m' pop_def)
qed

theorem add_then_pop_restores_witness:
  "\<exists>m' layer'. add example_model layer_3_2 = Inr (m', layer')
      \<and> pop m' = Inr (copy layer', example_model)"
proof -
  have "add example_model layer_3_2 =
          Inr (example_model\<lparr>layers := [copy (set_ensemble_size layer_3_2 2)]\<rparr>,
               set_ensemble_size layer_3_2 2)"
    by (simp add: add_def example_model_def NN_init_def fresh_params_def params_get_def
        layer_3_2_def get_input_dim_def Let_def)
  then show ?thesis
    using add_then_pop_restores by blast
qed

lemma example_finalize: "finalize built_model idle_optimizer example_env = (None, finalized_model)"
proof -
  have "fst (finalize built_model idle_optimizer example_env) = None" by code_simp
  then show ?thesis by (simp add: finalized_model_def prod_eq_iff)
qed

section \<open>Properties of finalize\<close>

text \<open>
  C8. \<^verbatim>\<open>finalize\<close> on a model with an empty layer list fails, and \<^verbatim>\<open>finalize\<close> on a
  finalized model fails; in both cases the model, and with it every handle of the graph
  and the session, is returned exactly as it was. In particular a second call after a
  call that succeeded fails, whatever optimizer and environment it is given.
\<close>

theorem finalize_guarded:
  "(layers m = [] \<longrightarrow> finalize m opt env = (Some RuntimeError, m))
   \<and> (finalized m \<longrightarrow> finalize m opt env = (Some RuntimeError, m))
   \<and> (finalize m opt env = (None, m') \<longrightarrow> finalize m' opt' env' = (Some RuntimeError, m'))"
proof (intro conjI impI)
  assume "layers m = []"
  then show "finalize m opt env = (Some RuntimeError, m)" by (simp add: finalize_def)
next
  assume "finalized m"
  then show "finalize m opt env = (Some RuntimeError, m)" by (simp add: finalize_def)
next
  assume ok: "finalize m opt env = (None, m')"
  then have "finalized m'"
    by (auto simp: finalize_def Let_def split: if_splits prod.splits option.splits)
  then show "finalize m' opt' env' = (Some RuntimeError, m')" by (simp add: finalize_def)
qed

theorem finalize_guarded_witness:
  "finalize example_model idle_optimizer example_env = (Some RuntimeError, example_model)
   \<and> finalize built_model idle_optimizer example_env = (None, finalized_model)
   \<and> finalize finalized_model idle_optimizer example_env = (Some RuntimeError, finalized_model)"
proof -
  have e: "layers example_model = []" by code_simp
  have f: "finalized finalized_model" by code_simp
  show ?thesis
    using finalize_guarded [of example_model idle_optimizer example_env example_model
        idle_optimizer example_env]
      finalize_guarded [of built_model idle_optimizer example_env finalized_model
        idle_optimizer example_env]
      finalize_guarded [of finalized_model idle_optimizer example_env finalized_model
        idle_optimizer example_env] e f example_finalize
    by blast
qed

section \<open>Construction in load mode\<close>

text \<open>
  C3. The claim is that \<^verbatim>\<open>num_networks\<close> is ignored when the model is loaded, as the
  docstring of \<^verbatim>\<open>__init__\<close> says. The code reads it all the same (line 69): two
  constructions in load mode that differ in nothing but \<^verbatim>\<open>num_networks\<close> give models of 3
  and of 5 members.
\<close>

theorem num_networks_used_when_loading:
  "\<exists>m3 m5. NN_init (load_params 3 ''weights.npz'') = Inr m3
     \<and> NN_init (load_params 5 ''weights.npz'') = Inr m5
     \<and> load_model_values m3 \<and> load_model_values m5 \<and> num_nets m3 = 3 \<and> num_nets m5 = 5"
  by (simp add: NN_init_def load_params_def params_get_def)

section \<open>Prediction\<close>

text \<open>
  C1. On a finalized model of at least one member, whatever values of their shapes the
  variables hold, and on every rank-2 batch of input rows: \<^verbatim>\<open>predict\<close> returns on both
  paths; the factored path returns the members' predictions, of shape
  \<open>[num_nets, batch, output_dim]\<close>; the aggregated path returns a mean and a variance of
  shape \<open>[batch, output_dim]\<close>, the mean the arithmetic average of the members'
  predictions and the variance the average squared deviation from that mean, divided by
  the number of members (no Bessel correction), entry by entry.
\<close>

theorem predict_aggregates_members:
  assumes fin: "finalize m0 opt env = (None, m)"
    and ok: "vars_ok m s"
    and x: "list_all (\<lambda>r. length r = model_input_dim m) x"
    and e: "0 < num_nets m"
  shows "\<exists>fac mean var.
      predict (m\<lparr>sess := s\<rparr>) (Arr2 x) True = Inr (Arr3 fac, None)
    \<and> predict (m\<lparr>sess := s\<rparr>) (Arr2 x) False = Inr (Arr2 mean, Some (Arr2 var))
    \<and> has_shape3 (num_nets m) (length x) (model_output_dim m) fac
    \<and> has_shape2 (length x) (model_output_dim m) mean
    \<and> has_shape2 (length x) (model_output_dim m) var
    \<and> (\<forall>j<length x. \<forall>k<model_output_dim m.
          mean ! j ! k = (\<Sum>i<num_nets m. fac ! i ! j ! k) / real (num_nets m)
        \<and> var ! j ! k = (\<Sum>i<num_nets m. (fac ! i ! j ! k - mean ! j ! k) ^ 2)
                          / real (num_nets m))"
proof -
  note h = finalize_None [OF fin]
  from compile_outputs_Arr2 [OF ok h(2) x] obtain fac where
    fac: "compile_outputs m s (Arr2 x) = Inr (Arr3 fac)"
      "has_shape3 (num_nets m) (length x) (model_output_dim m) fac" by blast
  from aggregate_Arr3 [OF fac(2) e] obtain mean var where
    agg: "reduce_mean_axis0 (Arr3 fac) = Arr2 mean"
      "bind_err (broadcast_sub (Arr3 fac) (Arr2 mean)) (\<lambda>d. Inr (reduce_mean_axis0 (square d)))
         = Inr (Arr2 var)"
      "has_shape2 (length x) (model_output_dim m) mean"
      "has_shape2 (length x) (model_output_dim m) var"
      "\<forall>j<length x. \<forall>k<model_output_dim m.
          mean ! j ! k = (\<Sum>i<num_nets m. fac ! i ! j ! k) / real (num_nets m)
        \<and> var ! j ! k = (\<Sum>i<num_nets m. (fac ! i ! j ! k - mean ! j ! k) ^ 2)
                          / real (num_nets m)"
    by blast
  have feed: "feed_ok2 (get_input_dim (hd (layers m))) x"
    using x by (simp add: vars_ok_first_layer [OF ok h(2)] feed_ok2_def)
  have cp: "create_prediction_tensors m s (Arr2 x) True = Inr (Arr3 fac, None)"
    by (simp add: create_prediction_tensors_def fac(1))
  have p1: "predict (m\<lparr>sess := s\<rparr>) (Arr2 x) True = Inr (Arr3 fac, None)"
    by (simp add: predict_def sess_run_pred2d_def h(5) h(7) feed cp)
  have p2: "predict (m\<lparr>sess := s\<rparr>) (Arr2 x) False = Inr (Arr2 mean, Some (Arr2 var))"
    by (simp add: predict_def sess_run_pred2d_def h(5) h(8) h(9) feed cp agg(1) agg(2)
        del: reduce_mean_axis0.simps broadcast_sub.simps square.simps)
  from p1 p2 fac(2) agg(3,4,5) show ?thesis by blast
qed

theorem predict_aggregates_members_witness:
  "predict finalized_model (Arr2 example_batch) True = Inr (Arr3 [[[2], [4]], [[4], [8]]], None)
   \<and> predict finalized_model (Arr2 example_batch) False
       = Inr (Arr2 [[3], [6]], Some (Arr2 [[1], [4]]))
   \<and> (\<exists>fac mean var.
      predict finalized_model (Arr2 example_batch) True = Inr (Arr3 fac, None)
    \<and> predict finalized_model (Arr2 example_batch) False = Inr (Arr2 mean, Some (Arr2 var))
    \<and> has_shape3 2 2 1 fac \<and> has_shape2 2 1 mean \<and> has_shape2 2 1 var
    \<and> (\<forall>j<2. \<forall>k<1.
          mean ! j ! k = (\<Sum>i<2. fac ! i ! j ! k) / 2
        \<and> var ! j ! k = (\<Sum>i<2. (fac ! i ! j ! k - mean ! j ! k) ^ 2) / 2))"
proof -
  have ok: "vars_ok finalized_model (sess finalized_model)" by code_simp
  have x: "list_all (\<lambda>r. length r = model_input_dim finalized_model) example_batch"
    by code_simp
  have e: "num_nets finalized_model = 2" by code_simp
  have d: "model_output_dim finalized_model = 1" by code_simp
  have l: "length example_batch = 2" by code_simp
  have s: "finalized_model\<lparr>sess := sess finalized_model\<rparr> = finalized_model" by simp
  have t: "predict finalized_model (Arr2 example_batch) True
             = Inr (Arr3 [[[2], [4]], [[4], [8]]], None)" by code_simp
  have f: "predict finalized_model (Arr2 example_batch) False
             = Inr (Arr2 [[3], [6]], Some (Arr2 [[1], [4]]))" by code_simp
  from predict_aggregates_members [OF example_finalize ok x, unfolded s e d l]
  show ?thesis using t f by simp
qed

section \<open>The training loss\<close>

text \<open>A model as \<^verbatim>\<open>__init__\<close>, \<^verbatim>\<open>add\<close> and \<^verbatim>\<open>pop\<close> make it has collected no decay.\<close>

lemma decays_before_finalize:
  "NN_init p = Inr m \<Longrightarrow> decays m = []"
  "add m layer = Inr (m', layer') \<Longrightarrow> decays m' = decays m"
  "pop m = Inr (layer, m') \<Longrightarrow> decays m' = decays m"
  by (auto simp: NN_init_def add_def pop_def Let_def split: option.splits if_splits)

text \<open>
  C4, as the code has it. On a model that \<^verbatim>\<open>finalize\<close> has finalized and that had
  collected no decay before, on every session whose variables have their shapes and on
  every batch that fits the placeholders, with at least one row and at least one output
  (the mean over an empty axis is not a number): a run of the training operation is the
  step of the optimizer on the training loss at the fed batch, and the training loss is
  the sum over the members of half the mean-squared error of the member (the squared
  differences of prediction and target, halved, averaged over the output dimension and
  over the batch dimension), plus the sum over the layers of their decay penalties, the
  weight decay of the layer times the sum of its squared weights.
\<close>

theorem training_loss_is_half_mse_plus_decay:
  assumes fin: "finalize m0 opt env = (None, m)" and d0: "decays m0 = []"
    and ok: "vars_ok m s"
    and x: "has_shape3 (num_nets m) b (model_input_dim m) x"
    and y: "has_shape3 (num_nets m) b (model_output_dim m) y"
    and b: "0 < b" and d: "0 < model_output_dim m"
  shows "\<exists>p. compile_outputs m s (Arr3 x) = Inr (Arr3 p)
     \<and> has_shape3 (num_nets m) b (model_output_dim m) p
     \<and> sess_run_train m (train_op m) s x y
         = Inr (opt (\<lambda>s'. train_loss m (total_decay m) s' x y) (optvars m) s)
     \<and> train_loss m (total_decay m) s x y
         = Inr ((\<Sum>i<num_nets m.
                   (\<Sum>j<b. \<Sum>k<model_output_dim m. (p ! i ! j ! k - y ! i ! j ! k) ^ 2 / 2)
                     / (real b * real (model_output_dim m)))
                + (\<Sum>l\<leftarrow>layers m. decay_penalty l s))"
proof -
  note h = finalize_None [OF fin]
  from compile_outputs_Arr3 [OF ok h(2) x] obtain p where
    p: "compile_outputs m s (Arr3 x) = Inr (Arr3 p)"
       "has_shape3 (num_nets m) b (model_output_dim m) p" by blast
  note v = total_decay_value [OF fin d0 ok]
  have l: "train_loss m (total_decay m) s x y
         = Inr ((\<Sum>i<num_nets m.
                   (\<Sum>j<b. \<Sum>k<model_output_dim m. (p ! i ! j ! k - y ! i ! j ! k) ^ 2 / 2)
                     / (real b * real (model_output_dim m)))
                + (\<Sum>l\<leftarrow>layers m. decay_penalty l s))"
    using p(1) p(2) y v by (rule train_loss_formula)
  have "sess_run_train (m\<lparr>sess := sess m\<rparr>) (train_op m) s x y
         = Inr (opt (\<lambda>s'. train_loss m (total_decay m) s' x y) (optvars m) s)"
    by (rule train_step_exact [OF fin d0 ok x y])
  then have r: "sess_run_train m (train_op m) s x y
         = Inr (opt (\<lambda>s'. train_loss m (total_decay m) s' x y) (optvars m) s)"
    by simp
  from p l r show ?thesis by blast
qed

theorem training_loss_is_half_mse_plus_decay_witness:
  "\<exists>p. compile_outputs probed_model (sess probed_model) (Arr3 example_inputs3) = Inr (Arr3 p)
     \<and> has_shape3 2 1 1 p
     \<and> sess_run_train probed_model (train_op probed_model) (sess probed_model)
           example_inputs3 example_targets3
         = Inr (probe_optimizer
                  (\<lambda>s'. train_loss probed_model (total_decay probed_model) s'
                           example_inputs3 example_targets3)
                  (optvars probed_model) (sess probed_model))
     \<and> train_loss probed_model (total_decay probed_model) (sess probed_model)
           example_inputs3 example_targets3
         = Inr ((\<Sum>i<2. (\<Sum>j<1. \<Sum>k<1. (p ! i ! j ! k - example_targets3 ! i ! j ! k) ^ 2 / 2)
                           / (real 1 * real 1))
                + (\<Sum>l\<leftarrow>layers probed_model. decay_penalty l (sess probed_model)))"
proof -
  have x: "has_shape3 (num_nets probed_model) 1 (model_input_dim probed_model) example_inputs3"
    by code_simp
  have y: "has_shape3 (num_nets probed_model) 1 (model_output_dim probed_model)
             example_targets3" by code_simp
  have b: "0 < (1::nat)" by simp
  have d: "0 < model_output_dim probed_model" by (simp add: probed_train_facts(9))
  from training_loss_is_half_mse_plus_decay
         [OF probed_finalize example_train_facts(1) probed_train_facts(1) x y b d]
  show ?thesis unfolding probed_train_facts(7,9) .
qed

text \<open>
  The claim as worded has no factor one half. On the example model, two members whose
  predictions at the fed batch are 2 and 4 against targets 0, with one layer whose decay
  penalty is 1/2, the worded loss is 4 + 16 + 1/2. The loss the training operation hands
  to the optimizer is 2 + 8 + 1/2: an optimizer that moves the biases to the value of
  the loss it is handed moves them to 21/2.
\<close>

theorem training_loss_is_not_the_mse:
  "finalize built_model probe_optimizer example_env = (None, probed_model)
   \<and> compile_outputs probed_model (sess probed_model) (Arr3 example_inputs3)
       = Inr (Arr3 [[[2]], [[4]]])
   \<and> map (\<lambda>l. decay_penalty l (sess probed_model)) (layers probed_model) = [1 / 2]
   \<and> spec_training_loss [[[2]], [[4]]] example_targets3 [1 / 2] = 41 / 2
   \<and> train_loss probed_model (total_decay probed_model) (sess probed_model)
         example_inputs3 example_targets3 = Inr (21 / 2)
   \<and> sess probed_model (FCBiases 0) = Some (Arr3 [[[0]], [[0]]])
   \<and> (\<exists>s'. sess_run_train probed_model (train_op probed_model) (sess probed_model)
               example_inputs3 example_targets3 = Inr s'
          \<and> s' (FCBiases 0) = Some (Arr3 [[[21 / 2]], [[21 / 2]]]))"
proof -
  let ?run = "sess_run_train probed_model (train_op probed_model) (sess probed_model)
                example_inputs3 example_targets3"
  have p: "compile_outputs probed_model (sess probed_model) (Arr3 example_inputs3)
             = Inr (Arr3 [[[2]], [[4]]])" by code_simp
  have dp: "map (\<lambda>l. decay_penalty l (sess probed_model)) (layers probed_model) = [1 / 2]"
    by code_simp
  have c: "spec_training_loss [[[2]], [[4]]] example_targets3 [1 / 2] = 41 / 2" by code_simp
  have t: "train_loss probed_model (total_decay probed_model) (sess probed_model)
         example_inputs3 example_targets3 = Inr (21 / 2)" by code_simp
  have b0: "sess probed_model (FCBiases 0) = Some (Arr3 [[[0]], [[0]]])" by code_simp
  have r1: "\<not> isl ?run" by code_simp
  have r2: "projr ?run (FCBiases 0) = Some (Arr3 [[[21 / 2]], [[21 / 2]]])" by code_simp
  from r1 have "?run = Inr (projr ?run)" by (cases ?run) simp_all
  with r2 have r: "\<exists>s'. ?run = Inr s' \<and> s' (FCBiases 0) = Some (Arr3 [[[21 / 2]], [[21 / 2]]])"
    by blast
  from probed_finalize p dp c t b0 r show ?thesis by blast
qed

section \<open>Training\<close>

text \<open>
  C7. A call of \<^verbatim>\<open>train\<close> on a finalized model whose variables have their shapes, with an
  optimizer that leaves the shapes alone, rows of the right widths, a target for every
  input row, a positive batch size and at least one retained row, returns, and it runs
  every epoch in full: the session it leaves is the session of the state of training
  after \<open>epochs\<close> epochs, started from the session in which the scaler was fitted on the
  retained rows and from the bootstrap draw, and the progress bar has been given one
  entry per epoch. In every epoch the session is taken through one optimizer step per
  chunk, for the \<open>ceil(n / batch_size)\<close> chunks \<^verbatim>\<open>idxs[:, b * batch_size : (b + 1) * batch_size]\<close>
  in order; a chunk has one row per member, so all members advance in the same step;
  the chunks of a member are consecutive pieces of its index row, of \<open>batch_size\<close>
  indices but possibly the last, none empty, and together they are the row. After the
  steps of an epoch the index row of every member is reordered by a permutation of its
  positions, the one that sorts the uniform draws of the epoch for the member; so in
  every epoch the row has the indices of the bootstrap draw with their multiplicities.
\<close>

theorem train_runs_every_epoch_in_full:
  fixes inputs targets :: matrix
  assumes fin: "finalize m0 opt env = (None, m)" and d0: "decays m0 = []"
    and ks: "keeps_shapes m opt"
    and ok: "vars_ok m s"
    and wi: "list_all (\<lambda>r. length r = model_input_dim m) inputs"
    and wt: "list_all (\<lambda>r. length r = model_output_dim m) targets"
    and len: "length inputs \<le> length targets"
    and bs: "0 < batch_size"
    and nh: "num_holdout_of (length inputs) r ml = Inr k"
    and ret: "retained_rows g (length inputs) k \<noteq> []"
  shows "let rows = map (\<lambda>i. inputs ! i) (retained_rows g (length inputs) k);
             targs = map (\<lambda>i. targets ! i) (retained_rows g (length inputs) k);
             n = length rows;
             nb = nat \<lceil>real n / real batch_size\<rceil>
         in \<exists>sc s0 idxs0 bar.
              scaler m = Some sc \<and> fit sc s rows = Inr s0
            \<and> np_random_randint g n (num_nets m) n = Inr idxs0
            \<and> train (m\<lparr>sess := s\<rparr>) inputs targets batch_size epochs hide r ml g
                = Inr (m\<lparr>sess := fst (training_state m opt g rows targs batch_size s0 idxs0
                                      epochs)\<rparr>, bar)
            \<and> length bar = epochs
            \<and> (\<forall>j<epochs.
                  fst (training_state m opt g rows targs batch_size s0 idxs0 (Suc j))
                    = foldl (optimizer_step m opt rows targs)
                        (fst (training_state m opt g rows targs batch_size s0 idxs0 j))
                        (map (chunk batch_size
                                (snd (training_state m opt g rows targs batch_size s0 idxs0 j)))
                           [0..<nb])
                \<and> (\<forall>i<num_nets m.
                      length (snd (training_state m opt g rows targs batch_size s0 idxs0 j) ! i)
                        = n
                    \<and> mset (snd (training_state m opt g rows targs batch_size s0 idxs0 j) ! i)
                        = mset (idxs0 ! i)
                    \<and> concat (map (\<lambda>b. chunk batch_size
                                           (snd (training_state m opt g rows targs batch_size s0
                                                   idxs0 j)) b ! i) [0..<nb])
                        = snd (training_state m opt g rows targs batch_size s0 idxs0 j) ! i
                    \<and> (\<forall>b<nb.
                          length (chunk batch_size
                                    (snd (training_state m opt g rows targs batch_size s0 idxs0 j))
                                    b) = num_nets m
                        \<and> length (chunk batch_size
                                    (snd (training_state m opt g rows targs batch_size s0 idxs0 j))
                                    b ! i) = min batch_size (n - b * batch_size)
                        \<and> 0 < min batch_size (n - b * batch_size))
                    \<and> (\<exists>p. mset p = mset [0..<n] \<and> sorted (map (uniform_draws g j i) p)
                           \<and> snd (training_state m opt g rows targs batch_size s0 idxs0 (Suc j))
                                 ! i
                               = map (\<lambda>q. snd (training_state m opt g rows targs batch_size s0
                                                  idxs0 j) ! i ! q) p)))"
  unfolding Let_def
  by (rule train_epochs_facts [OF fin d0 ks ok wi wt len bs nh ret refl refl refl refl])

theorem train_runs_every_epoch_in_full_witness:
  "num_holdout_of (length example_rows) (1 / 4) 5000 = Inr 1
   \<and> retained_rows example_rng (length example_rows) 1 = [2, 1, 0]
   \<and> (let rows = map (\<lambda>i. example_rows ! i) (retained_rows example_rng (length example_rows) 1);
          targs = map (\<lambda>i. example_targets ! i)
                    (retained_rows example_rng (length example_rows) 1);
          n = length rows;
          nb = nat \<lceil>real n / real 2\<rceil>
      in \<exists>sc s0 idxs0 bar.
           scaler probed_model = Some sc \<and> fit sc (sess probed_model) rows = Inr s0
         \<and> np_random_randint example_rng n (num_nets probed_model) n = Inr idxs0
         \<and> train (probed_model\<lparr>sess := sess probed_model\<rparr>) example_rows example_targets 2 5
               False (1 / 4) 5000 example_rng
             = Inr (probed_model\<lparr>sess := fst (training_state probed_model probe_optimizer
                                              example_rng rows targs 2 s0 idxs0 5)\<rparr>, bar)
         \<and> length bar = 5
         \<and> (\<forall>j<5.
               fst (training_state probed_model probe_optimizer example_rng rows targs 2 s0
                      idxs0 (Suc j))
                 = foldl (optimizer_step probed_model probe_optimizer rows targs)
                     (fst (training_state probed_model probe_optimizer example_rng rows targs 2
                             s0 idxs0 j))
                     (map (chunk 2
                             (snd (training_state probed_model probe_optimizer example_rng rows
                                     targs 2 s0 idxs0 j)))
                        [0..<nb])
             \<and> (\<forall>i<num_nets probed_model.
                   length (snd (training_state probed_model probe_optimizer example_rng rows
                                  targs 2 s0 idxs0 j) ! i) = n
                 \<and> mset (snd (training_state probed_model probe_optimizer example_rng rows
                                targs 2 s0 idxs0 j) ! i)
                     = mset (idxs0 ! i)
                 \<and> concat (map (\<lambda>b. chunk 2
                                        (snd (training_state probed_model probe_optimizer
                                                example_rng rows targs 2 s0 idxs0 j)) b ! i)
                             [0..<nb])
                     = snd (training_state probed_model probe_optimizer example_rng rows targs 2
                              s0 idxs0 j) ! i
                 \<and> (\<forall>b<nb.
                       length (chunk 2
                                 (snd (training_state probed_model probe_optimizer example_rng
                                         rows targs 2 s0 idxs0 j))
                                 b) = num_nets probed_model
                     \<and> length (chunk 2
                                 (snd (training_state probed_model probe_optimizer example_rng
                                         rows targs 2 s0 idxs0 j))
                                 b ! i) = min 2 (n - b * 2)
                     \<and> 0 < min 2 (n - b * 2))
                 \<and> (\<exists>p. mset p = mset [0..<n] \<and> sorted (map (uniform_draws example_rng j i) p)
                        \<and> snd (training_state probed_model probe_optimizer example_rng rows
                                 targs 2 s0 idxs0 (Suc j)) ! i
                            = map (\<lambda>q. snd (training_state probed_model probe_optimizer
                                               example_rng rows targs 2 s0 idxs0 j) ! i ! q)
                                p))))"
proof -
  have bs: "0 < (2::nat)" by simp
  have nh: "num_holdout_of (length example_rows) (1 / 4) 5000 = Inr 1" by code_simp
  have rr: "retained_rows example_rng (length example_rows) 1 = [2, 1, 0]" by code_simp
  have ret: "retained_rows example_rng (length example_rows) 1 \<noteq> []" by (simp add: rr)
  note T = train_runs_every_epoch_in_full
    [OF probed_finalize example_train_facts(1) probe_keeps_shapes probed_train_facts(1,2,3)
      example_train_facts(6) bs nh ret, of 5 False]
  from nh rr T show ?thesis by (intro conjI)
qed

text \<open>
  C10, as the code has it. No row is retained when \<^verbatim>\<open>num_holdout\<close> reaches the number of
  rows (or there is no row at all), as for a holdout ratio of 1 with at most
  \<^verbatim>\<open>max_logging\<close> rows. Then the rows are indexed, the scaler is fitted on no row, and the
  outcome of the call is that of the bootstrap draw \<^verbatim>\<open>np.random.randint(0, size=[num_nets, 0])\<close>.
  Where NumPy refuses the empty range the call raises, a \<^verbatim>\<open>ValueError\<close> at the draw on a
  model with a scaler and a target for every row. Where NumPy returns the empty array
  the call, on a finalized model as in C7, returns: every epoch has no chunk, no
  optimizer step is taken, the session the call leaves is the one the fit on no row
  left, with every variable of a layer as it was, and the progress bar has been given
  one entry per epoch.
\<close>

theorem train_with_no_retained_row:
  fixes inputs targets :: matrix
  assumes nh: "num_holdout_of (length inputs) r ml = Inr k"
  shows "(retained_rows g (length inputs) k = []
            \<longleftrightarrow> length inputs = 0 \<or> int (length inputs) \<le> k)
     \<and> (retained_rows g (length inputs) k = [] \<and> empty_range_raises g
          \<longrightarrow> (\<exists>e. train M inputs targets batch_size epochs hide r ml g = Inl e))
     \<and> (retained_rows g (length inputs) k = [] \<and> empty_range_raises g
          \<and> scaler M = Some sc' \<and> length inputs \<le> length targets
          \<longrightarrow> train M inputs targets batch_size epochs hide r ml g = Inl ValueError)
     \<and> (retained_rows g (length inputs) k = [] \<and> \<not> empty_range_raises g
          \<and> finalize m0 opt env = (None, m) \<and> decays m0 = [] \<and> keeps_shapes m opt
          \<and> vars_ok m s
          \<and> list_all (\<lambda>r. length r = model_input_dim m) inputs
          \<and> list_all (\<lambda>r. length r = model_output_dim m) targets
          \<and> length inputs \<le> length targets \<and> 0 < batch_size
          \<longrightarrow> (\<exists>sc s0 bar.
                 scaler m = Some sc \<and> fit sc s [] = Inr s0
               \<and> train (m\<lparr>sess := s\<rparr>) inputs targets batch_size epochs hide r ml g
                   = Inr (m\<lparr>sess := s0\<rparr>, bar)
               \<and> length bar = epochs
               \<and> (\<forall>v. is_layer_var v \<longrightarrow> s0 v = s v)))"
proof (intro conjI impI)
  show "retained_rows g (length inputs) k = []
            \<longleftrightarrow> length inputs = 0 \<or> int (length inputs) \<le> k"
    using retained_length [of g "length inputs" k] slice_index_full [of "length inputs" k]
    by auto
next
  assume "retained_rows g (length inputs) k = [] \<and> empty_range_raises g"
  then show "\<exists>e. train M inputs targets batch_size epochs hide r ml g = Inl e"
    using train_raises_on_empty_range [OF nh] by blast
next
  assume "retained_rows g (length inputs) k = [] \<and> empty_range_raises g
          \<and> scaler M = Some sc' \<and> length inputs \<le> length targets"
  then show "train M inputs targets batch_size epochs hide r ml g = Inl ValueError"
    using train_raises_at_the_draw [OF nh] by blast
next
  assume a: "retained_rows g (length inputs) k = [] \<and> \<not> empty_range_raises g
          \<and> finalize m0 opt env = (None, m) \<and> decays m0 = [] \<and> keeps_shapes m opt
          \<and> vars_ok m s
          \<and> list_all (\<lambda>r. length r = model_input_dim m) inputs
          \<and> list_all (\<lambda>r. length r = model_output_dim m) targets
          \<and> length inputs \<le> length targets \<and> 0 < batch_size"
  then have ret: "retained_rows g (length inputs) k = []" and rs: "\<not> empty_range_raises g"
    and fin: "finalize m0 opt env = (None, m)" and d0: "decays m0 = []"
    and ks: "keeps_shapes m opt" and ok: "vars_ok m s"
    and wi: "list_all (\<lambda>r. length r = model_input_dim m) inputs"
    and wt: "list_all (\<lambda>r. length r = model_output_dim m) targets"
    and len: "length inputs \<le> length targets" and bs: "0 < batch_size"
    by simp_all
  show "\<exists>sc s0 bar.
                 scaler m = Some sc \<and> fit sc s [] = Inr s0
               \<and> train (m\<lparr>sess := s\<rparr>) inputs targets batch_size epochs hide r ml g
                   = Inr (m\<lparr>sess := s0\<rparr>, bar)
               \<and> length bar = epochs
               \<and> (\<forall>v. is_layer_var v \<longrightarrow> s0 v = s v)"
    by (rule train_returns_without_rows [OF fin d0 ks ok wi wt len bs nh ret rs])
qed

theorem train_with_no_retained_row_witness:
  "num_holdout_of (length example_rows) 1 5000 = Inr 4
   \<and> retained_rows example_rng (length example_rows) 4 = []
   \<and> train probed_model example_rows example_targets 2 5 False 1 5000
       (example_rng\<lparr>empty_range_raises := True\<rparr>) = Inl ValueError
   \<and> (\<exists>sc s0 bar.
         scaler probed_model = Some sc \<and> fit sc (sess probed_model) [] = Inr s0
       \<and> train (probed_model\<lparr>sess := sess probed_model\<rparr>) example_rows example_targets 2 5
             False 1 5000 example_rng
           = Inr (probed_model\<lparr>sess := s0\<rparr>, bar)
       \<and> length bar = 5
       \<and> (\<forall>v. is_layer_var v \<longrightarrow> s0 v = sess probed_model v))"
proof -
  have bs: "0 < (2::nat)" by simp
  have nh: "num_holdout_of (length example_rows) 1 5000 = Inr 4" by code_simp
  have r1: "retained_rows example_rng (length example_rows) 4 = []" by code_simp
  have r2: "retained_rows (example_rng\<lparr>empty_range_raises := True\<rparr>) (length example_rows) 4
              = []" by code_simp
  have e1: "\<not> empty_range_raises example_rng" by code_simp
  have e2: "empty_range_raises (example_rng\<lparr>empty_range_raises := True\<rparr>)" by simp
  obtain sc where sc: "scaler probed_model = Some sc"
    using finalize_None(3) [OF probed_finalize] by blast
  note A = train_with_no_retained_row [OF nh, where sc' = sc, THEN conjunct2, THEN conjunct2,
      THEN conjunct1, THEN mp]
  have a: "train probed_model example_rows example_targets 2 5 False 1 5000
       (example_rng\<lparr>empty_range_raises := True\<rparr>) = Inl ValueError"
    by (rule A) (intro conjI r2 e2 sc example_train_facts(6))
  note B = train_with_no_retained_row [OF nh, where ?m0.0 = built_model
      and opt = probe_optimizer and env = example_env, THEN conjunct2, THEN conjunct2,
      THEN conjunct2, THEN mp]
  have b: "\<exists>sc s0 bar.
         scaler probed_model = Some sc \<and> fit sc (sess probed_model) [] = Inr s0
       \<and> train (probed_model\<lparr>sess := sess probed_model\<rparr>) example_rows example_targets 2 5
             False 1 5000 example_rng
           = Inr (probed_model\<lparr>sess := s0\<rparr>, bar)
       \<and> length bar = 5
       \<and> (\<forall>v. is_layer_var v \<longrightarrow> s0 v = sess probed_model v)"
    by (rule B)
      (intro conjI r1 e1 probed_finalize example_train_facts(1) probe_keeps_shapes
        probed_train_facts(1,2,3) example_train_facts(6) bs)
  from nh r1 a b show ?thesis by (intro conjI)
qed

text \<open>
  The claim as worded has every such call fail. With a NumPy that returns the empty
  array for a draw of no entry, the call with a holdout ratio of 1 on the four example
  rows retains no row and returns.
\<close>

theorem train_returns_with_no_retained_row:
  "num_holdout_of (length example_rows) 1 5000 = Inr 4
   \<and> retained_rows example_rng (length example_rows) 4 = []
   \<and> np_random_randint example_rng 0 (num_nets probed_model) 0 = Inr [[], []]
   \<and> (\<exists>s0 bar. train probed_model example_rows example_targets 2 5 False 1 5000 example_rng
                  = Inr (probed_model\<lparr>sess := s0\<rparr>, bar)
              \<and> length bar = 5)"
proof -
  have bs: "0 < (2::nat)" by simp
  have nh: "num_holdout_of (length example_rows) 1 5000 = Inr 4" by code_simp
  have r1: "retained_rows example_rng (length example_rows) 4 = []" by code_simp
  have e1: "\<not> empty_range_raises example_rng" by code_simp
  have d: "np_random_randint example_rng 0 (num_nets probed_model) 0 = Inr [[], []]"
    by code_simp
  have s: "probed_model\<lparr>sess := sess probed_model\<rparr> = probed_model" by simp
  from train_returns_without_rows
         [OF probed_finalize example_train_facts(1) probe_keeps_shapes probed_train_facts(1,2,3)
           example_train_facts(6) bs nh r1 e1, of 5 False]
  have "\<exists>s0 bar. train probed_model example_rows example_targets 2 5 False 1 5000 example_rng
                  = Inr (probed_model\<lparr>sess := s0\<rparr>, bar)
              \<and> length bar = 5"
    unfolding s by blast
  with nh r1 d show ?thesis by (intro conjI)
qed

text \<open>
  C6, as the code has it. \<^verbatim>\<open>num_holdout\<close> is \<^verbatim>\<open>min(int(N * holdout_ratio), max_logging)\<close>, the
  product rounded to a double and truncated towards zero, and the held-out rows are the
  slice \<^verbatim>\<open>permutation[:num_holdout]\<close> of a permutation of the \<open>N\<close> row numbers, the retained
  rows the rest of it: \<open>min(num_holdout, N)\<close> rows are held out when \<^verbatim>\<open>num_holdout\<close> is not
  negative and \<open>max(N + num_holdout, 0)\<close> when it is. \<^verbatim>\<open>num_holdout\<close> is
  \<open>min(floor(r * N), max_logging)\<close> when the ratio is not negative and the conversion
  of \<open>N\<close> and the product are exact in double precision. Held-out and retained rows are
  disjoint. When the call runs its epochs, as in C7: the scaler is fitted on the
  retained rows; the optimizer steps are taken on batches of the retained rows, every
  index of every index row is the position of a retained row, and that row is not held
  out; and with progress shown, a holdout ratio not below \<^verbatim>\<open>1e-12\<close>, a held-out row and an
  output, the progress bar is given after every epoch the members' losses on the
  held-out rows, the same rows for every member.
\<close>

theorem holdout_rows_are_set_aside:
  fixes inputs targets :: matrix
  assumes nh: "num_holdout_of (length inputs) r ml = Inr k"
  shows "let N = length inputs;
             held = held_rows g N k;
             retained = retained_rows g N k;
             rows = map (\<lambda>i. inputs ! i) retained;
             targs = map (\<lambda>i. targets ! i) retained;
             hrows = map (\<lambda>i. inputs ! i) held;
             htargs = map (\<lambda>i. targets ! i) held
         in (\<exists>x p. round_to_double (real N) = Some x \<and> round_to_double (x * r) = Some p
                \<and> k = min (if 0 \<le> p then \<lfloor>p\<rfloor> else \<lceil>p\<rceil>) ml)
          \<and> length held = (if k < 0 then nat (max 0 (int N + k)) else min N (nat k))
          \<and> (round_to_double (real N) = Some (real N)
               \<and> round_to_double (real N * r) = Some (real N * r) \<and> 0 \<le> r
               \<longrightarrow> k = min \<lfloor>real N * r\<rfloor> ml)
          \<and> held @ retained = np_random_permutation g N
          \<and> mset (np_random_permutation g N) = mset [0..<N]
          \<and> set held \<inter> set retained = {}
          \<and> (finalize m0 opt env = (None, m) \<and> decays m0 = [] \<and> keeps_shapes m opt
               \<and> vars_ok m s
               \<and> list_all (\<lambda>r. length r = model_input_dim m) inputs
               \<and> list_all (\<lambda>r. length r = model_output_dim m) targets
               \<and> length inputs \<le> length targets \<and> 0 < batch_size \<and> retained \<noteq> []
               \<longrightarrow> (\<exists>sc s0 idxs0 bar.
                      scaler m = Some sc \<and> fit sc s rows = Inr s0
                    \<and> np_random_randint g (length rows) (num_nets m) (length rows) = Inr idxs0
                    \<and> train (m\<lparr>sess := s\<rparr>) inputs targets batch_size epochs hide r ml g
                        = Inr (m\<lparr>sess := fst (training_state m opt g rows targs batch_size s0
                                              idxs0 epochs)\<rparr>, bar)
                    \<and> (\<forall>j i. i < num_nets m \<longrightarrow>
                          (\<forall>q\<in>set (snd (training_state m opt g rows targs batch_size s0 idxs0 j)
                                     ! i).
                             q < length retained \<and> rows ! q = inputs ! (retained ! q)
                           \<and> targs ! q = targets ! (retained ! q)
                           \<and> retained ! q \<notin> set held))
                    \<and> (\<not> hide \<and> holdout_threshold \<le> r \<and> held \<noteq> []
                         \<and> 0 < model_output_dim m \<longrightarrow>
                         (\<forall>j<epochs. \<exists>cur held_losses.
                             bar ! j = Some (cur, Some held_losses)
                           \<and> compile_losses m
                               (fst (training_state m opt g rows targs batch_size s0 idxs0
                                       (Suc j)))
                               (replicate (num_nets m) hrows) (replicate (num_nets m) htargs)
                               = Inr held_losses))))"
  unfolding Let_def
proof (intro conjI impI)
  show "\<exists>x p. round_to_double (real (length inputs)) = Some x
          \<and> round_to_double (x * r) = Some p
          \<and> k = min (if 0 \<le> p then \<lfloor>p\<rfloor> else \<lceil>p\<rceil>) ml"
    using nh by (auto simp: num_holdout_of_def py_int_def split: option.splits)
next
  show "length (held_rows g (length inputs) k)
          = (if k < 0 then nat (max 0 (int (length inputs) + k))
             else min (length inputs) (nat k))"
    by (simp add: held_length slice_index_def)
next
  assume "round_to_double (real (length inputs)) = Some (real (length inputs))
          \<and> round_to_double (real (length inputs) * r) = Some (real (length inputs) * r)
          \<and> 0 \<le> r"
  then show "k = min \<lfloor>real (length inputs) * r\<rfloor> ml"
    using num_holdout_exact [OF nh] by blast
next
  show "held_rows g (length inputs) k @ retained_rows g (length inputs) k
          = np_random_permutation g (length inputs)"
    by (rule held_retained_append)
next
  show "mset (np_random_permutation g (length inputs)) = mset [0..<length inputs]"
    by (rule permutation_mset)
next
  show "set (held_rows g (length inputs) k) \<inter> set (retained_rows g (length inputs) k) = {}"
    by (rule held_retained_disjoint)
next
  assume a: "finalize m0 opt env = (None, m) \<and> decays m0 = [] \<and> keeps_shapes m opt
               \<and> vars_ok m s
               \<and> list_all (\<lambda>r. length r = model_input_dim m) inputs
               \<and> list_all (\<lambda>r. length r = model_output_dim m) targets
               \<and> length inputs \<le> length targets \<and> 0 < batch_size
               \<and> retained_rows g (length inputs) k \<noteq> []"
  then have fin: "finalize m0 opt env = (None, m)" and d0: "decays m0 = []"
    and ks: "keeps_shapes m opt" and ok: "vars_ok m s"
    and wi: "list_all (\<lambda>r. length r = model_input_dim m) inputs"
    and wt: "list_all (\<lambda>r. length r = model_output_dim m) targets"
    and len: "length inputs \<le> length targets" and bs: "0 < batch_size"
    and ret: "retained_rows g (length inputs) k \<noteq> []"
    by simp_all
  show "\<exists>sc s0 idxs0 bar.
          scaler m = Some sc
        \<and> fit sc s (map (\<lambda>i. inputs ! i) (retained_rows g (length inputs) k)) = Inr s0
        \<and> np_random_randint g
              (length (map (\<lambda>i. inputs ! i) (retained_rows g (length inputs) k))) (num_nets m)
              (length (map (\<lambda>i. inputs ! i) (retained_rows g (length inputs) k))) = Inr idxs0
        \<and> train (m\<lparr>sess := s\<rparr>) inputs targets batch_size epochs hide r ml g
            = Inr (m\<lparr>sess := fst (training_state m opt g
                                    (map (\<lambda>i. inputs ! i) (retained_rows g (length inputs) k))
                                    (map (\<lambda>i. targets ! i) (retained_rows g (length inputs) k))
                                    batch_size s0 idxs0 epochs)\<rparr>, bar)
        \<and> (\<forall>j i. i < num_nets m \<longrightarrow>
              (\<forall>q\<in>set (snd (training_state m opt g
                               (map (\<lambda>i. inputs ! i) (retained_rows g (length inputs) k))
                               (map (\<lambda>i. targets ! i) (retained_rows g (length inputs) k))
                               batch_size s0 idxs0 j) ! i).
                 q < length (retained_rows g (length inputs) k)
               \<and> map (\<lambda>i. inputs ! i) (retained_rows g (length inputs) k) ! q
                   = inputs ! (retained_rows g (length inputs) k ! q)
               \<and> map (\<lambda>i. targets ! i) (retained_rows g (length inputs) k) ! q
                   = targets ! (retained_rows g (length inputs) k ! q)
               \<and> retained_rows g (length inputs) k ! q \<notin> set (held_rows g (length inputs) k)))
        \<and> (\<not> hide \<and> holdout_threshold \<le> r \<and> held_rows g (length inputs) k \<noteq> []
             \<and> 0 < model_output_dim m \<longrightarrow>
             (\<forall>j<epochs. \<exists>cur held_losses.
                 bar ! j = Some (cur, Some held_losses)
               \<and> compile_losses m
                   (fst (training_state m opt g
                           (map (\<lambda>i. inputs ! i) (retained_rows g (length inputs) k))
                           (map (\<lambda>i. targets ! i) (retained_rows g (length inputs) k))
                           batch_size s0 idxs0 (Suc j)))
                   (replicate (num_nets m)
                      (map (\<lambda>i. inputs ! i) (held_rows g (length inputs) k)))
                   (replicate (num_nets m)
                      (map (\<lambda>i. targets ! i) (held_rows g (length inputs) k)))
                   = Inr held_losses))"
    by (rule train_holdout_facts [OF fin d0 ks ok wi wt len bs nh ret refl refl refl refl refl
          refl])
qed

theorem holdout_rows_are_set_aside_witness:
  "num_holdout_of (length example_rows) (1 / 2) 5000 = Inr 2
   \<and> held_rows example_rng (length example_rows) 2 = [3, 2]
   \<and> retained_rows example_rng (length example_rows) 2 = [1, 0]
   \<and> (let N = length example_rows;
          held = held_rows example_rng N 2;
          retained = retained_rows example_rng N 2;
          rows = map (\<lambda>i. example_rows ! i) retained;
          targs = map (\<lambda>i. example_targets ! i) retained;
          hrows = map (\<lambda>i. example_rows ! i) held;
          htargs = map (\<lambda>i. example_targets ! i) held
      in (\<exists>x p. round_to_double (real N) = Some x \<and> round_to_double (x * (1 / 2)) = Some p
             \<and> (2::int) = min (if 0 \<le> p then \<lfloor>p\<rfloor> else \<lceil>p\<rceil>) 5000)
       \<and> length held = (if (2::int) < 0 then nat (max 0 (int N + 2)) else min N (nat 2))
       \<and> (2::int) = min \<lfloor>real N * (1 / 2)\<rfloor> 5000
       \<and> held @ retained = np_random_permutation example_rng N
       \<and> set held \<inter> set retained = {}
       \<and> (\<exists>sc s0 idxs0 bar.
             scaler probed_model = Some sc \<and> fit sc (sess probed_model) rows = Inr s0
           \<and> np_random_randint example_rng (length rows) (num_nets probed_model) (length rows)
               = Inr idxs0
           \<and> train (probed_model\<lparr>sess := sess probed_model\<rparr>) example_rows example_targets
                 2 5 False (1 / 2) 5000 example_rng
               = Inr (probed_model\<lparr>sess := fst (training_state probed_model probe_optimizer
                                                example_rng rows targs 2 s0 idxs0 5)\<rparr>, bar)
           \<and> (\<forall>j i. i < num_nets probed_model \<longrightarrow>
                 (\<forall>q\<in>set (snd (training_state probed_model probe_optimizer example_rng rows
                                  targs 2 s0 idxs0 j) ! i).
                    q < length retained \<and> rows ! q = example_rows ! (retained ! q)
                  \<and> targs ! q = example_targets ! (retained ! q)
                  \<and> retained ! q \<notin> set held))
           \<and> (\<forall>j<5. \<exists>cur held_losses.
                  bar ! j = Some (cur, Some held_losses)
                \<and> compile_losses probed_model
                    (fst (training_state probed_model probe_optimizer example_rng rows targs 2
                            s0 idxs0 (Suc j)))
                    (replicate (num_nets probed_model) hrows)
                    (replicate (num_nets probed_model) htargs)
                    = Inr held_losses)))"
proof -
  have bs: "0 < (2::nat)" by simp
  have nh: "num_holdout_of (length example_rows) (1 / 2) 5000 = Inr 2" by code_simp
  have hr: "held_rows example_rng (length example_rows) 2 = [3, 2]" by code_simp
  have rr: "retained_rows example_rng (length example_rows) 2 = [1, 0]" by code_simp
  have ret: "retained_rows example_rng (length example_rows) 2 \<noteq> []" by (simp add: rr)
  have hne: "held_rows example_rng (length example_rows) 2 \<noteq> []" by (simp add: hr)
  have ex: "round_to_double (real (length example_rows)) = Some (real (length example_rows))
      \<and> round_to_double (real (length example_rows) * (1 / 2))
          = Some (real (length example_rows) * (1 / 2))
      \<and> (0::real) \<le> 1 / 2" by code_simp
  have th: "holdout_threshold \<le> 1 / 2" by code_simp
  have od: "0 < model_output_dim probed_model" by (simp add: probed_train_facts(9))
  note T = holdout_rows_are_set_aside [OF nh, where g = example_rng and ?m0.0 = built_model
      and opt = probe_optimizer and env = example_env and m = probed_model
      and s = "sess probed_model" and targets = example_targets and batch_size = 2
      and epochs = 5 and hide = False, unfolded Let_def]
  note T0 = T [THEN conjunct1]
  note U = T [THEN conjunct2]
  note T1 = U [THEN conjunct1]
  note T2 = U [THEN conjunct2, THEN conjunct1, THEN mp, OF ex]
  note T3 = U [THEN conjunct2, THEN conjunct2, THEN conjunct1]
  note T5 = U [THEN conjunct2, THEN conjunct2, THEN conjunct2, THEN conjunct2, THEN conjunct1]
  note T6 = U [THEN conjunct2, THEN conjunct2, THEN conjunct2, THEN conjunct2, THEN conjunct2,
      THEN mp]
  have prem: "finalize built_model probe_optimizer example_env = (None, probed_model)
       \<and> decays built_model = [] \<and> keeps_shapes probed_model probe_optimizer
       \<and> vars_ok probed_model (sess probed_model)
       \<and> list_all (\<lambda>r. length r = model_input_dim probed_model) example_rows
       \<and> list_all (\<lambda>r. length r = model_output_dim probed_model) example_targets
       \<and> length example_rows \<le> length example_targets \<and> 0 < (2::nat)
       \<and> retained_rows example_rng (length example_rows) 2 \<noteq> []"
    by (intro conjI probed_finalize example_train_facts(1) probe_keeps_shapes
        probed_train_facts(1,2,3) example_train_facts(6) bs ret)
  let ?rows = "map (\<lambda>i. example_rows ! i) (retained_rows example_rng (length example_rows) 2)"
  let ?targs = "map (\<lambda>i. example_targets ! i)
                  (retained_rows example_rng (length example_rows) 2)"
  from T6 [OF prem] obtain sc s0 idxs0 bar where
    a: "scaler probed_model = Some sc" "fit sc (sess probed_model) ?rows = Inr s0"
       "np_random_randint example_rng (length ?rows) (num_nets probed_model) (length ?rows)
          = Inr idxs0"
       "train (probed_model\<lparr>sess := sess probed_model\<rparr>) example_rows example_targets
                 2 5 False (1 / 2) 5000 example_rng
          = Inr (probed_model\<lparr>sess := fst (training_state probed_model probe_optimizer
                                           example_rng ?rows ?targs 2 s0 idxs0 5)\<rparr>, bar)"
    and q: "\<forall>j i. i < num_nets probed_model \<longrightarrow>
                 (\<forall>q\<in>set (snd (training_state probed_model probe_optimizer example_rng ?rows
                                  ?targs 2 s0 idxs0 j) ! i).
                    q < length (retained_rows example_rng (length example_rows) 2)
                  \<and> ?rows ! q
                      = example_rows ! (retained_rows example_rng (length example_rows) 2 ! q)
                  \<and> ?targs ! q
                      = example_targets
                          ! (retained_rows example_rng (length example_rows) 2 ! q)
                  \<and> retained_rows example_rng (length example_rows) 2 ! q
                      \<notin> set (held_rows example_rng (length example_rows) 2))"
    and h: "\<not> False \<and> holdout_threshold \<le> 1 / 2
            \<and> held_rows example_rng (length example_rows) 2 \<noteq> []
            \<and> 0 < model_output_dim probed_model \<longrightarrow>
            (\<forall>j<5. \<exists>cur held_losses.
                  bar ! j = Some (cur, Some held_losses)
                \<and> compile_losses probed_model
                    (fst (training_state probed_model probe_optimizer example_rng ?rows ?targs 2
                            s0 idxs0 (Suc j)))
                    (replicate (num_nets probed_model)
                       (map (\<lambda>i. example_rows ! i)
                          (held_rows example_rng (length example_rows) 2)))
                    (replicate (num_nets probed_model)
                       (map (\<lambda>i. example_targets ! i)
                          (held_rows example_rng (length example_rows) 2)))
                    = Inr held_losses)"
    by blast
  have prem2: "\<not> False \<and> holdout_threshold \<le> 1 / 2
            \<and> held_rows example_rng (length example_rows) 2 \<noteq> []
            \<and> 0 < model_output_dim probed_model"
    by (intro conjI th hne od) simp
  note h' = h [THEN mp, OF prem2]
  show ?thesis
    unfolding Let_def
    by (intro conjI exI [of _ sc] exI [of _ s0] exI [of _ idxs0] exI [of _ bar])
       (fact nh hr rr T0 T1 T2 T3 T5 a q h')+
qed

text \<open>
  The claim as worded makes the number of held-out rows \<open>min(floor(r * N), max_logging)\<close>.
  With four rows and a ratio of 2 that is 8, and the slice of a permutation of four rows
  has four. With three rows and the ratio \<^verbatim>\<open>1.0 / 3.0\<close>, a double just below a third, it is
  0; the double product is 1.0, one row is held out, and the call returns. With four
  rows and a ratio of -1/2 it is -2, and the slice \<^verbatim>\<open>permutation[:-2]\<close> has two rows.
\<close>

theorem holdout_count_is_not_the_floor:
  "(num_holdout_of (length example_rows) 2 5000 = Inr 8
      \<and> length (held_rows example_rng (length example_rows) 8) = 4
      \<and> min \<lfloor>real (length example_rows) * 2\<rfloor> 5000 = (8::int))
   \<and> (num_holdout_of (length three_rows) one_third 5000 = Inr 1
      \<and> length (held_rows example_rng (length three_rows) 1) = 1
      \<and> min \<lfloor>real (length three_rows) * one_third\<rfloor> 5000 = (0::int)
      \<and> 0 \<le> one_third \<and> one_third \<le> 1
      \<and> (\<exists>s' bar. train probed_model three_rows three_targets 2 5 False one_third 5000
                     example_rng = Inr (probed_model\<lparr>sess := s'\<rparr>, bar)))
   \<and> (num_holdout_of (length example_rows) (- 1 / 2) 5000 = Inr (- 2)
      \<and> length (held_rows example_rng (length example_rows) (- 2)) = 2
      \<and> min \<lfloor>real (length example_rows) * (- 1 / 2)\<rfloor> 5000 = (- 2::int))"
proof -
  have a: "num_holdout_of (length example_rows) 2 5000 = Inr 8
      \<and> length (held_rows example_rng (length example_rows) 8) = 4
      \<and> min \<lfloor>real (length example_rows) * 2\<rfloor> 5000 = (8::int)" by code_simp
  have nh: "num_holdout_of (length three_rows) one_third 5000 = Inr 1" by code_simp
  have b: "length (held_rows example_rng (length three_rows) 1) = 1
      \<and> min \<lfloor>real (length three_rows) * one_third\<rfloor> 5000 = (0::int)
      \<and> 0 \<le> one_third \<and> one_third \<le> 1" by code_simp
  have c: "num_holdout_of (length example_rows) (- 1 / 2) 5000 = Inr (- 2)
      \<and> length (held_rows example_rng (length example_rows) (- 2)) = 2
      \<and> min \<lfloor>real (length example_rows) * (- 1 / 2)\<rfloor> 5000 = (- 2::int)" by code_simp
  have bs: "0 < (2::nat)" by simp
  have draw: "retained_rows example_rng (length three_rows) 1 \<noteq> []
                \<or> \<not> empty_range_raises example_rng" by code_simp
  have s: "probed_model\<lparr>sess := sess probed_model\<rparr> = probed_model" by simp
  from train_exact [OF probed_finalize example_train_facts(1) probe_keeps_shapes
      probed_train_facts(1,4,5,6) bs nh draw refl refl refl refl, of 5 False]
  have t: "\<exists>s' bar. train probed_model three_rows three_targets 2 5 False one_third 5000
                     example_rng = Inr (probed_model\<lparr>sess := s'\<rparr>, bar)"
    unfolding s by blast
  from a nh b c t show ?thesis by (intro conjI) simp_all
qed

section \<open>Calls on a model that is not finalized\<close>

text \<open>
  C5. The claim is that \<^verbatim>\<open>train\<close> and \<^verbatim>\<open>predict\<close> fail on every model that has not been
  finalized. \<^verbatim>\<open>save\<close>, \<^verbatim>\<open>add\<close>, \<^verbatim>\<open>pop\<close> and \<^verbatim>\<open>finalize\<close> test the flag
  \<^verbatim>\<open>finalized\<close>; \<^verbatim>\<open>train\<close> and \<^verbatim>\<open>predict\<close> do not, they fail only where an object they
  use is missing. A \<^verbatim>\<open>finalize\<close> in load mode that finds no archive at its path raises at
  \<^verbatim>\<open>np.load\<close> (line 206), after the whole graph has been built and before the flag is set
  (line 213): on the model it leaves, \<^verbatim>\<open>finalized\<close> is false, \<^verbatim>\<open>save\<close> raises
  \<^verbatim>\<open>RuntimeError\<close>, and \<^verbatim>\<open>predict\<close> returns predictions on both paths.
\<close>

theorem predict_answers_on_unfinalized_model:
  "finalize (load_model ''missing.npz'') idle_optimizer example_env
     = (Some IOError, failed_load_model)
   \<and> \<not> finalized failed_load_model
   \<and> save failed_load_model (Some ''out'') (\<lambda>layer. ''FC'') Map.empty = Inl RuntimeError
   \<and> predict failed_load_model (Arr2 example_batch) True
       = Inr (Arr3 [[[2], [4]], [[4], [8]]], None)
   \<and> predict failed_load_model (Arr2 example_batch) False
       = Inr (Arr2 [[3], [6]], Some (Arr2 [[1], [4]]))"
proof -
  have 1: "fst (finalize (load_model ''missing.npz'') idle_optimizer example_env) = Some IOError"
    by code_simp
  have 2: "\<not> finalized failed_load_model" by code_simp
  have 3: "predict failed_load_model (Arr2 example_batch) True
             = Inr (Arr3 [[[2], [4]], [[4], [8]]], None)" by code_simp
  have 4: "predict failed_load_model (Arr2 example_batch) False
             = Inr (Arr2 [[3], [6]], Some (Arr2 [[1], [4]]))" by code_simp
  have 5: "save failed_load_model (Some ''out'') (\<lambda>layer. ''FC'') Map.empty = Inl RuntimeError"
    using 2 by (simp add: save_def)
  from 1 have "finalize (load_model ''missing.npz'') idle_optimizer example_env
     = (Some IOError, failed_load_model)"
    by (simp add: failed_load_model_def prod_eq_iff)
  with 2 3 4 5 show ?thesis by blast
qed

section \<open>Saving and loading\<close>

text \<open>
  C2. The claim is that the parameters written by \<^verbatim>\<open>save\<close> are restored by a model of the
  same structure constructed in load mode and finalized, as the docstrings of \<^verbatim>\<open>save\<close>
  and of \<^verbatim>\<open>__init__\<close> say. \<^verbatim>\<open>save\<close> writes a structure file and a MAT-file
  \<^verbatim>\<open><savedir>/<name>.mat\<close> whose keys are the positions \<^verbatim>\<open>"0", "1", ...\<close> of the variables;
  \<^verbatim>\<open>finalize\<close> reads \<^verbatim>\<open>np.load(self.model_dir)\<close>, an \<^verbatim>\<open>.npz\<close> archive keyed by tensor
  names (the \<^verbatim>\<open>loadmat\<close> of lines 197-200 is commented out). On the files that \<^verbatim>\<open>save\<close>
  wrote, \<^verbatim>\<open>finalize\<close> in load mode raises, with the path of the MAT-file as with the
  directory, and the model is not finalized; and a key of the MAT-file names no tensor
  of the graph.
\<close>

theorem saved_parameters_are_not_restored:
  "save finalized_model (Some ''out'') (\<lambda>layer. ''FC'') Map.empty = Inr saved_files
   \<and> saved_files ''out/model.mat''
       = Some (MatFile [(''0'', Arr2 [[0]]), (''1'', Arr2 [[1]]),
                        (''2'', Arr3 [[[1]], [[2]]]), (''3'', Arr3 [[[0]], [[0]]])])
   \<and> fst (finalize (load_model ''out/model.mat'') idle_optimizer
             (example_env\<lparr>files := saved_files\<rparr>)) = Some IOError
   \<and> \<not> finalized (snd (finalize (load_model ''out/model.mat'') idle_optimizer
                            (example_env\<lparr>files := saved_files\<rparr>)))
   \<and> fst (finalize (load_model ''out'') idle_optimizer
             (example_env\<lparr>files := saved_files\<rparr>)) = Some IOError
   \<and> get_tensor_by_name (snd (finalize (load_model ''out/model.mat'') idle_optimizer
                                  (example_env\<lparr>files := saved_files\<rparr>)))
         (leaf_name example_env) (''0'' @ '':0'') = None"
proof -
  have 0: "isl (save finalized_model (Some ''out'') (\<lambda>layer. ''FC'') Map.empty) = False"
    by code_simp
  have 1: "save finalized_model (Some ''out'') (\<lambda>layer. ''FC'') Map.empty = Inr saved_files"
    using 0 unfolding saved_files_def
    by (cases "save finalized_model (Some ''out'') (\<lambda>layer. ''FC'') Map.empty") simp_all
  have 2: "saved_files ''out/model.mat''
       = Some (MatFile [(''0'', Arr2 [[0]]), (''1'', Arr2 [[1]]),
                        (''2'', Arr3 [[[1]], [[2]]]), (''3'', Arr3 [[[0]], [[0]]])])"
    by code_simp
  have 3: "fst (finalize (load_model ''out/model.mat'') idle_optimizer
             (example_env\<lparr>files := saved_files\<rparr>)) = Some IOError" by code_simp
  have 4: "\<not> finalized (snd (finalize (load_model ''out/model.mat'') idle_optimizer
                            (example_env\<lparr>files := saved_files\<rparr>)))" by code_simp
  have 5: "fst (finalize (load_model ''out'') idle_optimizer
             (example_env\<lparr>files := saved_files\<rparr>)) = Some IOError" by code_simp
  have 6: "get_tensor_by_name (snd (finalize (load_model ''out/model.mat'') idle_optimizer
                                  (example_env\<lparr>files := saved_files\<rparr>)))
         (leaf_name example_env) (''0'' @ '':0'') = None" by code_simp
  from 1 2 3 4 5 6 show ?thesis by blast
qed

end
